(* ===== verification/Prelude.thy ===== *)
theory Prelude
  imports Complex_Main
begin

text \<open>
  Shared vocabulary of the walitool development.  Python's float64 is idealised as
  \<open>real\<close> (rounding is not modelled); a numpy vector is a \<open>real list\<close>, a numpy
  2-D array a list of rows.  Exceptions raised by numpy or by the code are values of
  \<open>py_error\<close>, and a computation that may raise returns \<open>py_error + 'a\<close>
  (\<open>Inl\<close> the exception), sequenced with \<open>sbind\<close>, \<open>mapM\<close> and \<open>foldM\<close>.
  The numpy reductions the code calls (\<open>np.min\<close>, \<open>np.max\<close>, \<open>np.argmin\<close>,
  \<open>np.clip\<close>, broadcasting of a vector) are defined here once, with the lemmas
  that connect them to \<open>Min\<close>, \<open>Max\<close> and the bounds they guarantee.
\<close>

named_theorems model_simps "evaluation rules of the shared numpy helpers"

type_synonym vec = "real list"
type_synonym matrix = "real list list"

datatype py_error =
    ValueError        \<comment> \<open>numpy reduction on an empty array, shape mismatch, explicit raise\<close>
  | IndexError        \<comment> \<open>index out of range\<close>
  | EvaluationError   \<comment> \<open>exception raised by the user's fitness callable\<close>
  | ConfigError       \<comment> \<open>invalid construction parameters (spec section 4.5)\<close>
  | ShapeError        \<comment> \<open>an evaluator returned a vector of the wrong length (spec section 7)\<close>
  | DomainError       \<comment> \<open>a row count of at most 1 for the entropy weights (spec section 7)\<close>
  | ZeroDivisionError \<comment> \<open>Python's \<open>/\<close> with a zero divisor (the drivers' timing ratios)\<close>

subsection \<open>Exceptions as sums\<close>

definition sbind :: "'e + 'a \<Rightarrow> ('a \<Rightarrow> 'e + 'b) \<Rightarrow> 'e + 'b" where
  "sbind r f = (case r of Inl e \<Rightarrow> Inl e | Inr a \<Rightarrow> f a)"

text \<open>A Python \<open>for\<close> loop whose body may raise: the first exception ends it.\<close>

fun foldM :: "('a \<Rightarrow> 's \<Rightarrow> 'e + 's) \<Rightarrow> 'a list \<Rightarrow> 's \<Rightarrow> 'e + 's" where
  "foldM f [] s = Inr s"
| "foldM f (x # xs) s = sbind (f x s) (foldM f xs)"

text \<open>A list comprehension whose element computation may raise.\<close>

fun mapM :: "('a \<Rightarrow> 'e + 'b) \<Rightarrow> 'a list \<Rightarrow> 'e + 'b list" where
  "mapM f [] = Inr []"
| "mapM f (x # xs) = sbind (f x) (\<lambda>y. sbind (mapM f xs) (\<lambda>ys. Inr (y # ys)))"

text \<open>Python's \<open>x / y\<close> on floats: a zero divisor raises instead of giving \<open>inf\<close>.\<close>

definition py_div :: "real \<Rightarrow> real \<Rightarrow> py_error + real" where
  "py_div x y = (if y = 0 then Inl ZeroDivisionError else Inr (x / y))"

subsection \<open>Python dictionaries\<close>

definition dict_get :: "('k \<rightharpoonup> 'v) \<Rightarrow> 'k \<Rightarrow> 'v \<Rightarrow> 'v" where
  "dict_get m k d = (case m k of None \<Rightarrow> d | Some v \<Rightarrow> v)"

subsection \<open>Element-wise numpy operations on vectors\<close>

definition map3 :: "('a \<Rightarrow> 'b \<Rightarrow> 'c \<Rightarrow> 'd) \<Rightarrow> 'a list \<Rightarrow> 'b list \<Rightarrow> 'c list \<Rightarrow> 'd list" where
  "map3 f xs ys zs = map (\<lambda>(x, y, z). f x y z) (zip xs (zip ys zs))"

subsection \<open>numpy reductions\<close>

text \<open>
  \<open>np.min\<close> and \<open>np.max\<close> raise \<open>ValueError\<close> on an empty array; the callers check
  emptiness first, so the helpers themselves are the reductions of a non-empty list.
\<close>

definition np_min :: "real list \<Rightarrow> real" where
  "np_min xs = fold min (tl xs) (hd xs)"

definition np_max :: "real list \<Rightarrow> real" where
  "np_max xs = fold max (tl xs) (hd xs)"

text \<open>\<open>np.argmin\<close> returns the first index at which the minimum occurs.\<close>

fun first_index :: "'a \<Rightarrow> 'a list \<Rightarrow> nat" where
  "first_index y [] = 0"
| "first_index y (x # xs) = (if x = y then 0 else Suc (first_index y xs))"

definition np_argmin :: "real list \<Rightarrow> nat" where
  "np_argmin xs = first_index (np_min xs) xs"

text \<open>\<open>np.clip(a, lo, hi)\<close> is \<open>np.minimum(np.maximum(a, lo), hi)\<close>.\<close>

definition np_clip :: "real \<Rightarrow> real \<Rightarrow> real \<Rightarrow> real" where
  "np_clip x lo hi = min (max x lo) hi"

subsection \<open>Two-dimensional arrays with their shape\<close>

text \<open>
  A numpy 2-D array keeps its column count even when it has no rows
  (\<open>np.array([]).reshape(0, 0)\<close> versus a \<open>0 \<times> 3\<close> array), so the decision
  matrices of the EWM and TOPSIS code carry it: \<open>data.shape\<close> is
  \<open>(length (rows m), ncols m)\<close>.  A numpy array is never ragged: \<open>wf_mat\<close> is that
  type invariant.
\<close>

record mat =
  ncols :: nat
  rows :: "real list list"

definition wf_mat :: "mat \<Rightarrow> bool" where
  "wf_mat m \<longleftrightarrow> (\<forall>r \<in> set (rows m). length r = ncols m)"

definition column :: "mat \<Rightarrow> nat \<Rightarrow> vec" where
  "column m j = map (\<lambda>r. r ! j) (rows m)"

subsection \<open>Facts: exceptions, loops and dictionaries\<close>

lemma sbind_Inl [simp]: "sbind (Inl e) f = Inl e"
  by (simp add: sbind_def)

lemma sbind_Inr [simp]: "sbind (Inr a) f = f a"
  by (simp add: sbind_def)

lemma sbind_eq_Inr:
  "sbind r f = Inr b \<longleftrightarrow> (\<exists>a. r = Inr a \<and> f a = Inr b)"
  by (cases r) simp_all

lemma foldM_single [simp]: "foldM f [x] = f x"
proof
  fix s show "foldM f [x] s = f x s" by (cases "f x s") simp_all
qed

lemma foldM_append:
  "foldM f (xs @ ys) s = sbind (foldM f xs s) (foldM f ys)"
  by (induction xs arbitrary: s) (auto simp: sbind_def split: sum.splits)

lemma foldM_invariant:
  assumes "P s"
    and "\<And>x t t'. x \<in> set xs \<Longrightarrow> P t \<Longrightarrow> f x t = Inr t' \<Longrightarrow> P t'"
    and "foldM f xs s = Inr s'"
  shows "P s'"
  using assms
proof (induction xs arbitrary: s)
  case Nil
  then show ?case by simp
next
  case (Cons x xs)
  from Cons.prems(3) obtain t where t: "f x s = Inr t" and rest: "foldM f xs t = Inr s'"
    by (auto simp: sbind_eq_Inr)
  have "P t" using Cons.prems(2)[of x s t] Cons.prems(1) t by simp
  then show ?case using Cons.IH[of t] Cons.prems(2) rest by auto
qed

lemma foldM_total:
  assumes "\<And>x t. x \<in> set xs \<Longrightarrow> P t \<Longrightarrow> \<exists>t'. f x t = Inr t' \<and> P t'"
    and "P s"
  shows "\<exists>s'. foldM f xs s = Inr s' \<and> P s'"
  using assms
proof (induction xs arbitrary: s)
  case Nil
  then show ?case by simp
next
  case (Cons x xs)
  then obtain t where "f x s = Inr t" "P t" by fastforce
  with Cons.IH Cons.prems(1) show ?case by simp
qed

lemma mapM_cong: "(\<And>x. x \<in> set xs \<Longrightarrow> f x = g x) \<Longrightarrow> mapM f xs = mapM g xs"
  by (induction xs) simp_all

lemma mapM_Inr_map:
  "(\<And>x. x \<in> set xs \<Longrightarrow> f x = Inr (g x)) \<Longrightarrow> mapM f xs = Inr (map g xs)"
  by (induction xs) simp_all

lemma mapM_Inr_nth:
  "mapM f xs = Inr ys \<Longrightarrow> length ys = length xs \<and> (\<forall>i < length xs. f (xs ! i) = Inr (ys ! i))"
proof (induction xs arbitrary: ys)
  case Nil
  then show ?case by simp
next
  case (Cons x xs)
  then obtain y ys' where "f x = Inr y" "mapM f xs = Inr ys'" "ys = y # ys'"
    by (auto simp: sbind_eq_Inr)
  with Cons.IH show ?case by (auto simp: nth_Cons split: nat.splits)
qed

lemma dict_get_simps [simp]:
  "dict_get Map.empty k d = d"
  "dict_get (m(k \<mapsto> v)) k d = v"
  "k \<noteq> k' \<Longrightarrow> dict_get (m(k' \<mapsto> v)) k d = dict_get m k d"
  by (simp_all add: dict_get_def)

lemma mapM_total:
  assumes "\<And>x. x \<in> set xs \<Longrightarrow> \<exists>y. f x = Inr y \<and> P y"
  shows "\<exists>ys. mapM f xs = Inr ys \<and> length ys = length xs \<and> (\<forall>y \<in> set ys. P y)"
  using assms
proof (induction xs)
  case Nil
  then show ?case by simp
next
  case (Cons x xs)
  then obtain y ys where "f x = Inr y" "P y" "mapM f xs = Inr ys" "length ys = length xs"
    "\<forall>y \<in> set ys. P y" by fastforce
  then show ?case by simp
qed

lemma sum_list_divide: "sum_list (map (\<lambda>x. x / s) xs) = sum_list xs / (s::real)"
  by (induction xs) (simp_all add: add_divide_distrib)

subsection \<open>Facts: element-wise operations and reductions\<close>

lemma length_map3 [simp]: "length (map3 f xs ys zs) = min (length xs) (min (length ys) (length zs))"
  by (simp add: map3_def)

lemma nth_map3 [simp]:
  "i < length xs \<Longrightarrow> i < length ys \<Longrightarrow> i < length zs \<Longrightarrow> map3 f xs ys zs ! i = f (xs ! i) (ys ! i) (zs ! i)"
  by (simp add: map3_def)

lemma map3_simps [simp, model_simps]:
  "map3 f [] ys zs = []"
  "map3 f (x # xs) (y # ys) (z # zs) = f x y z # map3 f xs ys zs"
  by (simp_all add: map3_def)

lemma nth_map2 [simp]:
  "i < length xs \<Longrightarrow> i < length ys \<Longrightarrow> map2 f xs ys ! i = f (xs ! i) (ys ! i)"
  by simp

lemma np_min_Min: "xs \<noteq> [] \<Longrightarrow> np_min xs = Min (set xs)"
  by (cases xs) (simp_all add: np_min_def Min.set_eq_fold [symmetric])

lemma np_max_Max: "xs \<noteq> [] \<Longrightarrow> np_max xs = Max (set xs)"
  by (cases xs) (simp_all add: np_max_def Max.set_eq_fold [symmetric])

lemma np_min_scale:
  assumes "xs \<noteq> []" and "0 < (c::real)"
  shows "np_min (map ((*) c) xs) = c * np_min xs"
proof -
  have "mono ((*) c)" using assms(2) by (auto intro: monoI)
  then show ?thesis using assms(1) by (simp add: np_min_Min mono_Min_commute)
qed

lemma np_max_scale:
  assumes "xs \<noteq> []" and "0 < (c::real)"
  shows "np_max (map ((*) c) xs) = c * np_max xs"
proof -
  have "mono ((*) c)" using assms(2) by (auto intro: monoI)
  then show ?thesis using assms(1) by (simp add: np_max_Max mono_Max_commute)
qed

lemma np_min_le: "x \<in> set xs \<Longrightarrow> np_min xs \<le> x"
  by (cases "xs = []") (simp_all add: np_min_Min)

lemma np_max_ge: "x \<in> set xs \<Longrightarrow> x \<le> np_max xs"
  by (cases "xs = []") (simp_all add: np_max_Max)

lemma np_min_in: "xs \<noteq> [] \<Longrightarrow> np_min xs \<in> set xs"
  by (simp add: np_min_Min)

lemma np_max_in: "xs \<noteq> [] \<Longrightarrow> np_max xs \<in> set xs"
  by (simp add: np_max_Max)

lemma np_min_simps [model_simps]:
  "np_min [x] = x" "np_min (x # y # ys) = np_min (min x y # ys)"
  by (simp_all add: np_min_def min.commute)

lemma np_max_simps [model_simps]:
  "np_max [x] = x" "np_max (x # y # ys) = np_max (max x y # ys)"
  by (simp_all add: np_max_def max.commute)

lemma first_index_props:
  "y \<in> set xs \<Longrightarrow> first_index y xs < length xs \<and> xs ! first_index y xs = y \<and>
     (\<forall>j < first_index y xs. xs ! j \<noteq> y)"
  by (induction xs) (auto simp: nth_Cons split: nat.splits)

lemma np_argmin_props:
  assumes "xs \<noteq> []"
  shows "np_argmin xs < length xs" "xs ! np_argmin xs = np_min xs"
    "\<forall>j < np_argmin xs. np_min xs < xs ! j"
proof -
  have m: "np_min xs \<in> set xs" using assms by (rule np_min_in)
  show "np_argmin xs < length xs" "xs ! np_argmin xs = np_min xs"
    using first_index_props[OF m] by (simp_all add: np_argmin_def)
  show "\<forall>j < np_argmin xs. np_min xs < xs ! j"
  proof (intro allI impI)
    fix j assume j: "j < np_argmin xs"
    with first_index_props[OF m] have "j < length xs" "xs ! j \<noteq> np_min xs"
      by (auto simp: np_argmin_def)
    moreover have "np_min xs \<le> xs ! j" using \<open>j < length xs\<close> by (simp add: np_min_le)
    ultimately show "np_min xs < xs ! j" by simp
  qed
qed

lemma np_clip_bounds: "lo \<le> hi \<Longrightarrow> lo \<le> np_clip x lo hi \<and> np_clip x lo hi \<le> hi"
  by (simp add: np_clip_def)

lemma np_clip_id: "lo \<le> x \<Longrightarrow> x \<le> hi \<Longrightarrow> np_clip x lo hi = x"
  by (simp add: np_clip_def)

subsection \<open>Facts: two-dimensional arrays\<close>

lemma length_column [simp]: "length (column m j) = length (rows m)"
  by (simp add: column_def)

lemma nth_column [simp]: "i < length (rows m) \<Longrightarrow> column m j ! i = rows m ! i ! j"
  by (simp add: column_def)

lemma wf_mat_nth_length:
  "wf_mat m \<Longrightarrow> i < length (rows m) \<Longrightarrow> length (rows m ! i) = ncols m"
  by (simp add: wf_mat_def)


end
