(* ===== verification/Bounds.thy ===== *)
theory Bounds
  imports Prelude
begin

text \<open>
  Bounds and the population store (spec section 4.1).  The reference optimizer
  \<open>NumpyDE\<close> (src/performance/de_benchmark.py) keeps per-dimension bounds
  \<open>self.lb\<close>, \<open>self.ub\<close> as vectors of length \<open>dim\<close>, draws the initial population
  as \<open>lb + (ub - lb) * np.random.rand(pop_size, dim)\<close> and clamps every mutant
  with \<open>np.clip(\<dots>, lb, ub)\<close>.  This theory holds those two operations on one row
  and the box predicate they establish.
\<close>

definition wf_bounds :: "vec \<Rightarrow> vec \<Rightarrow> nat \<Rightarrow> bool" where
  "wf_bounds lo hi n \<longleftrightarrow> length lo = n \<and> length hi = n \<and> (\<forall>d < n. lo ! d \<le> hi ! d)"

definition in_box :: "vec \<Rightarrow> vec \<Rightarrow> vec \<Rightarrow> bool" where
  "in_box lo hi v \<longleftrightarrow> length v = length lo \<and> (\<forall>d < length lo. lo ! d \<le> v ! d \<and> v ! d \<le> hi ! d)"

text \<open>\<open>np.clip(v, lb, ub)\<close> on one row.\<close>

definition clip_vec :: "vec \<Rightarrow> vec \<Rightarrow> vec \<Rightarrow> vec" where
  "clip_vec v lo hi = map3 np_clip v lo hi"

text \<open>One row of \<open>lb + (ub - lb) * r\<close>, with \<open>r\<close> a row of uniform draws in \<open>[0, 1)\<close>.\<close>

definition uniform_row :: "vec \<Rightarrow> vec \<Rightarrow> vec \<Rightarrow> vec" where
  "uniform_row lo hi r = map2 (+) lo (map2 (*) (map2 (-) hi lo) r)"

definition init_population :: "vec \<Rightarrow> vec \<Rightarrow> matrix \<Rightarrow> matrix" where
  "init_population lo hi R = map (uniform_row lo hi) R"

text \<open>The contract of \<open>np.random.rand(n, d)\<close>: an \<open>n \<times> d\<close> array of draws in \<open>[0, 1)\<close>.\<close>

definition unit_draws :: "nat \<Rightarrow> nat \<Rightarrow> matrix \<Rightarrow> bool" where
  "unit_draws n d R \<longleftrightarrow> length R = n \<and> (\<forall>r \<in> set R. length r = d \<and> (\<forall>x \<in> set r. 0 \<le> x \<and> x < 1))"

subsection \<open>Facts: clipping and sampling stay in the box\<close>

lemma length_clip_vec [simp]:
  "length v = length lo \<Longrightarrow> length hi = length lo \<Longrightarrow> length (clip_vec v lo hi) = length lo"
  by (simp add: clip_vec_def)

lemma in_box_length: "wf_bounds lo hi n \<Longrightarrow> in_box lo hi v \<Longrightarrow> length v = n"
  by (simp add: in_box_def wf_bounds_def)

lemma clip_vec_in_box:
  assumes "wf_bounds lo hi n" and "length v = n"
  shows "in_box lo hi (clip_vec v lo hi)"
  using assms np_clip_bounds by (auto simp: in_box_def wf_bounds_def clip_vec_def)

lemma clip_vec_id:
  assumes "wf_bounds lo hi n" and "in_box lo hi v"
  shows "clip_vec v lo hi = v"
  using assms by (auto simp: in_box_def wf_bounds_def clip_vec_def np_clip_id intro: nth_equalityI)

lemma uniform_row_in_box:
  assumes b: "wf_bounds lo hi n" and r: "length r = n" "\<forall>x \<in> set r. 0 \<le> x \<and> x < 1"
  shows "in_box lo hi (uniform_row lo hi r)"
proof -
  have len: "length hi = n" "length lo = n" using b by (auto simp: wf_bounds_def)
  have entry: "lo ! d \<le> uniform_row lo hi r ! d \<and> uniform_row lo hi r ! d \<le> hi ! d"
    if d: "d < n" for d
  proof -
    have le: "lo ! d \<le> hi ! d" using b d by (auto simp: wf_bounds_def)
    have x: "0 \<le> r ! d" "r ! d \<le> 1"
      using r d by (auto simp: less_imp_le)
    have eq: "uniform_row lo hi r ! d = lo ! d + (hi ! d - lo ! d) * r ! d"
      using d len r by (simp add: uniform_row_def)
    have "0 \<le> (hi ! d - lo ! d) * r ! d" using le x by simp
    moreover have "(hi ! d - lo ! d) * r ! d \<le> hi ! d - lo ! d"
      using le x mult_left_le[of "r ! d" "hi ! d - lo ! d"] by simp
    ultimately show ?thesis by (simp add: eq)
  qed
  show ?thesis
    using entry len r by (simp add: in_box_def uniform_row_def)
qed

lemma init_population_in_box:
  assumes "wf_bounds lo hi d" and "unit_draws n d R"
  shows "length (init_population lo hi R) = n"
    and "\<forall>p \<in> set (init_population lo hi R). in_box lo hi p"
  using assms uniform_row_in_box by (auto simp: init_population_def unit_draws_def)


end
