(* ===== verification/DE_Engine.thy ===== *)
theory DE_Engine
  imports Bounds
begin

text \<open>
  The differential-evolution engine of the reference optimizer \<open>NumpyDE\<close>
  (src/performance/de_benchmark.py): its configuration (\<open>__init__\<close>, lines 12-18),
  the random draws of one generation, mutation and crossover (spec section 4.3,
  lines 27-31) and greedy selection with best-solution tracking (spec section 4.4,
  lines 32-39).  The random source is explicit: one \<open>gen_draw\<close> holds what
  \<open>np.random.randint\<close> and \<open>np.random.rand\<close> return in one generation.
\<close>

subsection \<open>Configuration\<close>

record numpy_de =
  pop_size :: nat
  dim :: nat
  lb :: vec
  ub :: vec
  F :: real
  CR :: real

text \<open>\<open>NumpyDE.__init__\<close>: the options dictionary is read with \<open>get\<close> and defaults.\<close>

definition NumpyDE_init :: "nat \<Rightarrow> nat \<Rightarrow> vec \<times> vec \<Rightarrow> (string \<rightharpoonup> real) \<Rightarrow> numpy_de" where
  "NumpyDE_init pop_size' dimensions bounds options =
     \<lparr>pop_size = pop_size', dim = dimensions, lb = fst bounds, ub = snd bounds,
      F = dict_get options ''F'' 0.5, CR = dict_get options ''CR'' 0.7\<rparr>"

definition wf_cfg :: "numpy_de \<Rightarrow> bool" where
  "wf_cfg c \<longleftrightarrow> 0 < pop_size c \<and> wf_bounds (lb c) (ub c) (dim c)"

type_synonym batch_fn = "matrix \<Rightarrow> py_error + vec"

subsection \<open>The random draws of one generation\<close>

record gen_draw =
  idxs :: "(nat \<times> nat \<times> nat) list"
  cross_rand :: matrix

text \<open>
  The contract of \<open>np.random.randint(0, pop_size, size=(pop_size, 3))\<close> and of
  \<open>np.random.rand(pop_size, dim)\<close>.  The indices are neither distinct nor different
  from the target row (spec section 9, open question): nothing more is required.
\<close>

definition wf_draw :: "numpy_de \<Rightarrow> gen_draw \<Rightarrow> bool" where
  "wf_draw c g \<longleftrightarrow> length (idxs g) = pop_size c \<and>
     list_all (\<lambda>(a, b, d). a < pop_size c \<and> b < pop_size c \<and> d < pop_size c) (idxs g) \<and>
     unit_draws (pop_size c) (dim c) (cross_rand g)"

subsection \<open>Mutation and crossover\<close>

text \<open>\<open>np.clip(a + F * (b - c), lb, ub)\<close> for one target row, from its three draws.\<close>

definition mutant_row :: "numpy_de \<Rightarrow> matrix \<Rightarrow> nat \<times> nat \<times> nat \<Rightarrow> vec" where
  "mutant_row c P abd = (case abd of (a, b, d) \<Rightarrow>
     clip_vec (map2 (+) (P ! a) (map (\<lambda>x. F c * x) (map2 (-) (P ! b) (P ! d)))) (lb c) (ub c))"

text \<open>\<open>pop[idxs[:, 0]]\<close> etc.: fancy indexing raises \<open>IndexError\<close> out of range.\<close>

definition mutants :: "numpy_de \<Rightarrow> matrix \<Rightarrow> (nat \<times> nat \<times> nat) list \<Rightarrow> py_error + matrix" where
  "mutants c P ids =
     (if list_all (\<lambda>(a, b, d). a < length P \<and> b < length P \<and> d < length P) ids
      then Inr (map (mutant_row c P) ids) else Inl IndexError)"

text \<open>\<open>np.where(np.random.rand(pop_size, dim) < CR, mutant, pop)\<close>.\<close>

definition crossover :: "numpy_de \<Rightarrow> matrix \<Rightarrow> matrix \<Rightarrow> matrix \<Rightarrow> matrix" where
  "crossover c R M P = map3 (\<lambda>r m p. map3 (\<lambda>x y z. if x < CR c then y else z) r m p) R M P"

subsection \<open>Selection and the best solution\<close>

record de_state =
  pop :: matrix
  fitness :: vec
  best_cost :: real
  best_pos :: vec

text \<open>\<open>xs[mask] = ys[mask]\<close>: the rows where the boolean mask holds are taken from \<open>ys\<close>.\<close>

definition select_rows :: "bool list \<Rightarrow> 'a list \<Rightarrow> 'a list \<Rightarrow> 'a list" where
  "select_rows sel xs ys = map3 (\<lambda>b x y. if b then y else x) sel xs ys"

text \<open>
  Lines 32-39: \<open>improved = f_trial < fitness\<close> (a shape mismatch raises), the masked
  assignments, then \<open>min_val = np.min(fitness)\<close> and the update of the best solution
  when \<open>min_val < best_cost\<close>.  \<open>best_pos\<close> is a copy of the row, so later
  in-place updates of \<open>pop\<close> do not change it: a value in the model.
\<close>

definition de_select :: "de_state \<Rightarrow> matrix \<Rightarrow> vec \<Rightarrow> py_error + de_state" where
  "de_select st trial f_trial =
     (if length f_trial \<noteq> length (fitness st) then Inl ValueError
      else if length (fitness st) \<noteq> length (pop st) then Inl IndexError
      else
        let improved = map2 (<) f_trial (fitness st);
            pop' = select_rows improved (pop st) trial;
            fit' = select_rows improved (fitness st) f_trial
        in if fit' = [] then Inl ValueError
           else let min_val = np_min fit' in
             if min_val < best_cost st
             then Inr \<lparr>pop = pop', fitness = fit', best_cost = min_val, best_pos = pop' ! np_argmin fit'\<rparr>
             else Inr (st\<lparr>pop := pop', fitness := fit'\<rparr>))"

text \<open>The optimizer state invariant: shapes, the bound box, and the best solution
  as the minimum of the fitness vector held by one of the rows.\<close>

definition pop_in_box :: "numpy_de \<Rightarrow> matrix \<Rightarrow> bool" where
  "pop_in_box c P \<longleftrightarrow> (\<forall>p \<in> set P. in_box (lb c) (ub c) p)"

definition de_inv :: "numpy_de \<Rightarrow> de_state \<Rightarrow> bool" where
  "de_inv c st \<longleftrightarrow> length (pop st) = pop_size c \<and> length (fitness st) = pop_size c \<and>
     fitness st \<noteq> [] \<and> pop_in_box c (pop st) \<and> best_cost st = np_min (fitness st) \<and>
     (\<exists>i < length (pop st). pop st ! i = best_pos st \<and> fitness st ! i = best_cost st)"

subsection \<open>Facts: mutation and crossover stay in the box\<close>

lemma length_select_rows [simp]:
  "length (select_rows sel xs ys) = min (length sel) (min (length xs) (length ys))"
  by (simp add: select_rows_def)

lemma nth_select_rows [simp]:
  "i < length sel \<Longrightarrow> i < length xs \<Longrightarrow> i < length ys \<Longrightarrow>
   select_rows sel xs ys ! i = (if sel ! i then ys ! i else xs ! i)"
  by (simp add: select_rows_def)

lemma mutants_valid:
  assumes "list_all (\<lambda>(a, b, d). a < length P \<and> b < length P \<and> d < length P) ids"
  shows "mutants c P ids = Inr (map (mutant_row c P) ids)"
  using assms by (simp add: mutants_def)

lemma mutant_row_in_box:
  assumes "wf_cfg c" and "pop_in_box c P" and "a < length P" "b < length P" "d < length P"
  shows "in_box (lb c) (ub c) (mutant_row c P (a, b, d))"
proof -
  have wb: "wf_bounds (lb c) (ub c) (dim c)" using assms(1) by (simp add: wf_cfg_def)
  have "length (P ! a) = dim c" "length (P ! b) = dim c" "length (P ! d) = dim c"
    using assms(2-) in_box_length[OF wb] by (auto simp: pop_in_box_def)
  then show ?thesis
    unfolding mutant_row_def by (simp add: clip_vec_in_box[OF wb])
qed

lemma crossover_row_in_box:
  assumes "wf_bounds lo hi n" "length r = n" "in_box lo hi m" "in_box lo hi p"
  shows "in_box lo hi (map3 (\<lambda>x y z. if x < cr then y else z) r m p)"
  using assms by (auto simp: in_box_def wf_bounds_def)

lemma crossover_in_box:
  assumes "wf_cfg c" "unit_draws (pop_size c) (dim c) R" "length M = pop_size c" "pop_in_box c M"
    "length P = pop_size c" "pop_in_box c P"
  shows "length (crossover c R M P) = pop_size c" "pop_in_box c (crossover c R M P)"
proof -
  have wb: "wf_bounds (lb c) (ub c) (dim c)" using assms(1) by (simp add: wf_cfg_def)
  show "length (crossover c R M P) = pop_size c"
    using assms by (simp add: crossover_def unit_draws_def)
  show "pop_in_box c (crossover c R M P)"
    unfolding pop_in_box_def
  proof
    fix t assume "t \<in> set (crossover c R M P)"
    then obtain i where i: "i < pop_size c" and t: "t = crossover c R M P ! i"
      using assms(2,3,5) by (auto simp: in_set_conv_nth crossover_def unit_draws_def)
    have r: "length (R ! i) = dim c" using assms(2) i by (auto simp: unit_draws_def)
    have m: "in_box (lb c) (ub c) (M ! i)" and p: "in_box (lb c) (ub c) (P ! i)"
      using assms(3-6) i by (auto simp: pop_in_box_def)
    have "t = map3 (\<lambda>x y z. if x < CR c then y else z) (R ! i) (M ! i) (P ! i)"
      using t i assms(2,3,5) by (simp add: crossover_def unit_draws_def)
    then show "in_box (lb c) (ub c) t"
      using crossover_row_in_box[OF wb r m p] by simp
  qed
qed


lemma wf_draw_indices:
  assumes "wf_draw c g" and "length P = pop_size c"
  shows "list_all (\<lambda>(a, b, d). a < length P \<and> b < length P \<and> d < length P) (idxs g)"
  using assms by (auto simp: wf_draw_def list_all_iff)

lemma mutants_in_box:
  assumes c: "wf_cfg c" and d: "wf_draw c g" and P: "length P = pop_size c" "pop_in_box c P"
  shows "mutants c P (idxs g) = Inr (map (mutant_row c P) (idxs g))"
    "length (map (mutant_row c P) (idxs g)) = pop_size c"
    "pop_in_box c (map (mutant_row c P) (idxs g))"
proof -
  have ok: "list_all (\<lambda>(a, b, d). a < length P \<and> b < length P \<and> d < length P) (idxs g)"
    using d P(1) by (rule wf_draw_indices)
  show "mutants c P (idxs g) = Inr (map (mutant_row c P) (idxs g))"
    using ok by (rule mutants_valid)
  show "length (map (mutant_row c P) (idxs g)) = pop_size c"
    using d by (simp add: wf_draw_def)
  show "pop_in_box c (map (mutant_row c P) (idxs g))"
    using ok mutant_row_in_box[OF c P(2)] by (auto simp: pop_in_box_def list_all_iff)
qed

subsection \<open>Facts: greedy selection keeps the invariant\<close>

lemma de_select_Inr:
  assumes "de_select st trial ft = Inr st'"
  shows "length ft = length (fitness st)" "length (fitness st) = length (pop st)"
    "pop st' = select_rows (map2 (<) ft (fitness st)) (pop st) trial"
    "fitness st' = select_rows (map2 (<) ft (fitness st)) (fitness st) ft"
    "fitness st' \<noteq> []"
    "best_cost st' = (if np_min (fitness st') < best_cost st then np_min (fitness st') else best_cost st)"
    "best_pos st' = (if np_min (fitness st') < best_cost st then pop st' ! np_argmin (fitness st')
                     else best_pos st)"
  using assms by (auto simp: de_select_def Let_def split: if_splits)

lemma de_select_nth:
  assumes "de_select st trial ft = Inr st'" and "length trial = length (pop st)"
    and "i < length (pop st)"
  shows "fitness st' ! i = (if ft ! i < fitness st ! i then ft ! i else fitness st ! i)"
    "pop st' ! i = (if ft ! i < fitness st ! i then trial ! i else pop st ! i)"
  using de_select_Inr[OF assms(1)] assms(2,3) by simp_all

lemma de_select_length:
  assumes "de_select st trial ft = Inr st'" and "length trial = length (pop st)"
  shows "length (pop st') = length (pop st)" "length (fitness st') = length (pop st)"
  using de_select_Inr[OF assms(1)] assms(2) by simp_all

lemma de_select_inv:
  assumes inv: "de_inv c st" and tr: "length trial = pop_size c" "pop_in_box c trial"
    and sel: "de_select st trial ft = Inr st'"
  shows "de_inv c st' \<and> best_cost st' \<le> best_cost st"
proof -
  let ?n = "pop_size c"
  have lp: "length (pop st) = ?n" and lf: "length (fitness st) = ?n"
    and bc: "best_cost st = np_min (fitness st)" and box: "pop_in_box c (pop st)"
    using inv by (simp_all add: de_inv_def)
  obtain i where i: "i < ?n" "pop st ! i = best_pos st" "fitness st ! i = best_cost st"
    using inv by (auto simp: de_inv_def)
  have tl: "length trial = length (pop st)" using tr lp by simp
  note nth = de_select_nth[OF sel tl] and len = de_select_length[OF sel tl]
  have ne: "fitness st' \<noteq> []" using de_select_Inr(5)[OF sel] .
  have box': "pop_in_box c (pop st')"
    unfolding pop_in_box_def
  proof
    fix p assume "p \<in> set (pop st')"
    then obtain j where j: "j < ?n" "p = pop st' ! j" using len lp by (auto simp: in_set_conv_nth)
    then show "in_box (lb c) (ub c) p"
      using nth(2)[of j] box tr lp by (auto simp: pop_in_box_def split: if_splits)
  qed
  have "np_min (fitness st') \<le> fitness st' ! i"
    using i len lp by (simp add: np_min_le)
  also have "\<dots> \<le> best_cost st" using nth(1)[of i] i lp by auto
  finally have le: "np_min (fitness st') \<le> best_cost st" .
  show ?thesis
  proof (cases "np_min (fitness st') < best_cost st")
    case True
    have "np_argmin (fitness st') < length (pop st')"
      using np_argmin_props(1)[OF ne] len by simp
    moreover have "fitness st' ! np_argmin (fitness st') = np_min (fitness st')"
      using np_argmin_props(2)[OF ne] .
    ultimately show ?thesis
      using True de_select_Inr(6,7)[OF sel] len lp ne box'
      by (auto simp: de_inv_def)
  next
    case False
    then have eq: "np_min (fitness st') = best_cost st" using le by simp
    have "\<not> ft ! i < fitness st ! i"
    proof
      assume "ft ! i < fitness st ! i"
      then have "fitness st' ! i < best_cost st" using nth(1)[of i] i lp by simp
      moreover have "np_min (fitness st') \<le> fitness st' ! i"
        using i len lp by (simp add: np_min_le)
      ultimately show False using eq by simp
    qed
    then have "pop st' ! i = best_pos st" "fitness st' ! i = best_cost st"
      using nth[of i] i lp by simp_all
    then show ?thesis
      using False eq i de_select_Inr(6,7)[OF sel] len lp ne box'
      by (auto simp: de_inv_def)
  qed
qed


text \<open>With a vectorised objective the fitness vector stays the objective of the rows.\<close>

lemma de_select_vectorised:
  assumes sel: "de_select st trial (map g trial) = Inr st'"
    and tl: "length trial = length (pop st)" and fit: "fitness st = map g (pop st)"
  shows "fitness st' = map g (pop st')"
proof (rule nth_equalityI)
  show "length (fitness st') = length (map g (pop st'))"
    using de_select_length[OF sel tl] by simp
next
  fix i assume "i < length (fitness st')"
  then have i: "i < length (pop st)" using de_select_length[OF sel tl] by simp
  then show "fitness st' ! i = map g (pop st') ! i"
    using de_select_nth[OF sel tl i] de_select_length[OF sel tl] fit tl by simp
qed

lemma de_select_best_cost_le:
  "de_select st trial ft = Inr st' \<Longrightarrow> best_cost st' \<le> best_cost st"
  using de_select_Inr(6)[of st trial ft st'] by (simp split: if_splits)

lemma de_select_box:
  assumes sel: "de_select st trial ft = Inr st'" and tl: "length trial = length (pop st)"
    and box: "pop_in_box c (pop st)" "pop_in_box c trial" "in_box (lb c) (ub c) (best_pos st)"
  shows "pop_in_box c (pop st') \<and> in_box (lb c) (ub c) (best_pos st')"
proof -
  note nth = de_select_nth[OF sel tl] and len = de_select_length[OF sel tl]
  have box': "pop_in_box c (pop st')"
    unfolding pop_in_box_def
  proof
    fix p assume "p \<in> set (pop st')"
    then obtain j where j: "j < length (pop st)" "p = pop st' ! j"
      using len by (auto simp: in_set_conv_nth)
    then show "in_box (lb c) (ub c) p"
      using nth(2)[of j] box(1,2) tl by (auto simp: pop_in_box_def split: if_splits)
  qed
  have "np_argmin (fitness st') < length (pop st')"
    using np_argmin_props(1)[OF de_select_Inr(5)[OF sel]] len by simp
  then have "in_box (lb c) (ub c) (pop st' ! np_argmin (fitness st'))"
    using box' by (simp add: pop_in_box_def)
  then show ?thesis
    using box' box(3) de_select_Inr(7)[OF sel] by simp
qed

lemma de_select_total:
  assumes "length ft = length (pop st)" "length (fitness st) = length (pop st)"
    "length trial = length (pop st)" "pop st \<noteq> []"
  shows "\<exists>st'. de_select st trial ft = Inr st'"
  using assms by (auto simp: de_select_def Let_def dest!: arg_cong[where f = length])

subsection \<open>Properties of mutation and selection\<close>

text \<open>
  C6. Selection is greedy and keeps the incumbent on ties: a row is replaced by its
  trial, with the trial's fitness, exactly when the trial's fitness is strictly lower;
  otherwise row and fitness entry stay as they were.
\<close>

theorem de_select_greedy:
  assumes "de_select st trial ft = Inr st'" and "length trial = length (pop st)"
    and "i < length (pop st)"
  shows "(ft ! i < fitness st ! i \<longrightarrow> pop st' ! i = trial ! i \<and> fitness st' ! i = ft ! i) \<and>
         (fitness st ! i \<le> ft ! i \<longrightarrow> pop st' ! i = pop st ! i \<and> fitness st' ! i = fitness st ! i)"
  using de_select_nth[OF assms] by auto

text \<open>
  Mutation does not exclude degenerate draws (spec section 9, open question): when
  the two difference indices coincide, the mutant is the base row itself, whatever
  \<open>F\<close> is; with the base index equal to the target the trial is the target row.
\<close>

lemma mutant_row_degenerate:
  assumes "wf_cfg c" and "in_box (lb c) (ub c) (P ! a)" and "in_box (lb c) (ub c) (P ! b)"
  shows "mutant_row c P (a, b, b) = P ! a"
proof -
  have wb: "wf_bounds (lb c) (ub c) (dim c)" using assms(1) by (simp add: wf_cfg_def)
  have len: "length (P ! a) = dim c" "length (P ! b) = dim c"
    using in_box_length[OF wb] assms(2,3) by simp_all
  have "map2 (+) (P ! a) (map (\<lambda>x. F c * x) (map2 (-) (P ! b) (P ! b))) = P ! a"
    using len by (intro nth_equalityI) simp_all
  then show ?thesis using clip_vec_id[OF wb assms(2)] by (simp add: mutant_row_def)
qed

text \<open>Witnesses: the hypotheses hold at a concrete two-row population.\<close>

theorem de_select_greedy_witness:
  "de_select \<lparr>pop = [[1], [2]], fitness = [1, 4], best_cost = 1, best_pos = [1]\<rparr> [[3], [0]] [1, 0]
     = Inr \<lparr>pop = [[1], [0]], fitness = [1, 0], best_cost = 0, best_pos = [0::real]\<rparr> \<and>
   [[1], [0]] ! 0 = [[1], [2::real]] ! 0 \<and> [[1], [0]] ! 1 = [[3], [0::real]] ! 1"
proof -
  have sel: "de_select \<lparr>pop = [[1], [2]], fitness = [1, 4], best_cost = 1, best_pos = [1]\<rparr> [[3], [0]] [1, 0]
     = Inr \<lparr>pop = [[1], [0]], fitness = [1, 0], best_cost = 0, best_pos = [0::real]\<rparr>"
    by (simp add: de_select_def select_rows_def np_min_def np_argmin_def)
  show ?thesis using de_select_greedy[OF sel, of 0] de_select_greedy[OF sel, of 1] sel by simp
qed

end
