(* ===== verification/DE_Optimizer.thy ===== *)
theory DE_Optimizer
  imports DE_Engine
begin

text \<open>
  The generation loop of \<open>NumpyDE.optimize\<close> (src/performance/de_benchmark.py,
  lines 20-40; spec section 4.5): the initial population and its evaluation, one
  generation composed of mutation, crossover, one batch evaluation and selection,
  and the loop of exactly \<open>iters\<close> generations, where an exception of the
  fitness callable or of numpy ends the call with no result.  The random stream is an
  explicit \<open>de_rng\<close>: the draws for the initial population, then the draws of
  generation \<open>g\<close>.
\<close>

record de_rng =
  init_rand :: matrix
  gen_rand :: "nat \<Rightarrow> gen_draw"

definition wf_rng :: "numpy_de \<Rightarrow> de_rng \<Rightarrow> nat \<Rightarrow> bool" where
  "wf_rng c rng n \<longleftrightarrow> unit_draws (pop_size c) (dim c) (init_rand rng) \<and>
     (\<forall>g < n. wf_draw c (gen_rand rng g))"

text \<open>Lines 21-25: sample, evaluate, and keep the best row (\<open>np.argmin\<close>).\<close>

definition de_init :: "numpy_de \<Rightarrow> batch_fn \<Rightarrow> de_rng \<Rightarrow> py_error + de_state" where
  "de_init c func rng =
     (let P = init_population (lb c) (ub c) (init_rand rng) in
      sbind (func P) (\<lambda>fit.
        if fit = [] then Inl ValueError
        else let bi = np_argmin fit in
          if length P \<le> bi then Inl IndexError
          else Inr \<lparr>pop = P, fitness = fit, best_cost = fit ! bi, best_pos = P ! bi\<rparr>))"

text \<open>Lines 27-39: one generation.\<close>

definition de_generation :: "numpy_de \<Rightarrow> batch_fn \<Rightarrow> gen_draw \<Rightarrow> de_state \<Rightarrow> py_error + de_state" where
  "de_generation c func g st =
     sbind (mutants c (pop st) (idxs g)) (\<lambda>mutant.
       let trial = crossover c (cross_rand g) mutant (pop st) in
       sbind (func trial) (de_select st trial))"

text \<open>Line 26: \<open>for _ in range(iters)\<close>.\<close>

definition de_loop :: "numpy_de \<Rightarrow> batch_fn \<Rightarrow> de_rng \<Rightarrow> nat \<Rightarrow> de_state \<Rightarrow> py_error + de_state" where
  "de_loop c func rng n st = foldM (\<lambda>g. de_generation c func (gen_rand rng g)) [0..<n] st"

text \<open>The state after the initialisation and \<open>n\<close> generations.\<close>

definition numpy_de_run :: "numpy_de \<Rightarrow> batch_fn \<Rightarrow> de_rng \<Rightarrow> nat \<Rightarrow> py_error + de_state" where
  "numpy_de_run c func rng n = sbind (de_init c func rng) (de_loop c func rng n)"

definition NumpyDE_optimize :: "numpy_de \<Rightarrow> batch_fn \<Rightarrow> de_rng \<Rightarrow> nat \<Rightarrow> py_error + real \<times> vec" where
  "NumpyDE_optimize c func rng iters =
     sbind (numpy_de_run c func rng iters) (\<lambda>st. Inr (best_cost st, best_pos st))"

text \<open>
  A vectorised objective: the batch callable applies one function to every row and
  never raises, as \<open>rastrigin\<close> of the benchmark does.
\<close>

definition vectorised :: "(vec \<Rightarrow> real) \<Rightarrow> batch_fn" where
  "vectorised g M = Inr (map g M)"

text \<open>The part of the invariant that holds whatever the fitness callable returns.\<close>

definition pop_inv :: "numpy_de \<Rightarrow> de_state \<Rightarrow> bool" where
  "pop_inv c st \<longleftrightarrow> length (pop st) = pop_size c \<and> pop_in_box c (pop st) \<and>
     in_box (lb c) (ub c) (best_pos st)"

lemmas de_eval = numpy_de_run_def de_loop_def de_init_def de_generation_def mutants_def
  crossover_def de_select_def mutant_row_def clip_vec_def np_clip_def init_population_def
  uniform_row_def select_rows_def np_argmin_def np_min_def vectorised_def NumpyDE_optimize_def

lemmas de_wf_eval = wf_cfg_def wf_rng_def wf_draw_def unit_draws_def wf_bounds_def

subsection \<open>Facts: one generation and the run\<close>

lemma de_generation_Inr:
  assumes gen: "de_generation c func g st = Inr st'" and c: "wf_cfg c" and d: "wf_draw c g"
    and P: "length (pop st) = pop_size c" "pop_in_box c (pop st)"
  obtains trial ft where "length trial = pop_size c" "pop_in_box c trial"
    "func trial = Inr ft" "de_select st trial ft = Inr st'"
proof -
  let ?M = "map (mutant_row c (pop st)) (idxs g)"
  let ?T = "crossover c (cross_rand g) ?M (pop st)"
  note m = mutants_in_box[OF c d P]
  have R: "unit_draws (pop_size c) (dim c) (cross_rand g)" using d by (simp add: wf_draw_def)
  note t = crossover_in_box[OF c R m(2,3) P]
  from gen m(1) obtain ft where "func ?T = Inr ft" "de_select st ?T ft = Inr st'"
    by (auto simp: de_generation_def sbind_eq_Inr Let_def)
  with t that show ?thesis by blast
qed

lemma de_generation_best_cost_le:
  assumes "de_generation c func g st = Inr st'"
  shows "best_cost st' \<le> best_cost st"
  using assms by (auto simp: de_generation_def sbind_eq_Inr Let_def intro: de_select_best_cost_le)

lemma de_generation_pop_inv:
  assumes "de_generation c func g st = Inr st'" "wf_cfg c" "wf_draw c g" "pop_inv c st"
  shows "pop_inv c st'"
proof -
  have P: "length (pop st) = pop_size c" "pop_in_box c (pop st)" "in_box (lb c) (ub c) (best_pos st)"
    using assms(4) by (simp_all add: pop_inv_def)
  obtain trial ft where t: "length trial = pop_size c" "pop_in_box c trial"
    and sel: "de_select st trial ft = Inr st'"
    using de_generation_Inr[OF assms(1-3) P(1,2)] by blast
  have tl: "length trial = length (pop st)" using t P by simp
  show ?thesis
    using de_select_box[OF sel tl P(2) t(2) P(3)] de_select_length[OF sel tl] P(1)
    by (simp add: pop_inv_def)
qed

lemma de_generation_de_inv:
  assumes "de_generation c func g st = Inr st'" "wf_cfg c" "wf_draw c g" "de_inv c st"
  shows "de_inv c st'"
proof -
  have P: "length (pop st) = pop_size c" "pop_in_box c (pop st)"
    using assms(4) by (simp_all add: de_inv_def)
  obtain trial ft where t: "length trial = pop_size c" "pop_in_box c trial"
    and sel: "de_select st trial ft = Inr st'"
    using de_generation_Inr[OF assms(1-3) P] by blast
  show ?thesis using de_select_inv[OF assms(4) t sel] by simp
qed

lemma de_generation_vectorised:
  assumes "de_generation c (vectorised g) d st = Inr st'" "wf_cfg c" "wf_draw c d"
    "length (pop st) = pop_size c" "pop_in_box c (pop st)" "fitness st = map g (pop st)"
  shows "fitness st' = map g (pop st')"
proof -
  obtain trial ft where t: "length trial = pop_size c"
    and f: "vectorised g trial = Inr ft" and sel: "de_select st trial ft = Inr st'"
    using de_generation_Inr[OF assms(1-5)] by blast
  have "ft = map g trial" using f by (simp add: vectorised_def)
  then show ?thesis
    using de_select_vectorised[of st trial g st'] sel t assms(4,6) by simp
qed

lemma numpy_de_run_0: "numpy_de_run c func rng 0 = de_init c func rng"
  by (cases "de_init c func rng") (simp_all add: numpy_de_run_def de_loop_def)

lemma numpy_de_run_Suc:
  "numpy_de_run c func rng (Suc n) =
     sbind (numpy_de_run c func rng n) (de_generation c func (gen_rand rng n))"
  by (cases "de_init c func rng") (simp_all add: numpy_de_run_def de_loop_def foldM_append)

lemma numpy_de_run_inv:
  assumes run: "numpy_de_run c func rng n = Inr st"
    and init: "\<And>st. de_init c func rng = Inr st \<Longrightarrow> I st"
    and step: "\<And>k st st'. k < n \<Longrightarrow> I st \<Longrightarrow> de_generation c func (gen_rand rng k) st = Inr st' \<Longrightarrow> I st'"
  shows "I st"
proof -
  from run obtain st0 where st0: "de_init c func rng = Inr st0"
    and loop: "foldM (\<lambda>g. de_generation c func (gen_rand rng g)) [0..<n] st0 = Inr st"
    by (auto simp: numpy_de_run_def de_loop_def sbind_eq_Inr)
  show ?thesis
    by (rule foldM_invariant[where P = I, OF init[OF st0] _ loop]) (auto intro: step)
qed

lemma de_init_Inr:
  assumes "de_init c func rng = Inr st"
  shows "pop st = init_population (lb c) (ub c) (init_rand rng)"
    "func (pop st) = Inr (fitness st)" "fitness st \<noteq> []"
    "np_argmin (fitness st) < length (pop st)"
    "best_cost st = fitness st ! np_argmin (fitness st)"
    "best_pos st = pop st ! np_argmin (fitness st)"
  using assms by (auto simp: de_init_def Let_def sbind_eq_Inr split: if_splits)

lemma de_init_pop_inv:
  assumes "de_init c func rng = Inr st" "wf_cfg c" "unit_draws (pop_size c) (dim c) (init_rand rng)"
  shows "pop_inv c st"
proof -
  have wb: "wf_bounds (lb c) (ub c) (dim c)" using assms(2) by (simp add: wf_cfg_def)
  note i = de_init_Inr[OF assms(1)] and p = init_population_in_box[OF wb assms(3)]
  have "pop_in_box c (pop st)" using i(1) p(2) by (simp add: pop_in_box_def)
  moreover have "best_pos st \<in> set (pop st)" using i(4,6) by simp
  ultimately show ?thesis using i(1) p(1) by (simp add: pop_inv_def pop_in_box_def)
qed

lemma de_init_de_inv:
  assumes "de_init c func rng = Inr st" "wf_cfg c" "unit_draws (pop_size c) (dim c) (init_rand rng)"
    "length (fitness st) = pop_size c"
  shows "de_inv c st"
proof -
  note i = de_init_Inr[OF assms(1)] and p = de_init_pop_inv[OF assms(1-3)]
  show ?thesis
    using i p assms(4) np_argmin_props[OF i(3)]
    by (auto simp: de_inv_def pop_inv_def)
qed

lemma wf_rng_mono: "m \<le> n \<Longrightarrow> wf_rng c rng n \<Longrightarrow> wf_rng c rng m"
  by (auto simp: wf_rng_def)

lemma wf_rng_Suc: "wf_rng c rng (Suc n) \<Longrightarrow> wf_rng c rng n \<and> wf_draw c (gen_rand rng n)"
  by (auto simp: wf_rng_def)

lemma numpy_de_run_Suc_Inr:
  assumes "numpy_de_run c func rng (Suc n) = Inr st'"
  obtains st where "numpy_de_run c func rng n = Inr st" "de_generation c func (gen_rand rng n) st = Inr st'"
  using assms by (auto simp: numpy_de_run_Suc sbind_eq_Inr)

lemma numpy_de_run_Inl_add:
  "numpy_de_run c func rng m = Inl e \<Longrightarrow> numpy_de_run c func rng (m + k) = Inl e"
  by (induction k) (simp_all add: numpy_de_run_Suc)

lemma vectorised_init:
  assumes "wf_cfg c" "unit_draws (pop_size c) (dim c) (init_rand rng)"
  shows "\<exists>st. de_init c (vectorised g) rng = Inr st \<and> de_inv c st \<and> fitness st = map g (pop st)"
proof -
  let ?P = "init_population (lb c) (ub c) (init_rand rng)"
  have wb: "wf_bounds (lb c) (ub c) (dim c)" using assms(1) by (simp add: wf_cfg_def)
  have len: "length ?P = pop_size c" using init_population_in_box(1)[OF wb assms(2)] .
  then have ne: "map g ?P \<noteq> []" using assms(1) by (auto simp: wf_cfg_def)
  then have "np_argmin (map g ?P) < length ?P" using np_argmin_props(1)[OF ne] by simp
  then obtain st where st: "de_init c (vectorised g) rng = Inr st" and f: "fitness st = map g (pop st)"
    using ne by (simp add: de_init_def vectorised_def Let_def)
  moreover have "length (fitness st) = pop_size c"
    using de_init_Inr(1)[OF st] f len by simp
  ultimately show ?thesis using de_init_de_inv[OF st assms] by blast
qed

lemma vectorised_run_inv:
  assumes "numpy_de_run c (vectorised g) rng n = Inr st" "wf_cfg c" "wf_rng c rng n"
  shows "de_inv c st \<and> fitness st = map g (pop st)"
proof (rule numpy_de_run_inv[OF assms(1)])
  fix st assume "de_init c (vectorised g) rng = Inr st"
  then show "de_inv c st \<and> fitness st = map g (pop st)"
    using vectorised_init[OF assms(2), of rng g] assms(3) by (auto simp: wf_rng_def)
next
  fix k st st'
  assume k: "k < n" and I: "de_inv c st \<and> fitness st = map g (pop st)"
    and gen: "de_generation c (vectorised g) (gen_rand rng k) st = Inr st'"
  have d: "wf_draw c (gen_rand rng k)" using assms(3) k by (simp add: wf_rng_def)
  have "length (pop st) = pop_size c" "pop_in_box c (pop st)" using I by (simp_all add: de_inv_def)
  then show "de_inv c st' \<and> fitness st' = map g (pop st')"
    using de_generation_de_inv[OF gen assms(2) d] de_generation_vectorised[OF gen assms(2) d] I
    by simp
qed

lemma de_generation_vectorised_total:
  assumes "wf_cfg c" "wf_draw c d" "de_inv c st" "fitness st = map g (pop st)"
  shows "\<exists>st'. de_generation c (vectorised g) d st = Inr st'"
proof -
  have P: "length (pop st) = pop_size c" "pop_in_box c (pop st)" using assms(3) by (simp_all add: de_inv_def)
  note m = mutants_in_box[OF assms(1,2) P]
  have R: "unit_draws (pop_size c) (dim c) (cross_rand d)" using assms(2) by (simp add: wf_draw_def)
  let ?T = "crossover c (cross_rand d) (map (mutant_row c (pop st)) (idxs d)) (pop st)"
  have "length ?T = pop_size c" using crossover_in_box(1)[OF assms(1) R m(2,3) P] .
  moreover have "pop st \<noteq> []" using P(1) assms(1) by (auto simp: wf_cfg_def)
  ultimately obtain st' where "de_select st ?T (map g ?T) = Inr st'"
    using de_select_total[of "map g ?T" st ?T] P(1) assms(4) by auto
  then show ?thesis using m(1) by (auto simp: de_generation_def vectorised_def Let_def)
qed

lemma numpy_de_run_pop_inv:
  assumes "numpy_de_run c func rng n = Inr st" and "wf_cfg c" and "wf_rng c rng n"
  shows "pop_inv c st"
proof (rule numpy_de_run_inv[OF assms(1)])
  fix st assume "de_init c func rng = Inr st"
  then show "pop_inv c st" using de_init_pop_inv assms(2,3) by (simp add: wf_rng_def)
next
  fix k st st' assume "k < n" "pop_inv c st" "de_generation c func (gen_rand rng k) st = Inr st'"
  then show "pop_inv c st'" using de_generation_pop_inv assms(2,3) by (simp add: wf_rng_def)
qed


lemma numpy_de_run_best_cost_mono:
  assumes "m \<le> n" and "numpy_de_run c func rng n = Inr st'"
  shows "\<exists>st. numpy_de_run c func rng m = Inr st \<and> best_cost st' \<le> best_cost st"
  using assms
proof (induction n arbitrary: st')
  case 0
  then show ?case by simp
next
  case (Suc n)
  show ?case
  proof (cases "m = Suc n")
    case True
    with Suc.prems show ?thesis by auto
  next
    case False
    obtain st1 where r: "numpy_de_run c func rng n = Inr st1"
      and g: "de_generation c func (gen_rand rng n) st1 = Inr st'"
      using numpy_de_run_Suc_Inr[OF Suc.prems(2)] by blast
    from False Suc.prems(1) Suc.IH[OF _ r] obtain st where
      "numpy_de_run c func rng m = Inr st" "best_cost st1 \<le> best_cost st" by auto
    with de_generation_best_cost_le[OF g] show ?thesis by auto
  qed
qed


lemma vectorised_optimize_result:
  assumes res: "NumpyDE_optimize c (vectorised g) rng iters = Inr (cost, x)"
    and c: "wf_cfg c" and r: "wf_rng c rng iters"
  shows "cost = g x \<and> in_box (lb c) (ub c) x \<and>
         (\<forall>p \<in> set (init_population (lb c) (ub c) (init_rand rng)). cost \<le> g p)"
proof -
  obtain st where run: "numpy_de_run c (vectorised g) rng iters = Inr st"
    and cx: "cost = best_cost st" "x = best_pos st"
    using res by (auto simp: NumpyDE_optimize_def sbind_eq_Inr)
  have I: "de_inv c st" "fitness st = map g (pop st)" using vectorised_run_inv[OF run c r] by simp_all
  then obtain i where "i < length (pop st)" "pop st ! i = best_pos st" "fitness st ! i = best_cost st"
    by (auto simp: de_inv_def)
  then have val: "cost = g x" using I(2) cx by auto
  have box: "in_box (lb c) (ub c) x" using numpy_de_run_pop_inv[OF run c r] cx by (simp add: pop_inv_def)
  obtain st0 where run0: "numpy_de_run c (vectorised g) rng 0 = Inr st0"
    and le: "best_cost st \<le> best_cost st0"
    using numpy_de_run_best_cost_mono[OF _ run] by blast
  have r0: "wf_rng c rng 0" using wf_rng_mono[OF _ r] by simp
  have I0: "de_inv c st0" "fitness st0 = map g (pop st0)" using vectorised_run_inv[OF run0 c r0] by simp_all
  have P0: "pop st0 = init_population (lb c) (ub c) (init_rand rng)"
    using de_init_Inr(1) run0 by (simp add: numpy_de_run_0)
  have "\<forall>p \<in> set (pop st0). best_cost st0 \<le> g p"
    using I0 by (simp add: de_inv_def np_min_le)
  then show ?thesis using val box le cx P0 by force
qed

lemma vectorised_optimize_total:
  assumes "wf_cfg c" and "wf_rng c rng iters"
  shows "\<exists>cost x. NumpyDE_optimize c (vectorised g) rng iters = Inr (cost, x)"
proof -
  obtain st0 where init: "de_init c (vectorised g) rng = Inr st0"
    and I0: "de_inv c st0 \<and> fitness st0 = map g (pop st0)"
    using vectorised_init[OF assms(1), of rng g] assms(2) by (auto simp: wf_rng_def)
  have "\<exists>st. foldM (\<lambda>k. de_generation c (vectorised g) (gen_rand rng k)) [0..<iters] st0 = Inr st
        \<and> (de_inv c st \<and> fitness st = map g (pop st))"
  proof (rule foldM_total[where P = "\<lambda>st. de_inv c st \<and> fitness st = map g (pop st)", OF _ I0])
    fix k t assume k: "k \<in> set [0..<iters]" and It: "de_inv c t \<and> fitness t = map g (pop t)"
    have d: "wf_draw c (gen_rand rng k)" using k assms(2) by (simp add: wf_rng_def)
    obtain t' where gen: "de_generation c (vectorised g) (gen_rand rng k) t = Inr t'"
      using de_generation_vectorised_total[OF assms(1) d] It by blast
    have "length (pop t) = pop_size c" "pop_in_box c (pop t)" using It by (simp_all add: de_inv_def)
    then have "de_inv c t' \<and> fitness t' = map g (pop t')"
      using de_generation_de_inv[OF gen assms(1) d] de_generation_vectorised[OF gen assms(1) d] It
      by simp
    then show "\<exists>t'. de_generation c (vectorised g) (gen_rand rng k) t = Inr t' \<and>
                  de_inv c t' \<and> fitness t' = map g (pop t')" using gen by blast
  qed
  then show ?thesis using init by (auto simp: NumpyDE_optimize_def numpy_de_run_def de_loop_def)
qed

text \<open>
  The run depends on the fitness callable only through its values on matrices whose
  rows lie in the box: two callables that agree there give the same run.
\<close>

lemma de_init_cong:
  assumes c: "wf_cfg c" and r: "unit_draws (pop_size c) (dim c) (init_rand rng)"
    and agree: "\<And>M. pop_in_box c M \<Longrightarrow> func M = func' M"
  shows "de_init c func rng = de_init c func' rng"
proof -
  have wb: "wf_bounds (lb c) (ub c) (dim c)" using c by (simp add: wf_cfg_def)
  have "pop_in_box c (init_population (lb c) (ub c) (init_rand rng))"
    using init_population_in_box(2)[OF wb r] by (simp add: pop_in_box_def)
  then show ?thesis using agree by (simp add: de_init_def)
qed

lemma de_generation_cong:
  assumes c: "wf_cfg c" and d: "wf_draw c g"
    and P: "length (pop st) = pop_size c" "pop_in_box c (pop st)"
    and agree: "\<And>M. pop_in_box c M \<Longrightarrow> func M = func' M"
  shows "de_generation c func g st = de_generation c func' g st"
proof -
  note m = mutants_in_box[OF c d P]
  have R: "unit_draws (pop_size c) (dim c) (cross_rand g)" using d by (simp add: wf_draw_def)
  note t = crossover_in_box[OF c R m(2,3) P]
  show ?thesis using agree[OF t(2)] by (simp add: de_generation_def m(1) Let_def)
qed

lemma numpy_de_run_cong:
  assumes c: "wf_cfg c" and r: "wf_rng c rng n"
    and agree: "\<And>M. pop_in_box c M \<Longrightarrow> func M = func' M"
  shows "numpy_de_run c func rng n = numpy_de_run c func' rng n"
  using r
proof (induction n)
  case 0
  then show ?case using de_init_cong[OF c _ agree] by (simp add: numpy_de_run_0 wf_rng_def)
next
  case (Suc n)
  note r' = wf_rng_Suc[OF Suc.prems]
  show ?case
  proof (cases "numpy_de_run c func' rng n")
    case (Inl e)
    then show ?thesis using Suc.IH r' by (simp add: numpy_de_run_Suc)
  next
    case (Inr st)
    then have "pop_inv c st" using numpy_de_run_pop_inv c r' by blast
    then have "de_generation c func (gen_rand rng n) st = de_generation c func' (gen_rand rng n) st"
      using de_generation_cong[OF c _ _ _ agree] r' by (simp add: pop_inv_def)
    then show ?thesis using Suc.IH r' Inr by (simp add: numpy_de_run_Suc)
  qed
qed

subsection \<open>Properties of the optimizer\<close>

text \<open>
  C1. The bounds invariant (spec section 3, hard invariant): after the initialisation
  and after every generation, every row of the population and the best position lie
  within the bounds, whatever the fitness callable returns.
\<close>

theorem NumpyDE_bounds_invariant:
  assumes "numpy_de_run c func rng n = Inr st" and "wf_cfg c" and "wf_rng c rng n"
  shows "pop_in_box c (pop st) \<and> in_box (lb c) (ub c) (best_pos st)"
  using numpy_de_run_pop_inv[OF assms] by (simp add: pop_inv_def)
text \<open>
  C2. For a vectorised objective \<open>g\<close>, the returned pair is consistent and no worse
  than the initial population: the cost is \<open>g\<close> of the returned position, the position
  lies within the bounds, and the cost is at most \<open>g\<close> of every initial row.
\<close>

theorem NumpyDE_result_vectorised:
  assumes res: "NumpyDE_optimize c (vectorised g) rng iters = Inr (cost, x)"
    and c: "wf_cfg c" and r: "wf_rng c rng iters"
  shows "cost = g x \<and> in_box (lb c) (ub c) x \<and>
         (\<forall>p \<in> set (init_population (lb c) (ub c) (init_rand rng)). cost \<le> g p)"
  using vectorised_optimize_result[OF assms] .

text \<open>
  C3. The best cost is non-increasing across generations: when the run reaches
  generation \<open>n\<close>, it reached every earlier generation \<open>m\<close>, with a best cost no lower.
\<close>

theorem NumpyDE_best_cost_monotone:
  assumes "m \<le> n" and "numpy_de_run c func rng n = Inr st'"
  shows "\<exists>st. numpy_de_run c func rng m = Inr st \<and> best_cost st' \<le> best_cost st"
  using numpy_de_run_best_cost_mono[OF assms] .
text \<open>
  C4. With a vectorised objective and random draws that meet numpy's contract, the
  loop runs its \<open>iters\<close> generations and \<open>optimize\<close> returns a result.
\<close>

theorem NumpyDE_total:
  assumes "wf_cfg c" and "wf_rng c rng iters"
  shows "\<exists>cost x. NumpyDE_optimize c (vectorised g) rng iters = Inr (cost, x)"
  using vectorised_optimize_total[OF assms] .

text \<open>
  C5. \<open>optimize(f, iters=0)\<close> returns the best row of the initial random population,
  unmutated, with its objective value (spec section 4.5); an empty population raises.
\<close>

theorem NumpyDE_iters_zero:
  "NumpyDE_optimize c (vectorised g) rng 0 =
     (let P = init_population (lb c) (ub c) (init_rand rng)
      in if P = [] then Inl ValueError else Inr (np_min (map g P), P ! np_argmin (map g P)))"
proof (cases "init_population (lb c) (ub c) (init_rand rng) = []")
  case True
  then show ?thesis
    by (simp add: NumpyDE_optimize_def numpy_de_run_0 de_init_def vectorised_def)
next
  case False
  then have ne: "map g (init_population (lb c) (ub c) (init_rand rng)) \<noteq> []" by simp
  show ?thesis
    using False np_argmin_props[OF ne]
    by (simp add: NumpyDE_optimize_def numpy_de_run_0 de_init_def vectorised_def Let_def)
qed

text \<open>
  An exception in generation \<open>n\<close> aborts every call that runs more than \<open>n\<close>
  generations, with no partial result (spec section 7).
\<close>

lemma NumpyDE_error_aborts:
  assumes "numpy_de_run c func rng n = Inr st"
    and "de_generation c func (gen_rand rng n) st = Inl e" and "n < iters"
  shows "NumpyDE_optimize c func rng iters = Inl e"
proof -
  have "numpy_de_run c func rng (Suc n) = Inl e" using assms(1,2) by (simp add: numpy_de_run_Suc)
  then have "numpy_de_run c func rng (Suc n + (iters - Suc n)) = Inl e"
    by (rule numpy_de_run_Inl_add)
  then show ?thesis using assms(3) by (simp add: NumpyDE_optimize_def)
qed

subsection \<open>Witnesses at a two-row population on \<open>[-1, 1]\<close>\<close>

text \<open>
  C29 (spec section 3: the fitness vector is never stale; the best cost is at most the
  minimum of the fitness vector).  For a vectorised objective \<open>g\<close>, in the state after
  every generation the fitness vector is \<open>g\<close> of the current population row by row, the
  best cost is its minimum, and the best position is a row of the population carrying
  that cost.
\<close>

theorem NumpyDE_fitness_consistent:
  assumes "numpy_de_run c (vectorised g) rng n = Inr st" and "wf_cfg c" and "wf_rng c rng n"
  shows "fitness st = map g (pop st) \<and> length (pop st) = pop_size c \<and> best_cost st = np_min (fitness st) \<and>
         (\<forall>x \<in> set (fitness st). best_cost st \<le> x) \<and>
         (\<exists>i < length (pop st). pop st ! i = best_pos st \<and> fitness st ! i = best_cost st)"
proof -
  note I = vectorised_run_inv[OF assms]
  then have "best_cost st = np_min (fitness st)" unfolding de_inv_def by blast
  then have "\<forall>x \<in> set (fitness st). best_cost st \<le> x" using np_min_le by simp
  then show ?thesis using I unfolding de_inv_def by blast
qed

text \<open>
  The configuration \<open>pop_size = 2\<close>, \<open>dim = 1\<close>, bounds \<open>[-1, 1]\<close>, the sphere objective,
  initial draws \<open>1/4, 3/4\<close> (population \<open>-1/2, 1/2\<close>) and one generation whose second trial
  \<open>1/2 + (-1/2 - 1/2)/2 = 0\<close> improves the best cost from \<open>1/4\<close> to \<open>0\<close>.
\<close>

lemma de_example_run:
  "numpy_de_run \<lparr>pop_size = 2, dim = 1, lb = [-1], ub = [1], F = 1/2, CR = 7/10\<rparr> (vectorised (\<lambda>x. sum_list (map (\<lambda>y. y * y) x))) \<lparr>init_rand = [[1/4], [3/4]], gen_rand = (\<lambda>_. \<lparr>idxs = [(0, 0, 1), (1, 0, 1)], cross_rand = [[1/2], [1/2]]\<rparr>)\<rparr> 0 = Inr \<lparr>pop = [[-1/2], [1/2]], fitness = [1/4, 1/4], best_cost = 1/4, best_pos = [-1/2]\<rparr>"
  "numpy_de_run \<lparr>pop_size = 2, dim = 1, lb = [-1], ub = [1], F = 1/2, CR = 7/10\<rparr> (vectorised (\<lambda>x. sum_list (map (\<lambda>y. y * y) x))) \<lparr>init_rand = [[1/4], [3/4]], gen_rand = (\<lambda>_. \<lparr>idxs = [(0, 0, 1), (1, 0, 1)], cross_rand = [[1/2], [1/2]]\<rparr>)\<rparr> 1 = Inr \<lparr>pop = [[-1/2], [0]], fitness = [1/4, 0], best_cost = 0, best_pos = [0]\<rparr>"
  by (simp_all add: de_eval)

lemma de_example_wf: "wf_cfg \<lparr>pop_size = 2, dim = 1, lb = [-1], ub = [1], F = 1/2, CR = 7/10\<rparr> \<and> wf_rng \<lparr>pop_size = 2, dim = 1, lb = [-1], ub = [1], F = 1/2, CR = 7/10\<rparr> \<lparr>init_rand = [[1/4], [3/4]], gen_rand = (\<lambda>_. \<lparr>idxs = [(0, 0, 1), (1, 0, 1)], cross_rand = [[1/2], [1/2]]\<rparr>)\<rparr> 1"
  by (simp add: de_wf_eval)

theorem NumpyDE_bounds_invariant_witness:
  "numpy_de_run \<lparr>pop_size = 2, dim = 1, lb = [-1], ub = [1], F = 1/2, CR = 7/10\<rparr> (vectorised (\<lambda>x. sum_list (map (\<lambda>y. y * y) x))) \<lparr>init_rand = [[1/4], [3/4]], gen_rand = (\<lambda>_. \<lparr>idxs = [(0, 0, 1), (1, 0, 1)], cross_rand = [[1/2], [1/2]]\<rparr>)\<rparr> 1 = Inr \<lparr>pop = [[-1/2], [0]], fitness = [1/4, 0], best_cost = 0, best_pos = [0]\<rparr> \<and> wf_cfg \<lparr>pop_size = 2, dim = 1, lb = [-1], ub = [1], F = 1/2, CR = 7/10\<rparr> \<and> wf_rng \<lparr>pop_size = 2, dim = 1, lb = [-1], ub = [1], F = 1/2, CR = 7/10\<rparr> \<lparr>init_rand = [[1/4], [3/4]], gen_rand = (\<lambda>_. \<lparr>idxs = [(0, 0, 1), (1, 0, 1)], cross_rand = [[1/2], [1/2]]\<rparr>)\<rparr> 1 \<and>
   pop_in_box \<lparr>pop_size = 2, dim = 1, lb = [-1], ub = [1], F = 1/2, CR = 7/10\<rparr> [[-1/2], [0]] \<and> in_box [-1] [1] [0]"
  using NumpyDE_bounds_invariant[OF de_example_run(2)] de_example_run(2) de_example_wf by simp

theorem NumpyDE_result_vectorised_witness:
  "NumpyDE_optimize \<lparr>pop_size = 2, dim = 1, lb = [-1], ub = [1], F = 1/2, CR = 7/10\<rparr> (vectorised (\<lambda>x. sum_list (map (\<lambda>y. y * y) x))) \<lparr>init_rand = [[1/4], [3/4]], gen_rand = (\<lambda>_. \<lparr>idxs = [(0, 0, 1), (1, 0, 1)], cross_rand = [[1/2], [1/2]]\<rparr>)\<rparr> 1 = Inr (0, [0]) \<and> wf_cfg \<lparr>pop_size = 2, dim = 1, lb = [-1], ub = [1], F = 1/2, CR = 7/10\<rparr> \<and> wf_rng \<lparr>pop_size = 2, dim = 1, lb = [-1], ub = [1], F = 1/2, CR = 7/10\<rparr> \<lparr>init_rand = [[1/4], [3/4]], gen_rand = (\<lambda>_. \<lparr>idxs = [(0, 0, 1), (1, 0, 1)], cross_rand = [[1/2], [1/2]]\<rparr>)\<rparr> 1 \<and>
   (0::real) = sum_list (map (\<lambda>y. y * y) [0]) \<and> in_box [-1] [1] [0] \<and>
   (0::real) \<le> sum_list (map (\<lambda>y. y * y) [-1/2]) \<and> (0::real) \<le> sum_list (map (\<lambda>y. y * y) [1/2])"
proof -
  have opt: "NumpyDE_optimize \<lparr>pop_size = 2, dim = 1, lb = [-1], ub = [1], F = 1/2, CR = 7/10\<rparr> (vectorised (\<lambda>x. sum_list (map (\<lambda>y. y * y) x))) \<lparr>init_rand = [[1/4], [3/4]], gen_rand = (\<lambda>_. \<lparr>idxs = [(0, 0, 1), (1, 0, 1)], cross_rand = [[1/2], [1/2]]\<rparr>)\<rparr> 1 = Inr (0, [0])"
    unfolding NumpyDE_optimize_def de_example_run(2) by simp
  note res = NumpyDE_result_vectorised[OF opt de_example_wf[THEN conjunct1] de_example_wf[THEN conjunct2]]
  have "init_population [-1] [1] [[1/4], [3/4]] = [[-1/2], [1/2::real]]"
    by (simp add: init_population_def uniform_row_def)
  then show ?thesis
    using res opt de_example_wf by simp
qed

theorem NumpyDE_best_cost_monotone_witness:
  "numpy_de_run \<lparr>pop_size = 2, dim = 1, lb = [-1], ub = [1], F = 1/2, CR = 7/10\<rparr> (vectorised (\<lambda>x. sum_list (map (\<lambda>y. y * y) x))) \<lparr>init_rand = [[1/4], [3/4]], gen_rand = (\<lambda>_. \<lparr>idxs = [(0, 0, 1), (1, 0, 1)], cross_rand = [[1/2], [1/2]]\<rparr>)\<rparr> 1 = Inr \<lparr>pop = [[-1/2], [0]], fitness = [1/4, 0], best_cost = 0, best_pos = [0]\<rparr> \<and>
   (\<exists>st. numpy_de_run \<lparr>pop_size = 2, dim = 1, lb = [-1], ub = [1], F = 1/2, CR = 7/10\<rparr> (vectorised (\<lambda>x. sum_list (map (\<lambda>y. y * y) x))) \<lparr>init_rand = [[1/4], [3/4]], gen_rand = (\<lambda>_. \<lparr>idxs = [(0, 0, 1), (1, 0, 1)], cross_rand = [[1/2], [1/2]]\<rparr>)\<rparr> 0 = Inr st \<and> (0::real) \<le> best_cost st)"
  using NumpyDE_best_cost_monotone[OF _ de_example_run(2), of 0] de_example_run(2) by simp

theorem NumpyDE_total_witness:
  "wf_cfg \<lparr>pop_size = 2, dim = 1, lb = [-1], ub = [1], F = 1/2, CR = 7/10\<rparr> \<and> wf_rng \<lparr>pop_size = 2, dim = 1, lb = [-1], ub = [1], F = 1/2, CR = 7/10\<rparr> \<lparr>init_rand = [[1/4], [3/4]], gen_rand = (\<lambda>_. \<lparr>idxs = [(0, 0, 1), (1, 0, 1)], cross_rand = [[1/2], [1/2]]\<rparr>)\<rparr> 1 \<and> (\<exists>cost x. NumpyDE_optimize \<lparr>pop_size = 2, dim = 1, lb = [-1], ub = [1], F = 1/2, CR = 7/10\<rparr> (vectorised (\<lambda>x. sum_list (map (\<lambda>y. y * y) x))) \<lparr>init_rand = [[1/4], [3/4]], gen_rand = (\<lambda>_. \<lparr>idxs = [(0, 0, 1), (1, 0, 1)], cross_rand = [[1/2], [1/2]]\<rparr>)\<rparr> 1 = Inr (cost, x))"
  using NumpyDE_total[of "\<lparr>pop_size = 2, dim = 1, lb = [-1], ub = [1], F = 1/2, CR = 7/10\<rparr>" "\<lparr>init_rand = [[1/4], [3/4]], gen_rand = (\<lambda>_. \<lparr>idxs = [(0, 0, 1), (1, 0, 1)], cross_rand = [[1/2], [1/2]]\<rparr>)\<rparr>" 1] de_example_wf by simp


theorem NumpyDE_fitness_consistent_witness:
  "numpy_de_run \<lparr>pop_size = 2, dim = 1, lb = [-1], ub = [1], F = 1/2, CR = 7/10\<rparr> (vectorised (\<lambda>x. sum_list (map (\<lambda>y. y * y) x))) \<lparr>init_rand = [[1/4], [3/4]], gen_rand = (\<lambda>_. \<lparr>idxs = [(0, 0, 1), (1, 0, 1)], cross_rand = [[1/2], [1/2]]\<rparr>)\<rparr> 1 = Inr \<lparr>pop = [[-1/2], [0]], fitness = [1/4, 0], best_cost = 0, best_pos = [0]\<rparr> \<and>
   [1/4, 0] = map (\<lambda>x. sum_list (map (\<lambda>y. y * y) x)) [[-1/2], [0::real]] \<and> (0::real) = np_min [1/4, 0]"
  using NumpyDE_fitness_consistent[OF de_example_run(2) de_example_wf[THEN conjunct1] de_example_wf[THEN conjunct2]]
    de_example_run(2) by simp

end
