(* ===== verification/Rastrigin.thy ===== *)
theory Rastrigin
  imports DE_Optimizer
begin

text \<open>
  The Rastrigin objective of src/performance/de_benchmark.py (lines 6-9), the batch
  callable the DE benchmark optimizes: for a matrix \<open>x\<close> with \<open>d = x.shape[1]\<close> columns,
  row by row \<open>A * d + sum(x^2 - A * cos(2 pi x))\<close> with \<open>A = 10\<close>.  Its global minimum 0 is
  reached exactly at the origin; on the rows of a population within the bounds it is the
  vectorised objective \<open>rastrigin_row 10 (dim c)\<close>.
\<close>

definition rastrigin_row :: "real \<Rightarrow> nat \<Rightarrow> vec \<Rightarrow> real" where
  "rastrigin_row A d r = A * real d + sum_list (map (\<lambda>xi. xi\<^sup>2 - A * cos (2 * pi * xi)) r)"

definition rastrigin :: batch_fn where
  "rastrigin x = (let A = 10; d = length (hd x) in Inr (map (rastrigin_row A d) x))"

subsection \<open>Facts\<close>

lemma rastrigin_row_sum:
  "rastrigin_row A (length r) r = sum_list (map (\<lambda>xi. xi\<^sup>2 + (A - A * cos (2 * pi * xi))) r)"
  by (induction r) (simp_all add: rastrigin_row_def algebra_simps)

lemma rastrigin_term_nonneg: "0 \<le> xi\<^sup>2 + (10 - 10 * cos (2 * pi * xi))"
  using cos_le_one[of "2 * pi * xi"] by (simp add: add_nonneg_nonneg)

lemma rastrigin_term_zero: "xi\<^sup>2 + (10 - 10 * cos (2 * pi * xi)) = 0 \<longleftrightarrow> xi = 0"
proof
  assume h: "xi\<^sup>2 + (10 - 10 * cos (2 * pi * xi)) = 0"
  have "0 \<le> 10 - 10 * cos (2 * pi * xi)" using cos_le_one[of "2 * pi * xi"] by simp
  then have "xi\<^sup>2 = 0" using h by (simp add: add_nonneg_eq_0_iff)
  then show "xi = 0" by simp
qed simp

lemma rastrigin_row_nonneg: "0 \<le> rastrigin_row 10 (length r) r"
  unfolding rastrigin_row_sum by (rule sum_list_nonneg) (auto intro: rastrigin_term_nonneg)

lemma rastrigin_row_zero_iff: "rastrigin_row 10 (length r) r = 0 \<longleftrightarrow> r = replicate (length r) 0"
proof -
  have "rastrigin_row 10 (length r) r = 0 \<longleftrightarrow>
        (\<forall>t \<in> set (map (\<lambda>xi. xi\<^sup>2 + (10 - 10 * cos (2 * pi * xi))) r). t = 0)"
    unfolding rastrigin_row_sum by (rule sum_list_nonneg_eq_0_iff) (auto intro: rastrigin_term_nonneg)
  also have "\<dots> \<longleftrightarrow> (\<forall>xi \<in> set r. xi = 0)" by (simp add: rastrigin_term_zero)
  also have "\<dots> \<longleftrightarrow> r = replicate (length r) 0" by (metis in_set_replicate replicate_length_same)
  finally show ?thesis .
qed

lemma rastrigin_rect:
  assumes "\<forall>r \<in> set x. length r = d"
  shows "rastrigin x = vectorised (rastrigin_row 10 d) x"
  using assms by (cases x) (simp_all add: rastrigin_def vectorised_def)

lemma rastrigin_box:
  assumes "wf_cfg c" and "pop_in_box c x"
  shows "rastrigin x = vectorised (rastrigin_row 10 (dim c)) x"
  using assms in_box_length by (intro rastrigin_rect) (auto simp: wf_cfg_def pop_in_box_def)

lemma rastrigin_optimize:
  assumes c: "wf_cfg c" and r: "wf_rng c rng iters"
  shows "NumpyDE_optimize c rastrigin rng iters = NumpyDE_optimize c (vectorised (rastrigin_row 10 (dim c))) rng iters \<and>
         (\<exists>cost x. NumpyDE_optimize c rastrigin rng iters = Inr (cost, x) \<and> cost = rastrigin_row 10 (dim c) x \<and>
           0 \<le> cost \<and> in_box (lb c) (ub c) x \<and>
           (\<forall>p \<in> set (init_population (lb c) (ub c) (init_rand rng)). cost \<le> rastrigin_row 10 (dim c) p))"
proof -
  have eq: "NumpyDE_optimize c rastrigin rng iters = NumpyDE_optimize c (vectorised (rastrigin_row 10 (dim c))) rng iters"
    unfolding NumpyDE_optimize_def using numpy_de_run_cong[OF c r rastrigin_box[OF c]] by simp
  obtain cost x where res: "NumpyDE_optimize c (vectorised (rastrigin_row 10 (dim c))) rng iters = Inr (cost, x)"
    using vectorised_optimize_total[OF c r] by blast
  note v = vectorised_optimize_result[OF res c r]
  have "length x = dim c" using v in_box_length[of "lb c" "ub c" "dim c" x] c by (simp add: wf_cfg_def)
  then have "0 \<le> cost" using v rastrigin_row_nonneg[of x] by simp
  then show ?thesis using eq res v by auto
qed

text \<open>
  On a matrix whose rows all have \<open>d\<close> entries, \<open>rastrigin\<close> returns one value per
  row, each non-negative and zero exactly at the origin: 0 is the global minimum.
\<close>

lemma rastrigin_values:
  assumes "\<forall>r \<in> set x. length r = d"
  shows "rastrigin x = Inr (map (rastrigin_row 10 d) x) \<and>
         (\<forall>r \<in> set x. 0 \<le> rastrigin_row 10 d r \<and> (rastrigin_row 10 d r = 0 \<longleftrightarrow> r = replicate d 0))"
proof -
  have "0 \<le> rastrigin_row 10 d r \<and> (rastrigin_row 10 d r = 0 \<longleftrightarrow> r = replicate d 0)" if "r \<in> set x" for r
  proof -
    have "length r = d" using assms that by simp
    then show ?thesis using rastrigin_row_nonneg[of r] rastrigin_row_zero_iff[of r] by simp
  qed
  then show ?thesis using rastrigin_rect[OF assms] by (simp add: vectorised_def)
qed

end
