(* ===== verification/Entropy.thy ===== *)
theory Entropy
  imports Prelude
begin

text \<open>
  The entropy weight method (spec section 4.6) in its two numpy references.
  \<^item> Mode B, raw proportions: \<open>numpy_ewm\<close> of src/tests/test_entropy.py (lines 6-33),
    the reference the native \<open>entropy_weight_method\<close> is tested against: column sums,
    proportions \<open>p = x / colsum\<close>, \<open>k = 1 / ln rows\<close>, entropy
    \<open>-k * sum(p * ln p)\<close> with the \<open>p = 0\<close> terms set to 0, divergence \<open>1 - entropy\<close>,
    weights \<open>divergence / sum\<close>, uniform when the divergences sum to 0.
  \<^item> Mode A, direction-aware: \<open>numpy_ewm\<close> of src/performance/benchmark.py (lines 6-42):
    each column min-max normalised by its indicator type (1 is a benefit column, any
    other value a cost column; a constant column becomes all 1.0), then the same
    entropy with a zero-sum column given entropy 1.0.
  The matrices are column-major inside the model (\<open>normalized_data[:, j]\<close> is the
  \<open>j\<close>-th list), as every step of both functions works column by column.  The
  shared fact is Shannon's bound: the entropy of a column of non-negative values lies
  in \<open>[0, 1]\<close> once scaled by \<open>1 / ln rows\<close>.
\<close>

subsection \<open>Mode B: test_entropy.py numpy_ewm\<close>

text \<open>Lines 19-22: \<open>p * ln p\<close> where \<open>p > 0\<close>, 0 elsewhere.\<close>

definition plogp_masked :: "vec \<Rightarrow> real" where
  "plogp_masked ps = sum_list (map (\<lambda>p. if 0 < p then p * ln p else 0) ps)"

text \<open>Lines 7-10: the proportion matrix \<open>data / col_sums\<close>, column by column.\<close>

definition p_matrix :: "mat \<Rightarrow> vec list" where
  "p_matrix data =
     map (\<lambda>j. let c = column data j in map (\<lambda>x. x / sum_list c) c) [0..<ncols data]"

definition numpy_ewm_B :: "mat \<Rightarrow> py_error + vec" where
  "numpy_ewm_B data =
     (let ps = p_matrix data; nrows = length (rows data); cols = ncols data in
      if nrows \<le> 1 then Inl ValueError
      else
        let k = 1 / ln (real nrows);
            entropy = map (\<lambda>pc. - k * plogp_masked pc) ps;
            divergence = map (\<lambda>e. 1 - e) entropy;
            div_sum = sum_list divergence
        in if div_sum = 0 then Inr (replicate cols (1 / real cols))
           else Inr (map (\<lambda>d. d / div_sum) divergence))"

subsection \<open>Mode A: benchmark.py numpy_ewm\<close>

text \<open>
  Lines 10-22 for one column: \<open>np.min\<close>/\<open>np.max\<close> raise on an empty column, a zero
  range gives all 1.0, otherwise \<open>indicator_types[j]\<close> is read (\<open>IndexError\<close> past
  its end) and selects the benefit or the cost formula.
\<close>

definition ewm_normalize_col :: "int list \<Rightarrow> nat \<Rightarrow> vec \<Rightarrow> py_error + vec" where
  "ewm_normalize_col indicator_types j col =
     (if col = [] then Inl ValueError
      else
        let min_val = np_min col; max_val = np_max col; rng = max_val - min_val in
        if rng = 0 then Inr (replicate (length col) 1)
        else if length indicator_types \<le> j then Inl IndexError
        else if indicator_types ! j = 1 then Inr (map (\<lambda>x. (x - min_val) / rng) col)
        else Inr (map (\<lambda>x. (max_val - x) / rng) col))"

text \<open>Lines 29-35 for one column: a zero column sum gives entropy 1.0.\<close>

definition col_entropy :: "real \<Rightarrow> vec \<Rightarrow> real" where
  "col_entropy k col =
     (let s = sum_list col in
      if s = 0 then 1
      else - k * sum_list (map (\<lambda>p. p * ln p) (filter (\<lambda>p. 0 < p) (map (\<lambda>x. x / s) col))))"

text \<open>
  Line 8: \<open>normalized_data\<close>, the array the normalised columns are written into,
  built back from its columns.
\<close>

definition mat_of_cols :: "nat \<Rightarrow> vec list \<Rightarrow> mat" where
  "mat_of_cols n cs = \<lparr>ncols = length cs, rows = map (\<lambda>i. map (\<lambda>c. c ! i) cs) [0..<n]\<rparr>"

definition numpy_ewm_A :: "mat \<Rightarrow> int list \<Rightarrow> py_error + vec" where
  "numpy_ewm_A data indicator_types =
     sbind (mapM (\<lambda>j. ewm_normalize_col indicator_types j (column data j)) [0..<ncols data])
       (\<lambda>normalized.
          let k = 1 / ln (real (length (rows data)));
              entropies = map (col_entropy k) normalized;
              divergence = map (\<lambda>e. 1 - e) entropies;
              div_sum = sum_list divergence
          in if div_sum = 0 then Inr (replicate (ncols data) (1 / real (ncols data)))
             else Inr (map (\<lambda>d. d / div_sum) divergence))"

subsection \<open>Facts: Shannon's bound and the Mode B weights\<close>

lemma plogp_filter: "sum_list (map (\<lambda>p. p * ln p) (filter (\<lambda>p. 0 < p) ps)) = plogp_masked ps"
  by (induction ps) (simp_all add: plogp_masked_def)

lemma plogp_term_bound:
  assumes "0 \<le> p" and "0 < n"
  shows "- (if 0 < p then p * ln p else 0) \<le> p * ln n + 1 / n - (p::real)"
proof (cases "0 < p")
  case False
  then show ?thesis using assms by simp
next
  case True
  have pos: "0 < 1 / (n * p)" using True assms(2) by simp
  have "ln (1 / (n * p)) \<le> 1 / (n * p) - 1" using ln_le_minus_one[OF pos] .
  also have "ln (1 / (n * p)) = - ln n - ln p" using True assms(2) by (simp add: ln_div ln_mult)
  finally have "p * (- ln n - ln p) \<le> p * (1 / (n * p) - 1)"
    using True by (simp add: mult_left_mono)
  then show ?thesis using True assms(2) by (simp add: algebra_simps)
qed

lemma plogp_masked_upper:
  assumes "\<forall>p \<in> set ps. 0 \<le> p" and "sum_list ps = 1" and "ps \<noteq> []"
  shows "- plogp_masked ps \<le> ln (real (length ps))"
proof -
  let ?n = "real (length ps)"
  have n: "0 < ?n" using assms(3) by simp
  have "- plogp_masked ps = sum_list (map (\<lambda>p. - (if 0 < p then p * ln p else 0)) ps)"
    by (simp add: plogp_masked_def uminus_sum_list_map o_def)
  also have "\<dots> \<le> sum_list (map (\<lambda>p. p * ln ?n + 1 / ?n - p) ps)"
    using assms(1) plogp_term_bound[OF _ n] by (intro sum_list_mono) simp
  also have "\<dots> = ln ?n" using assms(2) n by (simp add: sum_list_subtractf sum_list_addf sum_list_mult_const sum_list_triv)
  finally show ?thesis .
qed

lemma plogp_masked_nonpos:
  assumes "\<forall>p \<in> set ps. 0 \<le> p \<and> p \<le> 1"
  shows "plogp_masked ps \<le> 0"
proof -
  have "plogp_masked ps \<le> sum_list (map (\<lambda>p. 0) ps)"
    unfolding plogp_masked_def
    using assms by (intro sum_list_mono) (auto simp: mult_nonneg_nonpos)
  then show ?thesis by simp
qed

lemma ratio_unit: "(a::real) \<le> 0 \<Longrightarrow> - a \<le> L \<Longrightarrow> 0 < L \<Longrightarrow> 0 \<le> - a / L \<and> - a / L \<le> 1"
  by (auto simp: divide_nonpos_pos le_divide_eq)

text \<open>Shannon's bound on the proportions of a non-negative column.\<close>

lemma column_entropy_unit:
  assumes "\<forall>x \<in> set c. 0 \<le> x" and "2 \<le> length c"
  defines "e \<equiv> - (1 / ln (real (length c))) * plogp_masked (map (\<lambda>x. x / sum_list c) c)"
  shows "0 \<le> e \<and> e \<le> 1"
proof -
  let ?ps = "map (\<lambda>x. x / sum_list c) c"
  have lnpos: "0 < ln (real (length c))" using assms(2) by (intro ln_gt_zero) simp
  have s0: "0 \<le> sum_list c" using assms(1) by (simp add: sum_list_nonneg)
  show ?thesis
  proof (cases "sum_list c = 0")
    case True
    then have "plogp_masked ?ps = 0" by (simp add: plogp_masked_def o_def)
    then show ?thesis by (simp add: e_def)
  next
    case False
    then have spos: "0 < sum_list c" using s0 by simp
    have unit: "\<forall>p \<in> set ?ps. 0 \<le> p \<and> p \<le> 1"
      using assms(1) spos by (auto simp: member_le_sum_list)
    have sum1: "sum_list ?ps = 1" using spos by (simp add: sum_list_divide)
    have up: "- plogp_masked ?ps \<le> ln (real (length c))"
      using plogp_masked_upper[of ?ps] unit sum1 assms(2) by (cases c) auto
    have lo: "plogp_masked ?ps \<le> 0" using plogp_masked_nonpos[OF unit] .
    have "e = - plogp_masked ?ps / ln (real (length c))" by (simp add: e_def)
    then show ?thesis using ratio_unit[OF lo up lnpos] by simp
  qed
qed

lemma weights_prob:
  assumes "\<forall>d \<in> set ds. 0 \<le> d" and "length ds = m" and "0 < m"
  shows "\<exists>w. (if sum_list ds = 0 then Inr (replicate m (1 / real m)) else Inr (map (\<lambda>d. d / sum_list ds) ds))
           = (Inr w :: py_error + vec) \<and> length w = m \<and> (\<forall>x \<in> set w. 0 \<le> x) \<and> sum_list w = 1"
proof (cases "sum_list ds = 0")
  case True
  then show ?thesis using assms(3) by (simp add: sum_list_replicate)
next
  case False
  then have "0 < sum_list ds" using assms(1) sum_list_nonneg[of ds] by fastforce
  then show ?thesis using assms(1,2) False by (auto simp: sum_list_divide)
qed

lemma column_nonneg:
  assumes "wf_mat data" "j < ncols data" "\<forall>r \<in> set (rows data). \<forall>x \<in> set r. 0 \<le> x"
  shows "\<forall>x \<in> set (column data j). 0 \<le> x"
  using assms by (auto simp: column_def wf_mat_def)

lemma numpy_ewm_B_Inr:
  assumes "2 \<le> length (rows data)"
  defines "ds \<equiv> map (\<lambda>e. 1 - e) (map (\<lambda>pc. - (1 / ln (real (length (rows data)))) * plogp_masked pc)
                 (p_matrix data))"
  shows "numpy_ewm_B data = (if sum_list ds = 0 then Inr (replicate (ncols data) (1 / real (ncols data)))
                             else Inr (map (\<lambda>d. d / sum_list ds) ds))"
proof -
  have h: "\<not> length (rows data) \<le> 1" using assms(1) by simp
  show ?thesis unfolding numpy_ewm_B_def Let_def ds_def if_not_P[OF h] ..
qed

lemma length_p_matrix [simp]: "length (p_matrix data) = ncols data"
  by (simp add: p_matrix_def)

lemma plogp_masked_uniform:
  assumes "0 < n"
  shows "plogp_masked (replicate n (1 / real n)) = - ln (real n)"
  using assms by (simp add: plogp_masked_def sum_list_replicate ln_div)

subsection \<open>Facts: Mode A normalisation\<close>

lemma ewm_normalize_col_Inr:
  assumes "ewm_normalize_col ts j col = Inr c"
  shows "length c = length col \<and> (\<forall>x \<in> set c. 0 \<le> x \<and> x \<le> 1) \<and> 1 \<le> sum_list c"
proof -
  have ne: "col \<noteq> []" using assms by (auto simp: ewm_normalize_col_def)
  let ?mn = "np_min col" and ?mx = "np_max col"
  have bnd: "\<forall>x \<in> set col. ?mn \<le> x \<and> x \<le> ?mx" by (simp add: np_min_le np_max_ge)
  have mn: "?mn \<in> set col" and mx: "?mx \<in> set col" using ne by (simp_all add: np_min_in np_max_in)
  show ?thesis
  proof (cases "?mx - ?mn = 0")
    case True
    then have "c = replicate (length col) 1" using assms ne by (simp add: ewm_normalize_col_def Let_def)
    then show ?thesis using ne by (simp add: sum_list_replicate Suc_le_eq)
  next
    case False
    then have rng: "0 < ?mx - ?mn" using bnd mn by force
    have c: "c = map (\<lambda>x. (x - ?mn) / (?mx - ?mn)) col \<or> c = map (\<lambda>x. (?mx - x) / (?mx - ?mn)) col"
      using assms ne False by (auto simp: ewm_normalize_col_def Let_def split: if_splits)
    have unit: "\<forall>x \<in> set c. 0 \<le> x \<and> x \<le> 1"
      using c bnd rng by (auto simp: divide_le_eq_1)
    have "1 \<in> set c" using c mn mx rng by force
    then have "1 \<le> sum_list c" using unit by (simp add: member_le_sum_list)
    then show ?thesis using c unit by auto
  qed
qed

lemma ewm_normalize_col_total:
  assumes "col \<noteq> []" and "j < length ts"
  shows "\<exists>c. ewm_normalize_col ts j col = Inr c"
  using assms by (simp add: ewm_normalize_col_def Let_def)

lemma col_entropy_eq:
  assumes "sum_list c \<noteq> 0"
  shows "col_entropy k c = - k * plogp_masked (map (\<lambda>x. x / sum_list c) c)"
  using assms by (simp add: col_entropy_def plogp_filter)

lemma col_entropy_unit:
  assumes "\<forall>x \<in> set c. 0 \<le> x \<and> x \<le> 1" and "1 \<le> sum_list c" and "length c = n" and "2 \<le> n"
  shows "0 \<le> col_entropy (1 / ln (real n)) c \<and> col_entropy (1 / ln (real n)) c \<le> 1"
  using column_entropy_unit[of c] col_entropy_eq[of c] assms by simp

lemma numpy_ewm_A_Inr:
  assumes "mapM (\<lambda>j. ewm_normalize_col ts j (column data j)) [0..<ncols data] = Inr cs"
  defines "ds \<equiv> map (\<lambda>e. 1 - e) (map (col_entropy (1 / ln (real (length (rows data))))) cs)"
  shows "numpy_ewm_A data ts = (if sum_list ds = 0 then Inr (replicate (ncols data) (1 / real (ncols data)))
                                else Inr (map (\<lambda>d. d / sum_list ds) ds))"
  unfolding numpy_ewm_A_def assms(1) sbind_Inr Let_def ds_def ..

lemma ewm_normalized_cols:
  assumes "mapM (\<lambda>j. ewm_normalize_col ts j (column data j)) [0..<ncols data] = Inr cs"
  shows "length cs = ncols data \<and>
         (\<forall>c \<in> set cs. length c = length (rows data) \<and> (\<forall>x \<in> set c. 0 \<le> x \<and> x \<le> 1) \<and> 1 \<le> sum_list c)"
proof -
  note m = mapM_Inr_nth[OF assms]
  have "\<forall>i < length cs. length (cs ! i) = length (rows data) \<and> (\<forall>x \<in> set (cs ! i). 0 \<le> x \<and> x \<le> 1)
          \<and> 1 \<le> sum_list (cs ! i)"
    using m ewm_normalize_col_Inr by fastforce
  then have "\<forall>c \<in> set cs. length c = length (rows data) \<and> (\<forall>x \<in> set c. 0 \<le> x \<and> x \<le> 1)
               \<and> 1 \<le> sum_list c"
    by (metis in_set_conv_nth)
  then show ?thesis using m by simp
qed

lemma p_matrix_mat_of_cols:
  assumes "\<forall>c \<in> set cs. length c = n"
  shows "p_matrix (mat_of_cols n cs) = map (\<lambda>c. map (\<lambda>x. x / sum_list c) c) cs"
proof -
  have col: "column (mat_of_cols n cs) j = cs ! j" if "j < length cs" for j
    using that assms by (intro nth_equalityI) (auto simp: column_def mat_of_cols_def)
  have nc: "ncols (mat_of_cols n cs) = length cs" by (simp add: mat_of_cols_def)
  show ?thesis
    by (intro nth_equalityI) (simp_all add: p_matrix_def Let_def col nc)
qed

subsection \<open>Properties of the entropy weight method\<close>

text \<open>
  C8. Mode B returns a probability vector: for a matrix of non-negative values with at
  least two rows and one column, the weights are one per column, non-negative, and sum
  to 1 (spec section 8, weight normalisation).
\<close>

theorem numpy_ewm_B_weights:
  assumes wf: "wf_mat data" and n: "2 \<le> length (rows data)" and m: "0 < ncols data"
    and nonneg: "\<forall>r \<in> set (rows data). \<forall>x \<in> set r. 0 \<le> x"
  shows "\<exists>w. numpy_ewm_B data = Inr w \<and> length w = ncols data \<and> (\<forall>x \<in> set w. 0 \<le> x) \<and> sum_list w = 1"
proof -
  let ?ds = "map (\<lambda>e. 1 - e) (map (\<lambda>pc. - (1 / ln (real (length (rows data)))) * plogp_masked pc)
                 (p_matrix data))"
  have "\<forall>d \<in> set ?ds. 0 \<le> d"
  proof
    fix d assume "d \<in> set ?ds"
    then obtain j where j: "j < ncols data"
      and d: "d = 1 - - (1 / ln (real (length (rows data)))) *
                 plogp_masked (map (\<lambda>x. x / sum_list (column data j)) (column data j))"
      by (auto simp: p_matrix_def Let_def)
    have "- (1 / ln (real (length (column data j)))) *
            plogp_masked (map (\<lambda>x. x / sum_list (column data j)) (column data j)) \<le> 1"
      using column_entropy_unit[OF column_nonneg[OF wf j nonneg]] n by simp
    then show "0 \<le> d" using d by simp
  qed
  moreover have "length ?ds = ncols data" by simp
  ultimately show ?thesis
    unfolding numpy_ewm_B_Inr[OF n] by (rule weights_prob[OF _ _ m])
qed

text \<open>
  C9. Mode B raises \<open>ValueError\<close> when the matrix has at most one row, as the 0x0
  matrix of test_error_handling does (spec section 7, DomainError).
\<close>

theorem numpy_ewm_B_row_error:
  assumes "length (rows data) \<le> 1"
  shows "numpy_ewm_B data = Inl ValueError"
  using assms by (simp add: numpy_ewm_B_def Let_def)

text \<open>
  A constant positive matrix carries no information: every column has entropy 1 and
  Mode B returns the uniform weights \<open>1/m\<close> (test_basic_logic: 5x3 ones give 1/3 each).
\<close>

lemma numpy_ewm_B_constant:
  assumes "2 \<le> n" and "0 < a"
  shows "numpy_ewm_B \<lparr>ncols = m, rows = replicate n (replicate m a)\<rparr> = Inr (replicate m (1 / real m))"
proof -
  let ?data = "\<lparr>ncols = m, rows = replicate n (replicate m a)\<rparr>"
  have n2: "2 \<le> length (rows ?data)" using assms(1) by simp
  have pm: "p_matrix ?data = replicate m (replicate n (1 / real n))"
    using assms by (intro nth_equalityI) (simp_all add: p_matrix_def column_def sum_list_replicate)
  have lnn: "ln (real n) \<noteq> 0" using assms(1) by simp
  have "map (\<lambda>e. 1 - e) (map (\<lambda>pc. - (1 / ln (real (length (rows ?data)))) * plogp_masked pc)
          (p_matrix ?data)) = replicate m 0"
    using plogp_masked_uniform[of n] assms(1) lnn by (simp add: pm)
  then show ?thesis unfolding numpy_ewm_B_Inr[OF n2] by (simp add: sum_list_replicate)
qed

lemma ewm_B_divergence_unit:
  assumes wf: "wf_mat data" and n: "2 \<le> length (rows data)"
    and nonneg: "\<forall>r \<in> set (rows data). \<forall>x \<in> set r. 0 \<le> x"
    and d: "d \<in> set (map (\<lambda>e. 1 - e) (map (\<lambda>pc. - (1 / ln (real (length (rows data)))) * plogp_masked pc)
                 (p_matrix data)))"
  shows "0 \<le> d \<and> d \<le> 1"
proof -
  obtain j where j: "j < ncols data"
    and d: "d = 1 - - (1 / ln (real (length (rows data)))) *
               plogp_masked (map (\<lambda>x. x / sum_list (column data j)) (column data j))"
    using d by (auto simp: p_matrix_def Let_def)
  have "0 \<le> - (1 / ln (real (length (column data j)))) *
          plogp_masked (map (\<lambda>x. x / sum_list (column data j)) (column data j)) \<and>
        - (1 / ln (real (length (column data j)))) *
          plogp_masked (map (\<lambda>x. x / sum_list (column data j)) (column data j)) \<le> 1"
    using column_entropy_unit[OF column_nonneg[OF wf j nonneg]] n by simp
  then show ?thesis using d by simp
qed

lemma plogp_masked_zeros: "\<forall>p \<in> set ps. p = 0 \<Longrightarrow> plogp_masked ps = 0"
  by (induction ps) (simp_all add: plogp_masked_def)

lemma p_matrix_zero_column:
  assumes "j < ncols data" and "\<forall>x \<in> set (column data j). x = 0"
  shows "plogp_masked (p_matrix data ! j) = 0"
  using assms by (intro plogp_masked_zeros) (simp add: p_matrix_def Let_def)

text \<open>
  C11. The Mode B reference gives an all-zero indicator column entropy 0 (its proportions
  \<open>0 / 0\<close> are \<open>NaN\<close> in numpy, which the \<open>p > 0\<close> mask drops as the model drops its
  zeros), hence divergence 1, the largest a non-negative column can have: the column that
  carries no information gets a positive weight, at least that of every other indicator,
  where the spec's zero-sum policy (entropy 1.0, section 9) gives it divergence 0.
\<close>

theorem numpy_ewm_B_zero_column:
  assumes wf: "wf_mat data" and n: "2 \<le> length (rows data)"
    and nonneg: "\<forall>r \<in> set (rows data). \<forall>x \<in> set r. 0 \<le> x"
    and j: "j < ncols data" and z: "\<forall>x \<in> set (column data j). x = 0"
  shows "\<exists>w. numpy_ewm_B data = Inr w \<and> 0 < w ! j \<and> (\<forall>i < ncols data. w ! i \<le> w ! j)"
proof -
  let ?ds = "map (\<lambda>e. 1 - e) (map (\<lambda>pc. - (1 / ln (real (length (rows data)))) * plogp_masked pc)
                 (p_matrix data))"
  note unit = ewm_B_divergence_unit[OF wf n nonneg]
  have dj: "?ds ! j = 1" using p_matrix_zero_column[OF j z] j by simp
  have mem: "?ds ! j \<in> set ?ds" using j by (intro nth_mem) simp
  have "?ds ! j \<le> sum_list ?ds" using mem unit by (intro member_le_sum_list) blast+
  then have "1 \<le> sum_list ?ds" by (simp only: dj)
  then have S: "0 < sum_list ?ds" "sum_list ?ds \<noteq> 0" by simp_all
  have bound: "?ds ! i / sum_list ?ds \<le> 1 / sum_list ?ds" if i: "i < ncols data" for i
  proof -
    have "?ds ! i \<in> set ?ds" using i by (intro nth_mem) simp
    then have "?ds ! i \<le> 1" using unit by blast
    then show ?thesis using divide_right_mono[OF _ less_imp_le[OF S(1)]] by blast
  qed
  let ?w = "map (\<lambda>d. d / sum_list ?ds) ?ds"
  have wi: "?w ! i = ?ds ! i / sum_list ?ds" if "i < ncols data" for i
    using that by simp
  show ?thesis
  proof (intro exI conjI allI impI)
    show "numpy_ewm_B data = Inr ?w" unfolding numpy_ewm_B_Inr[OF n] using S(2) by simp
    show "0 < ?w ! j" unfolding wi[OF j] dj using S(1) by simp
    show "?w ! i \<le> ?w ! j" if "i < ncols data" for i
      unfolding wi[OF that] wi[OF j] dj by (rule bound[OF that])
  qed
qed

lemma numpy_ewm_A_total:
  assumes n: "2 \<le> length (rows data)" and m: "0 < ncols data" and ts: "ncols data \<le> length ts"
  shows "\<exists>w. numpy_ewm_A data ts = Inr w \<and> length w = ncols data \<and> (\<forall>x \<in> set w. 0 \<le> x) \<and> sum_list w = 1"
proof -
  have "\<exists>cs. mapM (\<lambda>j. ewm_normalize_col ts j (column data j)) [0..<ncols data] = Inr cs \<and>
              length cs = length [0..<ncols data] \<and> (\<forall>c \<in> set cs. True)"
  proof (rule mapM_total)
    fix j assume "j \<in> set [0..<ncols data]"
    then have "column data j \<noteq> []" "j < length ts" using n ts by (auto simp: column_def)
    then show "\<exists>c. ewm_normalize_col ts j (column data j) = Inr c \<and> True"
      using ewm_normalize_col_total by blast
  qed
  then obtain cs where cs: "mapM (\<lambda>j. ewm_normalize_col ts j (column data j)) [0..<ncols data] = Inr cs"
    by blast
  note nc = ewm_normalized_cols[OF cs]
  let ?ds = "map (\<lambda>e. 1 - e) (map (col_entropy (1 / ln (real (length (rows data))))) cs)"
  have "\<forall>d \<in> set ?ds. 0 \<le> d" using nc col_entropy_unit n by fastforce
  moreover have "length ?ds = ncols data" using nc by simp
  ultimately show ?thesis
    unfolding numpy_ewm_A_Inr[OF cs] by (rule weights_prob[OF _ _ m])
qed

text \<open>
  C12. Mode A returns a probability vector for every matrix with at least two rows and
  one column, and an indicator type per column: min-max normalisation puts every
  column in \<open>[0, 1]\<close>, whatever the signs of the data.
\<close>

theorem numpy_ewm_A_weights:
  assumes n: "2 \<le> length (rows data)" and m: "0 < ncols data" and ts: "ncols data \<le> length ts"
  shows "\<exists>w. numpy_ewm_A data ts = Inr w \<and> length w = ncols data \<and> (\<forall>x \<in> set w. 0 \<le> x) \<and> sum_list w = 1"
  using numpy_ewm_A_total[OF assms] .

text \<open>
  C13. Mode A is Mode B applied to the normalised matrix (spec section 4.6): with at least
  two rows, the benchmark's \<open>numpy_ewm\<close> equals the normalisation followed by the
  test's \<open>numpy_ewm\<close>.  In particular the zero-sum branch of Mode A (line 30) is
  never taken: every normalised column sums to at least 1.
\<close>

theorem numpy_ewm_A_as_mode_B:
  assumes n: "2 \<le> length (rows data)"
  shows "numpy_ewm_A data ts =
           sbind (mapM (\<lambda>j. ewm_normalize_col ts j (column data j)) [0..<ncols data])
             (\<lambda>cs. numpy_ewm_B (mat_of_cols (length (rows data)) cs))"
proof (cases "mapM (\<lambda>j. ewm_normalize_col ts j (column data j)) [0..<ncols data]")
  case (Inl e)
  then show ?thesis by (simp add: numpy_ewm_A_def)
next
  case (Inr cs)
  let ?n = "length (rows data)" and ?M = "mat_of_cols (length (rows data)) cs"
  note nc = ewm_normalized_cols[OF Inr]
  have n2: "2 \<le> length (rows ?M)" using n by (simp add: mat_of_cols_def)
  have pm: "p_matrix ?M = map (\<lambda>c. map (\<lambda>x. x / sum_list c) c) cs"
    using nc by (simp add: p_matrix_mat_of_cols)
  have rM: "length (rows ?M) = ?n" by (simp add: mat_of_cols_def)
  have "map (\<lambda>pc. - (1 / ln (real (length (rows ?M)))) * plogp_masked pc) (p_matrix ?M)
        = map (col_entropy (1 / ln (real ?n))) cs"
    unfolding pm rM map_map
  proof (rule map_cong[OF refl])
    fix c assume "c \<in> set cs"
    then have "sum_list c \<noteq> 0" using nc by fastforce
    then show "((\<lambda>pc. - (1 / ln (real ?n)) * plogp_masked pc) \<circ> (\<lambda>c. map (\<lambda>x. x / sum_list c) c)) c
               = col_entropy (1 / ln (real ?n)) c"
      by (simp add: col_entropy_eq)
  qed
  moreover have "ncols ?M = ncols data" using nc by (simp add: mat_of_cols_def)
  ultimately show ?thesis
    unfolding Inr sbind_Inr numpy_ewm_A_Inr[OF Inr] numpy_ewm_B_Inr[OF n2] by simp
qed

text \<open>
  Mode A on a matrix with columns but no rows raises \<open>ValueError\<close> (\<open>np.min\<close>
  of an empty column).
\<close>

lemma numpy_ewm_A_empty_error:
  assumes "rows data = []" and "0 < ncols data"
  shows "numpy_ewm_A data ts = Inl ValueError"
proof -
  have "[0..<ncols data] = 0 # [1..<ncols data]" using assms(2) by (simp add: upt_conv_Cons)
  then show ?thesis
    using assms(1) by (simp add: numpy_ewm_A_def ewm_normalize_col_def column_def)
qed

subsection \<open>Witnesses on the matrices of src/tests/test_entropy.py\<close>

lemma ewm_test_matrix: "wf_mat \<lparr>ncols = 3, rows = [[10, 20, 30], [15, 25, 35], [12, 18, 28], [9, 21, 31]]\<rparr> \<and> 2 \<le> length (rows \<lparr>ncols = 3, rows = [[10, 20, 30], [15, 25, 35], [12, 18, 28], [9, 21, 31]]\<rparr>) \<and> 0 < ncols \<lparr>ncols = 3, rows = [[10, 20, 30], [15, 25, 35], [12, 18, 28], [9, 21, 31]]\<rparr>"
  by (simp add: wf_mat_def)

theorem numpy_ewm_B_weights_witness:
  "wf_mat \<lparr>ncols = 3, rows = [[10, 20, 30], [15, 25, 35], [12, 18, 28], [9, 21, 31]]\<rparr> \<and> 2 \<le> length (rows \<lparr>ncols = 3, rows = [[10, 20, 30], [15, 25, 35], [12, 18, 28], [9, 21, 31]]\<rparr>) \<and> 0 < ncols \<lparr>ncols = 3, rows = [[10, 20, 30], [15, 25, 35], [12, 18, 28], [9, 21, 31]]\<rparr> \<and>
   (\<exists>w. numpy_ewm_B \<lparr>ncols = 3, rows = [[10, 20, 30], [15, 25, 35], [12, 18, 28], [9, 21, 31]]\<rparr> = Inr w \<and> length w = 3 \<and> sum_list w = 1)"
proof -
  have "\<forall>r \<in> set (rows \<lparr>ncols = 3, rows = [[10, 20, 30], [15, 25, 35], [12, 18, 28], [9, 21, 31]]\<rparr>). \<forall>x \<in> set r. 0 \<le> x" by simp
  then show ?thesis
    using numpy_ewm_B_weights[of "\<lparr>ncols = 3, rows = [[10, 20, 30], [15, 25, 35], [12, 18, 28], [9, 21, 31]]\<rparr>"] ewm_test_matrix by auto
qed

theorem numpy_ewm_B_row_error_witness: "numpy_ewm_B \<lparr>ncols = 0, rows = []\<rparr> = Inl ValueError"
  using numpy_ewm_B_row_error[of "\<lparr>ncols = 0, rows = []\<rparr>"] by simp

theorem numpy_ewm_A_weights_witness:
  "2 \<le> length (rows \<lparr>ncols = 3, rows = [[10, 20, 30], [15, 25, 35], [12, 18, 28], [9, 21, 31]]\<rparr>) \<and> 0 < ncols \<lparr>ncols = 3, rows = [[10, 20, 30], [15, 25, 35], [12, 18, 28], [9, 21, 31]]\<rparr> \<and> ncols \<lparr>ncols = 3, rows = [[10, 20, 30], [15, 25, 35], [12, 18, 28], [9, 21, 31]]\<rparr> \<le> length [1, 0, 1 :: int] \<and>
   (\<exists>w. numpy_ewm_A \<lparr>ncols = 3, rows = [[10, 20, 30], [15, 25, 35], [12, 18, 28], [9, 21, 31]]\<rparr> [1, 0, 1] = Inr w \<and> length w = 3 \<and> sum_list w = 1)"
  using numpy_ewm_A_weights[of "\<lparr>ncols = 3, rows = [[10, 20, 30], [15, 25, 35], [12, 18, 28], [9, 21, 31]]\<rparr>" "[1, 0, 1]"] by auto

theorem numpy_ewm_A_as_mode_B_witness:
  "2 \<le> length (rows \<lparr>ncols = 3, rows = [[10, 20, 30], [15, 25, 35], [12, 18, 28], [9, 21, 31]]\<rparr>) \<and>
   numpy_ewm_A \<lparr>ncols = 3, rows = [[10, 20, 30], [15, 25, 35], [12, 18, 28], [9, 21, 31]]\<rparr> [1, 0, 1] =
     sbind (mapM (\<lambda>j. ewm_normalize_col [1, 0, 1] j (column \<lparr>ncols = 3, rows = [[10, 20, 30], [15, 25, 35], [12, 18, 28], [9, 21, 31]]\<rparr> j)) [0..<ncols \<lparr>ncols = 3, rows = [[10, 20, 30], [15, 25, 35], [12, 18, 28], [9, 21, 31]]\<rparr>])
       (\<lambda>cs. numpy_ewm_B (mat_of_cols (length (rows \<lparr>ncols = 3, rows = [[10, 20, 30], [15, 25, 35], [12, 18, 28], [9, 21, 31]]\<rparr>)) cs))"
proof -
  have h: "2 \<le> length (rows \<lparr>ncols = 3, rows = [[10, 20, 30], [15, 25, 35], [12, 18, 28], [9, 21, 31]]\<rparr>)" by simp
  show ?thesis using numpy_ewm_A_as_mode_B[OF h] h by blast
qed


theorem numpy_ewm_B_zero_column_witness:
  "\<exists>w. numpy_ewm_B \<lparr>ncols = 2, rows = [[0, 1], [0, 2]]\<rparr> = Inr w \<and> 0 < w ! 0 \<and> w ! 1 \<le> w ! 0"
proof -
  have "\<exists>w. numpy_ewm_B \<lparr>ncols = 2, rows = [[0, 1], [0, 2]]\<rparr> = Inr w \<and> 0 < w ! 0 \<and>
          (\<forall>i < ncols \<lparr>ncols = 2, rows = [[0, 1], [0::real, 2]]\<rparr>. w ! i \<le> w ! 0)"
    by (rule numpy_ewm_B_zero_column) (simp_all add: wf_mat_def column_def)
  then show ?thesis by auto
qed
end
