(* ===== verification/Topsis.thy ===== *)
theory Topsis
  imports Prelude
begin

text \<open>
  TOPSIS closeness scores (spec section 4.7) as the numpy reference \<open>numpy_topsis\<close>
  of src/performance/benchmark.py (lines 44-67) computes them: column norms
  \<open>sqrt(sum(x^2))\<close>, the weighted normalised matrix \<open>data / norm * weights\<close>, per column
  the ideal best and worst (max/min for indicator type 1, min/max otherwise), per row
  the Euclidean distances to both ideals, and the score \<open>dw / (db + dw)\<close>.
  The weight vector is broadcast as numpy does for a vector of the column count or of
  length 1; any other length raises \<open>ValueError\<close> (numpy's outer broadcast of a
  one-column matrix against a longer weight vector is not modelled).
  The code divides twice: by a column norm, which is 0 only for an all-zero column, and
  by \<open>db + dw\<close>, which the spec leaves open (section 9).  IEEE gives \<open>NaN\<close> there and
  HOL gives 0, so every theorem about the scores assumes that no column norm is 0 (the
  model's \<open>x / 0 = 0\<close> is then never used in \<open>weighted_norm\<close>) and states when
  \<open>db + dw\<close> vanishes.
\<close>

subsection \<open>The score computation\<close>

text \<open>Lines 46-47: \<open>np.sqrt(np.sum(data ** 2, axis=0))\<close>.\<close>

definition norm_factors :: "mat \<Rightarrow> vec" where
  "norm_factors data =
     map (\<lambda>j. sqrt (sum_list (map (\<lambda>x. x\<^sup>2) (column data j)))) [0..<ncols data]"

text \<open>numpy broadcasting of a weight vector against \<open>n\<close> columns.\<close>

definition np_bcast :: "nat \<Rightarrow> vec \<Rightarrow> py_error + vec" where
  "np_bcast n v =
     (if length v = n then Inr v
      else if length v = 1 then Inr (replicate n (hd v))
      else Inl ValueError)"

text \<open>Line 49: \<open>data / norm_factors * weights\<close>, row by row.\<close>

definition weighted_norm :: "mat \<Rightarrow> vec \<Rightarrow> matrix" where
  "weighted_norm data w = map (\<lambda>r. map3 (\<lambda>x n wt. x / n * wt) r (norm_factors data) w) (rows data)"

text \<open>
  Lines 55-61 for one column: \<open>indicator_types[j]\<close> is read first (\<open>IndexError\<close> past
  its end), then \<open>np.max\<close>/\<open>np.min\<close> (\<open>ValueError\<close> on an empty column).
\<close>

definition ideal_col :: "int list \<Rightarrow> nat \<Rightarrow> vec \<Rightarrow> py_error + real \<times> real" where
  "ideal_col indicator_types j col =
     (if length indicator_types \<le> j then Inl IndexError
      else if col = [] then Inl ValueError
      else if indicator_types ! j = 1 then Inr (np_max col, np_min col)
      else Inr (np_min col, np_max col))"

text \<open>Lines 63-64: \<open>np.sqrt(np.sum((row - ideal) ** 2))\<close>.\<close>

definition euclid :: "vec \<Rightarrow> vec \<Rightarrow> real" where
  "euclid r ideal = sqrt (sum_list (map2 (\<lambda>x i. (x - i)\<^sup>2) r ideal))"

text \<open>Lines 44-64: everything up to the two distance vectors.\<close>

definition topsis_distances :: "mat \<Rightarrow> vec \<Rightarrow> int list \<Rightarrow> py_error + vec \<times> vec" where
  "topsis_distances data weights indicator_types =
     sbind (np_bcast (ncols data) weights) (\<lambda>w.
       let wn = weighted_norm data w in
       sbind (mapM (\<lambda>j. ideal_col indicator_types j (map (\<lambda>r. r ! j) wn)) [0..<ncols data])
         (\<lambda>ideals.
            let ideal_best = map fst ideals;
                ideal_worst = map snd ideals
            in Inr (map (\<lambda>r. euclid r ideal_best) wn, map (\<lambda>r. euclid r ideal_worst) wn)))"

text \<open>Line 66: \<open>scores = dist_worst / (dist_best + dist_worst)\<close>.\<close>

definition numpy_topsis :: "mat \<Rightarrow> vec \<Rightarrow> int list \<Rightarrow> py_error + vec" where
  "numpy_topsis data weights indicator_types =
     sbind (topsis_distances data weights indicator_types)
       (\<lambda>(dist_best, dist_worst). Inr (map2 (\<lambda>db dw. dw / (db + dw)) dist_best dist_worst))"

text \<open>
  Lines 51-61 as written: \<open>ideal_best\<close> and \<open>ideal_worst\<close> start as \<open>np.zeros(cols)\<close> and
  iteration \<open>j\<close> of the loop writes their entry \<open>j\<close>.  The loop variable grows, so
  termination is proved with the measure \<open>cols - j\<close>.
\<close>

function topsis_ideal_loop :: "int list \<Rightarrow> matrix \<Rightarrow> nat \<Rightarrow> nat \<Rightarrow> vec \<Rightarrow> vec \<Rightarrow> py_error + vec \<times> vec" where
  "topsis_ideal_loop indicator_types wn cols j ideal_best ideal_worst =
     (if j < cols then
        (case ideal_col indicator_types j (map (\<lambda>r. r ! j) wn) of
           Inl e \<Rightarrow> Inl e
         | Inr (b, w) \<Rightarrow> topsis_ideal_loop indicator_types wn cols (Suc j) (ideal_best[j := b]) (ideal_worst[j := w]))
      else Inr (ideal_best, ideal_worst))"
  by pat_completeness auto
termination
  by (relation "measure (\<lambda>(t, wn, cols, j, b, w). cols - j)") auto

text \<open>Lines 44-67 with the loop: \<open>numpy_topsis\<close> as the code runs it.\<close>

definition numpy_topsis_loop :: "mat \<Rightarrow> vec \<Rightarrow> int list \<Rightarrow> py_error + vec" where
  "numpy_topsis_loop data weights indicator_types =
     sbind (np_bcast (ncols data) weights) (\<lambda>w.
       let cols = ncols data; wn = weighted_norm data w in
       sbind (topsis_ideal_loop indicator_types wn cols 0 (replicate cols 0) (replicate cols 0))
         (\<lambda>(ideal_best, ideal_worst).
            let dist_best = map (\<lambda>r. euclid r ideal_best) wn;
                dist_worst = map (\<lambda>r. euclid r ideal_worst) wn
            in Inr (map2 (\<lambda>db dw. dw / (db + dw)) dist_best dist_worst)))"

declare topsis_ideal_loop.simps [simp del]

text \<open>Rescaling one indicator column by a factor (a change of unit), used to state invariance.\<close>

definition scale_column :: "nat \<Rightarrow> real \<Rightarrow> mat \<Rightarrow> mat" where
  "scale_column j c data = data\<lparr>rows := map (\<lambda>r. r[j := c * r ! j]) (rows data)\<rparr>"

text \<open>Row \<open>i\<close> holds the best value of every weighted column: it is the ideal-best vector.\<close>

definition best_row :: "int list \<Rightarrow> matrix \<Rightarrow> nat \<Rightarrow> nat \<Rightarrow> bool" where
  "best_row t wn n i \<longleftrightarrow> (\<forall>j < n. \<forall>r \<in> set wn. if t ! j = 1 then r ! j \<le> wn ! i ! j else wn ! i ! j \<le> r ! j)"

text \<open>Row \<open>i\<close> holds the worst value of every weighted column.\<close>

definition worst_row :: "int list \<Rightarrow> matrix \<Rightarrow> nat \<Rightarrow> nat \<Rightarrow> bool" where
  "worst_row t wn n i \<longleftrightarrow> (\<forall>j < n. \<forall>r \<in> set wn. if t ! j = 1 then wn ! i ! j \<le> r ! j else r ! j \<le> wn ! i ! j)"

subsection \<open>Lemmas\<close>

lemmas topsis_eval = numpy_topsis_def topsis_distances_def np_bcast_def weighted_norm_def norm_factors_def column_def
  ideal_col_def euclid_def np_max_def np_min_def Let_def upt_rec

lemma ideal_col_Inr_eq:
  assumes "ideal_col t j col = Inr p"
  shows "p = (if t ! j = 1 then (np_max col, np_min col) else (np_min col, np_max col))"
  using assms by (simp add: ideal_col_def split: if_splits)

lemma np_max_is: "x \<in> set xs \<Longrightarrow> \<forall>y \<in> set xs. y \<le> x \<Longrightarrow> np_max xs = x"
  using np_max_ge np_max_in by (metis antisym empty_iff list.set(1))

lemma np_min_is: "x \<in> set xs \<Longrightarrow> \<forall>y \<in> set xs. x \<le> y \<Longrightarrow> np_min xs = x"
  using np_min_le np_min_in by (metis antisym empty_iff list.set(1))

lemma ideals_at:
  assumes "mapM (\<lambda>j. ideal_col t j (map (\<lambda>r. r ! j) wn)) [0..<n] = Inr ideals" and "j < n"
  shows "ideals ! j = (if t ! j = 1 then (np_max (map (\<lambda>r. r ! j) wn), np_min (map (\<lambda>r. r ! j) wn))
                       else (np_min (map (\<lambda>r. r ! j) wn), np_max (map (\<lambda>r. r ! j) wn)))"
  proof -
  have "ideal_col t j (map (\<lambda>r. r ! j) wn) = Inr (ideals ! j)"
    using mapM_Inr_nth[OF assms(1)] assms(2) by simp
  then show ?thesis by (rule ideal_col_Inr_eq)
qed

lemma euclid_nonneg: "0 \<le> euclid r c"
  by (auto simp: euclid_def intro!: sum_list_nonneg)

lemma euclid_zero_iff:
  assumes "length r = length c"
  shows "euclid r c = 0 \<longleftrightarrow> r = c"
proof -
  have "euclid r c = 0 \<longleftrightarrow> sum_list (map2 (\<lambda>x i. (x - i)\<^sup>2) r c) = 0"
    by (simp add: euclid_def)
  also have "\<dots> \<longleftrightarrow> (\<forall>y \<in> set (map2 (\<lambda>x i. (x - i)\<^sup>2) r c). y = 0)"
    by (rule sum_list_nonneg_eq_0_iff) auto
  also have "\<dots> \<longleftrightarrow> (\<forall>j < length r. (r ! j - c ! j)\<^sup>2 = 0)"
    using assms by (auto simp: set_zip)
  also have "\<dots> \<longleftrightarrow> (\<forall>j < length r. r ! j = c ! j)"
    by simp
  also have "\<dots> \<longleftrightarrow> r = c" using assms by (simp add: list_eq_iff_nth_eq)
  finally show ?thesis .
qed

lemma np_bcast_Inr: "length v = n \<Longrightarrow> np_bcast n v = Inr v"
  by (simp add: np_bcast_def)

lemma length_norm_factors [simp]: "length (norm_factors data) = ncols data"
  by (simp add: norm_factors_def)

lemma weighted_norm_rows:
  assumes "wf_mat data" and "length w = ncols data"
  shows "length (weighted_norm data w) = length (rows data)"
    "\<forall>r \<in> set (weighted_norm data w). length r = ncols data"
  using assms by (auto simp: weighted_norm_def wf_mat_def)

lemma ideal_col_Inr:
  assumes "ideal_col t j col = Inr p"
  shows "col \<noteq> [] \<and> (p = (np_max col, np_min col) \<or> p = (np_min col, np_max col))"
  using assms by (simp add: ideal_col_def split: if_splits)

lemma ideal_cols_Inr:
  assumes "mapM (\<lambda>j. ideal_col t j (map (\<lambda>r. r ! j) wn)) [0..<n] = Inr ideals"
  shows "length ideals = n \<and> (\<forall>j < n. map (\<lambda>r. r ! j) wn \<noteq> [] \<and>
           (ideals ! j = (np_max (map (\<lambda>r. r ! j) wn), np_min (map (\<lambda>r. r ! j) wn)) \<or>
            ideals ! j = (np_min (map (\<lambda>r. r ! j) wn), np_max (map (\<lambda>r. r ! j) wn))))"
proof -
  note m = mapM_Inr_nth[OF assms]
  have h: "ideal_col t j (map (\<lambda>r. r ! j) wn) = Inr (ideals ! j)" if "j < n" for j
    using m that by simp
  have "\<forall>j < n. map (\<lambda>r. r ! j) wn \<noteq> [] \<and>
           (ideals ! j = (np_max (map (\<lambda>r. r ! j) wn), np_min (map (\<lambda>r. r ! j) wn)) \<or>
            ideals ! j = (np_min (map (\<lambda>r. r ! j) wn), np_max (map (\<lambda>r. r ! j) wn)))"
    using ideal_col_Inr[OF h] by blast
  then show ?thesis using m by simp
qed

lemma col_const_iff:
  assumes "x \<in> set col"
  shows "(np_max col = x \<and> np_min col = x) \<longleftrightarrow> (\<forall>y \<in> set col. y = x)"
proof
  assume "np_max col = x \<and> np_min col = x"
  then show "\<forall>y \<in> set col. y = x" using np_max_ge np_min_le by fastforce
next
  assume all: "\<forall>y \<in> set col. y = x"
  have "col \<noteq> []" using assms by auto
  then show "np_max col = x \<and> np_min col = x" using all np_max_in np_min_in by blast
qed

lemma topsis_distances_Inr:
  assumes "topsis_distances data weights t = Inr (db, dw)" and "length weights = ncols data"
  obtains ideals where
    "mapM (\<lambda>j. ideal_col t j (map (\<lambda>r. r ! j) (weighted_norm data weights))) [0..<ncols data] = Inr ideals"
    "db = map (\<lambda>r. euclid r (map fst ideals)) (weighted_norm data weights)"
    "dw = map (\<lambda>r. euclid r (map snd ideals)) (weighted_norm data weights)"
  using assms by (auto simp: topsis_distances_def np_bcast_Inr sbind_eq_Inr Let_def)

lemma ideal_pair_at:
  assumes "p = (np_max col, np_min col) \<or> p = (np_min col, np_max col)"
  shows "(fst p = x \<and> snd p = x) \<longleftrightarrow> (np_max col = x \<and> np_min col = x)"
  using assms by auto

lemma pairs_eq_iff:
  assumes "length xs = n" and "length ps = n"
  shows "(xs = map fst ps \<and> xs = map snd ps) \<longleftrightarrow> (\<forall>j < n. fst (ps ! j) = xs ! j \<and> snd (ps ! j) = xs ! j)"
  using assms by (auto simp: list_eq_iff_nth_eq)

lemma topsis_degenerate_row:
  assumes td: "topsis_distances data weights t = Inr (db, dw)" and wf: "wf_mat data"
    and lw: "length weights = ncols data" and i: "i < length db"
  shows "db ! i + dw ! i = 0 \<longleftrightarrow> (\<forall>r \<in> set (weighted_norm data weights). r = weighted_norm data weights ! i)"
proof -
  let ?wn = "weighted_norm data weights" and ?n = "ncols data"
  obtain ideals where I: "mapM (\<lambda>j. ideal_col t j (map (\<lambda>r. r ! j) ?wn)) [0..<?n] = Inr ideals"
    and db: "db = map (\<lambda>r. euclid r (map fst ideals)) ?wn"
    and dw: "dw = map (\<lambda>r. euclid r (map snd ideals)) ?wn"
    using topsis_distances_Inr[OF td lw] by blast
  note ic = ideal_cols_Inr[OF I] and wr = weighted_norm_rows[OF wf lw]
  have iw: "i < length ?wn" using i db by simp
  have li: "length (?wn ! i) = ?n" using wr iw by simp
  let ?col = "\<lambda>j. map (\<lambda>r. r ! j) ?wn"
  have mem: "?wn ! i ! j \<in> set (?col j)" for j using iw by auto
  have "db ! i + dw ! i = 0 \<longleftrightarrow> euclid (?wn ! i) (map fst ideals) = 0 \<and> euclid (?wn ! i) (map snd ideals) = 0"
    using iw euclid_nonneg[of "?wn ! i"] by (simp add: db dw add_nonneg_eq_0_iff)
  also have "\<dots> \<longleftrightarrow> ?wn ! i = map fst ideals \<and> ?wn ! i = map snd ideals"
    using li ic by (simp add: euclid_zero_iff)
  also have "\<dots> \<longleftrightarrow> (\<forall>j < ?n. fst (ideals ! j) = ?wn ! i ! j \<and> snd (ideals ! j) = ?wn ! i ! j)"
    using pairs_eq_iff[OF li conjunct1[OF ic]] .
  also have "\<dots> \<longleftrightarrow> (\<forall>j < ?n. np_max (?col j) = ?wn ! i ! j \<and> np_min (?col j) = ?wn ! i ! j)"
  proof -
    have "(fst (ideals ! j) = ?wn ! i ! j \<and> snd (ideals ! j) = ?wn ! i ! j) \<longleftrightarrow>
          (np_max (?col j) = ?wn ! i ! j \<and> np_min (?col j) = ?wn ! i ! j)" if "j < ?n" for j
      using ideal_pair_at[of "ideals ! j" "?col j"] conjunct2[OF ic] that by blast
    then show ?thesis by simp
  qed
  also have "\<dots> \<longleftrightarrow> (\<forall>j < ?n. \<forall>y \<in> set (?col j). y = ?wn ! i ! j)"
    using col_const_iff[OF mem] by simp
  also have "\<dots> \<longleftrightarrow> (\<forall>r \<in> set ?wn. \<forall>j < ?n. r ! j = ?wn ! i ! j)"
    by auto
  also have "\<dots> \<longleftrightarrow> (\<forall>r \<in> set ?wn. r = ?wn ! i)"
    using wr li by (auto simp: list_eq_iff_nth_eq)
  finally show ?thesis .
qed

lemma topsis_best_row_dist:
  assumes td: "topsis_distances data weights t = Inr (db, dw)" and wf: "wf_mat data"
    and lw: "length weights = ncols data" and i: "i < length db"
    and best: "best_row t (weighted_norm data weights) (ncols data) i"
  shows "db ! i = 0"
proof -
  let ?wn = "weighted_norm data weights" and ?n = "ncols data"
  obtain ideals where I: "mapM (\<lambda>j. ideal_col t j (map (\<lambda>r. r ! j) ?wn)) [0..<?n] = Inr ideals"
    and db: "db = map (\<lambda>r. euclid r (map fst ideals)) ?wn"
    using topsis_distances_Inr[OF td lw] by blast
  note wr = weighted_norm_rows[OF wf lw]
  have iw: "i < length ?wn" using i db by simp
  have li: "length (?wn ! i) = ?n" using wr iw by simp
  have "fst (ideals ! j) = ?wn ! i ! j" if j: "j < ?n" for j
  proof -
    have mem: "?wn ! i ! j \<in> set (map (\<lambda>r. r ! j) ?wn)" using iw by auto
    show ?thesis
      using best j ideals_at[OF I j] np_max_is[OF mem] np_min_is[OF mem]
      by (auto simp: best_row_def split: if_splits)
  qed
  then have "?wn ! i = map fst ideals"
    using li conjunct1[OF ideal_cols_Inr[OF I]] by (simp add: list_eq_iff_nth_eq)
  then show ?thesis using iw euclid_zero_iff[of "?wn ! i" "?wn ! i"] by (simp add: db)
qed

lemma row_eq_ideal:
  assumes "length ideals = n" and "length x = n" and "\<And>j. j < n \<Longrightarrow> sel (ideals ! j) = x ! j"
  shows "euclid x (map sel ideals) = 0"
proof -
  have "x = map sel ideals" using assms by (simp add: list_eq_iff_nth_eq)
  then show ?thesis using euclid_zero_iff[of x x] by simp
qed

lemma topsis_worst_row_dist:
  assumes td: "topsis_distances data weights t = Inr (db, dw)" and wf: "wf_mat data"
    and lw: "length weights = ncols data" and i: "i < length dw"
    and worst: "worst_row t (weighted_norm data weights) (ncols data) i"
  shows "dw ! i = 0"
proof -
  let ?wn = "weighted_norm data weights" and ?n = "ncols data"
  obtain ideals where I: "mapM (\<lambda>j. ideal_col t j (map (\<lambda>r. r ! j) ?wn)) [0..<?n] = Inr ideals"
    and dw: "dw = map (\<lambda>r. euclid r (map snd ideals)) ?wn"
    using topsis_distances_Inr[OF td lw] by blast
  have iw: "i < length ?wn" using i dw by simp
  have "snd (ideals ! j) = ?wn ! i ! j" if j: "j < ?n" for j
  proof -
    have mem: "?wn ! i ! j \<in> set (map (\<lambda>r. r ! j) ?wn)" using iw by auto
    show ?thesis
      using worst j ideals_at[OF I j] np_max_is[OF mem] np_min_is[OF mem]
      by (auto simp: worst_row_def split: if_splits)
  qed
  moreover have "length (?wn ! i) = ?n" using weighted_norm_rows[OF wf lw] iw by simp
  ultimately have "euclid (?wn ! i) (map snd ideals) = 0"
    using row_eq_ideal[OF conjunct1[OF ideal_cols_Inr[OF I]]] by blast
  then show ?thesis using iw by (simp add: dw)
qed

lemma topsis_distances_length:
  assumes "topsis_distances data weights t = Inr (db, dw)" and "length weights = ncols data"
  shows "length db = length (rows data) \<and> length dw = length (rows data)"
proof -
  obtain ideals where "db = map (\<lambda>r. euclid r (map fst ideals)) (weighted_norm data weights)"
    "dw = map (\<lambda>r. euclid r (map snd ideals)) (weighted_norm data weights)"
    using topsis_distances_Inr[OF assms] by blast
  then show ?thesis by (simp add: weighted_norm_def)
qed

lemma topsis_distances_nonneg:
  assumes "topsis_distances data weights t = Inr (db, dw)" and "length weights = ncols data"
  shows "\<forall>i < length db. 0 \<le> db ! i" "\<forall>i < length dw. 0 \<le> dw ! i"
proof -
  obtain ideals where "db = map (\<lambda>r. euclid r (map fst ideals)) (weighted_norm data weights)"
    "dw = map (\<lambda>r. euclid r (map snd ideals)) (weighted_norm data weights)"
    using topsis_distances_Inr[OF assms] by blast
  then show "\<forall>i < length db. 0 \<le> db ! i" "\<forall>i < length dw. 0 \<le> dw ! i"
    by (simp_all add: euclid_nonneg)
qed

lemma topsis_nondegenerate:
  assumes td: "topsis_distances data weights t = Inr (db, dw)" and wf: "wf_mat data"
    and lw: "length weights = ncols data" and i: "i < length db"
    and k: "k < length (rows data)"
    and nd: "weighted_norm data weights ! k \<noteq> weighted_norm data weights ! i"
  shows "0 < db ! i + dw ! i"
proof -
  have "db ! i + dw ! i \<noteq> 0"
    using topsis_degenerate_row[OF td wf lw i] nd k weighted_norm_rows(1)[OF wf lw] by auto
  moreover have "0 \<le> db ! i" "0 \<le> dw ! i"
    using topsis_distances_nonneg[OF td lw] topsis_distances_length[OF td lw] i by auto
  ultimately show ?thesis by linarith
qed

lemma numpy_topsis_Inr:
  "numpy_topsis data weights t = Inr s \<longleftrightarrow>
     (\<exists>db dw. topsis_distances data weights t = Inr (db, dw) \<and> s = map2 (\<lambda>db dw. dw / (db + dw)) db dw)"
  by (auto simp: numpy_topsis_def sbind_eq_Inr)

lemma ncols_scale_column [simp]: "ncols (scale_column j c data) = ncols data"
  by (simp add: scale_column_def)

lemma column_scale_column:
  assumes "wf_mat data" and "j < ncols data"
  shows "column (scale_column j c data) k = (if k = j then map ((*) c) (column data j) else column data k)"
  using assms by (auto simp: column_def scale_column_def wf_mat_def)

lemma norm_factors_scale_column:
  assumes wf: "wf_mat data" and j: "j < ncols data" and c: "0 < c"
  shows "norm_factors (scale_column j c data) = (norm_factors data)[j := c * norm_factors data ! j]"
proof (rule nth_equalityI)
  fix k assume "k < length (norm_factors (scale_column j c data))"
  then have k: "k < ncols data" by simp
  have "sum_list (map (\<lambda>x. x\<^sup>2) (map ((*) c) xs)) = c\<^sup>2 * sum_list (map (\<lambda>x. x\<^sup>2) xs)" for xs :: vec
    by (induction xs) (simp_all add: power_mult_distrib algebra_simps)
  then have "sqrt (sum_list (map (\<lambda>x. x\<^sup>2) (map ((*) c) xs))) = c * sqrt (sum_list (map (\<lambda>x. x\<^sup>2) xs))" for xs
    using c by (simp add: real_sqrt_mult)
  then show "norm_factors (scale_column j c data) ! k = (norm_factors data)[j := c * norm_factors data ! j] ! k"
    using k j by (simp add: norm_factors_def column_scale_column[OF wf j])
qed simp

lemma weighted_norm_scale_column:
  assumes wf: "wf_mat data" and j: "j < ncols data" and c: "0 < c"
  shows "weighted_norm (scale_column j c data) w = weighted_norm data w"
proof -
  have "map3 (\<lambda>x n wt. x / n * wt) (r[j := c * r ! j]) ((norm_factors data)[j := c * norm_factors data ! j]) w
        = map3 (\<lambda>x n wt. x / n * wt) r (norm_factors data) w" if "r \<in> set (rows data)" for r
  proof (rule nth_equalityI)
    have lr: "length r = ncols data" using wf that by (simp add: wf_mat_def)
    fix k assume "k < length (map3 (\<lambda>x n wt. x / n * wt) (r[j := c * r ! j])
                     ((norm_factors data)[j := c * norm_factors data ! j]) w)"
    then show "map3 (\<lambda>x n wt. x / n * wt) (r[j := c * r ! j]) ((norm_factors data)[j := c * norm_factors data ! j]) w ! k
        = map3 (\<lambda>x n wt. x / n * wt) r (norm_factors data) w ! k"
      using c lr by (cases "k = j") simp_all
  qed simp
  then show ?thesis
    by (simp add: weighted_norm_def norm_factors_scale_column[OF assms]) (simp add: scale_column_def)
qed

lemma topsis_distances_scale_column:
  assumes "wf_mat data" and "j < ncols data" and "0 < c"
  shows "topsis_distances (scale_column j c data) weights t = topsis_distances data weights t"
  by (simp add: topsis_distances_def weighted_norm_scale_column[OF assms])

lemma numpy_topsis_total:
  assumes wf: "wf_mat data" and lw: "length weights = ncols data"
    and ne: "rows data \<noteq> []" and ts: "ncols data \<le> length t"
  shows "\<exists>s. numpy_topsis data weights t = Inr s \<and> length s = length (rows data)"
proof -
  let ?wn = "weighted_norm data weights"
  have "?wn \<noteq> []" using ne by (simp add: weighted_norm_def)
  then have "\<exists>ideals. mapM (\<lambda>j. ideal_col t j (map (\<lambda>r. r ! j) ?wn)) [0..<ncols data] = Inr ideals \<and>
              length ideals = length [0..<ncols data] \<and> (\<forall>p \<in> set ideals. True)"
    using ts by (intro mapM_total) (auto simp: ideal_col_def)
  then obtain ideals where "mapM (\<lambda>j. ideal_col t j (map (\<lambda>r. r ! j) ?wn)) [0..<ncols data] = Inr ideals"
    by blast
  then have "topsis_distances data weights t =
               Inr (map (\<lambda>r. euclid r (map fst ideals)) ?wn, map (\<lambda>r. euclid r (map snd ideals)) ?wn)"
    using lw by (simp add: topsis_distances_def np_bcast_Inr Let_def)
  then show ?thesis by (simp add: numpy_topsis_def weighted_norm_def)
qed

lemma topsis_ideal_loop_mapM:
  assumes "j \<le> cols" and "length ib = cols" and "length iw = cols"
  shows "topsis_ideal_loop t wn cols j ib iw =
           sbind (mapM (\<lambda>k. ideal_col t k (map (\<lambda>r. r ! k) wn)) [j..<cols])
             (\<lambda>ids. Inr (take j ib @ map fst ids, take j iw @ map snd ids))"
  using assms
proof (induction t wn cols j ib iw rule: topsis_ideal_loop.induct)
  case (1 t wn cols j ib iw)
  show ?case
  proof (cases "j < cols")
    case False
    then show ?thesis using "1.prems" by (subst topsis_ideal_loop.simps) simp
  next
    case True
    then have up: "[j..<cols] = j # [Suc j..<cols]" by (simp add: upt_conv_Cons)
    show ?thesis
    proof (cases "ideal_col t j (map (\<lambda>r. r ! j) wn)")
      case (Inl e)
      with True show ?thesis by (simp add: topsis_ideal_loop.simps [of t wn cols j ib iw] up)
    next
      case (Inr p)
      obtain b w where p: "p = (b, w)" by fastforce
      have "take (Suc j) (ib[j := b]) = take j ib @ [b]" "take (Suc j) (iw[j := w]) = take j iw @ [w]"
        using True "1.prems" by (simp_all add: take_Suc_conv_app_nth)
      with "1.IH"[OF True Inr p[symmetric]] True "1.prems" Inr p show ?thesis
        by (cases "mapM (\<lambda>k. ideal_col t k (map (\<lambda>r. r ! k) wn)) [Suc j..<cols]")
           (simp_all add: topsis_ideal_loop.simps [of t wn cols j ib iw] up)
    qed
  qed
qed

lemma topsis_example_1:
  "weighted_norm \<lparr>ncols = 1, rows = [[3], [4]]\<rparr> [1] = [[3/5], [4/5]]"
  "topsis_distances \<lparr>ncols = 1, rows = [[3], [4]]\<rparr> [1] [1] = Inr ([1/5, 0], [0, 1/5])"
  "numpy_topsis \<lparr>ncols = 1, rows = [[3], [4]]\<rparr> [1] [1] = Inr [0, 1]"
  by (simp_all add: topsis_eval)

lemma topsis_example_2:
  "weighted_norm \<lparr>ncols = 2, rows = [[3, 4], [4, 3]]\<rparr> [1, 1] = [[3/5, 4/5], [4/5, 3/5]]"
  "numpy_topsis \<lparr>ncols = 2, rows = [[3, 4], [4, 3]]\<rparr> [1, 1] [0, 1] = Inr [1, 0]"
  by (simp_all add: topsis_eval)

text \<open>
  C15 (spec section 8: TOPSIS scores lie in [0, 1]).  When two rows of the weighted
  normalised matrix differ and no column of the data is all zero (so that no column
  norm is 0, where the code would divide 0 by 0), every row's divisor \<open>dist_best + dist_worst\<close> is positive,
  so no score is \<open>NaN\<close>, and every score \<open>dist_worst / (dist_best + dist_worst)\<close> lies in
  \<open>[0, 1]\<close>; there is one score per row.
\<close>

theorem numpy_topsis_scores_unit:
  assumes ts: "numpy_topsis data weights t = Inr s" and wf: "wf_mat data"
    and lw: "length weights = ncols data"
    and k: "k < length (rows data)" and i0: "i0 < length (rows data)"
    and nd: "weighted_norm data weights ! k \<noteq> weighted_norm data weights ! i0"
    and nz: "\<forall>n \<in> set (norm_factors data). n \<noteq> 0"
  shows "\<exists>db dw. topsis_distances data weights t = Inr (db, dw) \<and> length s = length (rows data) \<and>
           (\<forall>i < length s. 0 < db ! i + dw ! i \<and> s ! i = dw ! i / (db ! i + dw ! i) \<and> 0 \<le> s ! i \<and> s ! i \<le> 1)"
proof -
  obtain db dw where td: "topsis_distances data weights t = Inr (db, dw)"
    and s: "s = map2 (\<lambda>db dw. dw / (db + dw)) db dw"
    using ts numpy_topsis_Inr by blast
  note len = topsis_distances_length[OF td lw] and nn = topsis_distances_nonneg[OF td lw]
  have pos: "0 < db ! i + dw ! i" if "i < length db" for i
  proof (cases "weighted_norm data weights ! k = weighted_norm data weights ! i")
    case True
    then show ?thesis using topsis_nondegenerate[OF td wf lw that i0] nd by simp
  next
    case False
    then show ?thesis using topsis_nondegenerate[OF td wf lw that k] by simp
  qed
  have "0 \<le> dw ! i / (db ! i + dw ! i) \<and> dw ! i / (db ! i + dw ! i) \<le> 1" if "i < length db" for i
    using pos[OF that] nn len that by simp
  then show ?thesis using td s len pos by auto
qed

text \<open>
  C16.  A row that holds the best value of every weighted column (the maximum of a
  benefit column, the minimum of a cost column) is the ideal-best vector and scores
  exactly 1, as long as some other weighted row differs from it and no column norm is 0.
\<close>

theorem numpy_topsis_ideal_best:
  assumes ts: "numpy_topsis data weights t = Inr s" and wf: "wf_mat data"
    and lw: "length weights = ncols data" and i: "i < length (rows data)"
    and best: "best_row t (weighted_norm data weights) (ncols data) i"
    and k: "k < length (rows data)"
    and nd: "weighted_norm data weights ! k \<noteq> weighted_norm data weights ! i"
    and nz: "\<forall>n \<in> set (norm_factors data). n \<noteq> 0"
  shows "s ! i = 1"
proof -
  obtain db dw where td: "topsis_distances data weights t = Inr (db, dw)"
    and s: "s = map2 (\<lambda>db dw. dw / (db + dw)) db dw"
    using ts numpy_topsis_Inr by blast
  note len = topsis_distances_length[OF td lw]
  have "db ! i = 0" using topsis_best_row_dist[OF td wf lw _ best] len i by simp
  moreover have "0 < db ! i + dw ! i" using topsis_nondegenerate[OF td wf lw _ k nd] len i by simp
  ultimately show ?thesis using s len i by simp
qed

text \<open>
  C17.  A row that holds the worst value of every weighted column has distance 0 to the
  ideal-worst vector and a positive distance to the ideal-best one, so it scores
  exactly 0, as long as some other weighted row differs from it and no column norm is 0.
\<close>

theorem numpy_topsis_ideal_worst:
  assumes ts: "numpy_topsis data weights t = Inr s" and wf: "wf_mat data"
    and lw: "length weights = ncols data" and i: "i < length (rows data)"
    and worst: "worst_row t (weighted_norm data weights) (ncols data) i"
    and k: "k < length (rows data)"
    and nd: "weighted_norm data weights ! k \<noteq> weighted_norm data weights ! i"
    and nz: "\<forall>n \<in> set (norm_factors data). n \<noteq> 0"
  shows "\<exists>db dw. topsis_distances data weights t = Inr (db, dw) \<and> dw ! i = 0 \<and> 0 < db ! i \<and> s ! i = 0"
proof -
  obtain db dw where td: "topsis_distances data weights t = Inr (db, dw)"
    and s: "s = map2 (\<lambda>db dw. dw / (db + dw)) db dw"
    using ts numpy_topsis_Inr by blast
  note len = topsis_distances_length[OF td lw]
  have "dw ! i = 0" using topsis_worst_row_dist[OF td wf lw _ worst] len i by simp
  moreover have "0 < db ! i + dw ! i" using topsis_nondegenerate[OF td wf lw _ k nd] len i by simp
  ultimately show ?thesis using td s len i by simp
qed

text \<open>
  C18 (spec section 9, degenerate TOPSIS rows).  If all rows of the weighted normalised
  matrix are equal (and no column norm is 0), both distance vectors are zero for every row,
  so the score line divides 0 by 0 in every row and numpy returns \<open>NaN\<close> everywhere.  Together with
  \<open>topsis_degenerate_row\<close> this says the degenerate case is all rows or none.
\<close>

theorem numpy_topsis_degenerate:
  assumes td: "topsis_distances data weights t = Inr (db, dw)" and wf: "wf_mat data"
    and lw: "length weights = ncols data"
    and same: "\<forall>r \<in> set (weighted_norm data weights). r = hd (weighted_norm data weights)"
    and nz: "\<forall>n \<in> set (norm_factors data). n \<noteq> 0"
  shows "db = replicate (length (rows data)) 0 \<and> dw = replicate (length (rows data)) 0"
proof -
  note len = topsis_distances_length[OF td lw] and nn = topsis_distances_nonneg[OF td lw]
  have z: "db ! i = 0 \<and> dw ! i = 0" if i: "i < length db" for i
  proof -
    have "weighted_norm data weights ! i = hd (weighted_norm data weights)"
      using same i len weighted_norm_rows(1)[OF wf lw] by (simp add: nth_mem)
    then have "db ! i + dw ! i = 0"
      using topsis_degenerate_row[OF td wf lw i] same by simp
    then show ?thesis using nn i len by (simp add: add_nonneg_eq_0_iff)
  qed
  then show ?thesis using len by (simp add: list_eq_iff_nth_eq)
qed

text \<open>
  Spec section 8 says scores lie in [0, 1] for inputs with at least two distinct
  rows, yet two distinct input rows do not suffice: with a zero weight on the only column
  where they differ, the weighted rows coincide and both distances vanish for every row,
  so \<open>numpy_topsis\<close> returns \<open>NaN\<close> scores.
\<close>

lemma numpy_topsis_distinct_rows_nan:
  "rows \<lparr>ncols = 2, rows = [[1, 1], [1, 2]]\<rparr> ! 0 \<noteq> rows \<lparr>ncols = 2, rows = [[1, 1], [1, 2]]\<rparr> ! 1 \<and>
   topsis_distances \<lparr>ncols = 2, rows = [[1, 1], [1, 2]]\<rparr> [1, 0] [1, 1] = Inr ([0, 0], [0, 0])"
  by (simp add: topsis_eval)

text \<open>
  Rescaling one indicator column by a positive factor (a change of unit) leaves the
  scores unchanged: the column norm absorbs the factor.
\<close>

lemma numpy_topsis_scale_invariant:
  assumes "wf_mat data" and "j < ncols data" and "0 < c"
  shows "numpy_topsis (scale_column j c data) weights t = numpy_topsis data weights t"
  by (simp add: numpy_topsis_def topsis_distances_scale_column[OF assms])

text \<open>
  C31.  The loop of \<open>numpy_topsis\<close> that fills \<open>ideal_best\<close> and \<open>ideal_worst\<close> in place
  computes the column-wise ideals: the code as written returns exactly what the
  reference \<open>numpy_topsis\<close> returns, scores or exception, on every input.
\<close>

theorem numpy_topsis_loop_eq: "numpy_topsis_loop data weights t = numpy_topsis data weights t"
proof -
  have "topsis_ideal_loop t wn (ncols data) 0 (replicate (ncols data) 0) (replicate (ncols data) 0) =
        sbind (mapM (\<lambda>k. ideal_col t k (map (\<lambda>r. r ! k) wn)) [0..<ncols data])
          (\<lambda>ids. Inr (map fst ids, map snd ids))" for wn
    using topsis_ideal_loop_mapM[of 0 "ncols data" "replicate (ncols data) 0" "replicate (ncols data) 0" t wn] by simp
  then show ?thesis
    by (cases "np_bcast (ncols data) weights")
       (simp_all add: numpy_topsis_loop_def numpy_topsis_def topsis_distances_def Let_def sbind_def split: sum.splits)
qed

theorem numpy_topsis_scores_unit_witness:
  "numpy_topsis \<lparr>ncols = 1, rows = [[3], [4]]\<rparr> [1] [1] = Inr [0, 1] \<and>
   weighted_norm \<lparr>ncols = 1, rows = [[3], [4]]\<rparr> [1] ! 0 \<noteq> weighted_norm \<lparr>ncols = 1, rows = [[3], [4]]\<rparr> [1] ! 1 \<and>
   (\<exists>db dw. topsis_distances \<lparr>ncols = 1, rows = [[3], [4]]\<rparr> [1] [1] = Inr (db, dw) \<and>
     0 < db ! 0 + dw ! 0 \<and> 0 < db ! 1 + dw ! 1)"
proof -
  have nz: "\<forall>n \<in> set (norm_factors \<lparr>ncols = 1, rows = [[3], [4]]\<rparr>). n \<noteq> 0"
    by (simp add: norm_factors_def column_def upt_rec)
  have "\<exists>db dw. topsis_distances \<lparr>ncols = 1, rows = [[3], [4]]\<rparr> [1] [1] = Inr (db, dw) \<and> length [0, 1::real] = 2 \<and>
           (\<forall>i < length [0, 1::real]. 0 < db ! i + dw ! i \<and> [0, 1] ! i = dw ! i / (db ! i + dw ! i) \<and>
              0 \<le> [0, 1::real] ! i \<and> [0, 1::real] ! i \<le> 1)"
    using numpy_topsis_scores_unit[OF topsis_example_1(3) _ _ _ _ _ nz, of 0 1] topsis_example_1(1)
    by (simp add: wf_mat_def)
  then show ?thesis using topsis_example_1 by auto
qed

theorem numpy_topsis_ideal_best_witness:
  "best_row [0, 1] (weighted_norm \<lparr>ncols = 2, rows = [[3, 4], [4, 3]]\<rparr> [1, 1]) 2 0 \<and>
   [1, 0::real] ! 0 = 1"
proof -
  have nz2: "\<forall>n \<in> set (norm_factors \<lparr>ncols = 2, rows = [[3, 4], [4, 3]]\<rparr>). n \<noteq> 0"
    by (simp add: norm_factors_def column_def upt_rec)
  have b: "best_row [0, 1] (weighted_norm \<lparr>ncols = 2, rows = [[3, 4], [4, 3]]\<rparr> [1, 1]) 2 0"
    unfolding best_row_def topsis_example_2(1) by (simp add: less_Suc_eq numeral_2_eq_2)
  show ?thesis
    using numpy_topsis_ideal_best[OF topsis_example_2(2) _ _ _ _ _ _ nz2, of 0 1] b topsis_example_2(1)
    by (simp add: wf_mat_def)
qed

theorem numpy_topsis_ideal_worst_witness:
  "worst_row [0, 1] (weighted_norm \<lparr>ncols = 2, rows = [[3, 4], [4, 3]]\<rparr> [1, 1]) 2 1 \<and>
   (\<exists>db dw. topsis_distances \<lparr>ncols = 2, rows = [[3, 4], [4, 3]]\<rparr> [1, 1] [0, 1] = Inr (db, dw) \<and>
     dw ! 1 = 0 \<and> 0 < db ! 1)"
proof -
  have nz2: "\<forall>n \<in> set (norm_factors \<lparr>ncols = 2, rows = [[3, 4], [4, 3]]\<rparr>). n \<noteq> 0"
    by (simp add: norm_factors_def column_def upt_rec)
  have w: "worst_row [0, 1] (weighted_norm \<lparr>ncols = 2, rows = [[3, 4], [4, 3]]\<rparr> [1, 1]) 2 1"
    unfolding worst_row_def topsis_example_2(1) by (simp add: less_Suc_eq numeral_2_eq_2)
  show ?thesis
    using numpy_topsis_ideal_worst[OF topsis_example_2(2) _ _ _ _ _ _ nz2, of 1 0] w topsis_example_2(1)
    by (simp add: wf_mat_def)
qed

theorem numpy_topsis_degenerate_witness:
  "topsis_distances \<lparr>ncols = 2, rows = [[2, 5], [2, 5]]\<rparr> [1, 1] [1, 0] = Inr ([0, 0], [0, 0])"
proof -
  obtain db dw where td: "topsis_distances \<lparr>ncols = 2, rows = [[2, 5], [2, 5]]\<rparr> [1, 1] [1, 0] = Inr (db, dw)"
    by (simp add: topsis_eval)
  have "db = [0, 0] \<and> dw = [0, 0]"
    using numpy_topsis_degenerate[OF td] by (simp add: wf_mat_def topsis_eval numeral_2_eq_2)
  then show ?thesis using td by simp
qed

end
