(* ===== verification/Wrapper.thy ===== *)
theory Wrapper
  imports DE_Optimizer
begin

text \<open>
  The \<open>DE\<close> class of src/python/walitool/__init__.py and the fitness-evaluation boundary
  of the native core it wraps (spec section 4.2).  \<open>DE.__new__\<close> fills in the default
  options and converts the bounds before calling the native constructor;
  \<open>DE.optimize\<close> compiles the Python fitness function to a native callback through
  \<open>_compile_to_native\<close> (numba \<open>njit\<close> plus a \<open>cfunc\<close> with the signature
  \<open>(uint64 n, uint64 d, double *in, double *out)\<close>, cached per function object in
  \<open>_NUMBA_CACHE\<close>) and falls back to the Python callback when numba is missing or when
  anything raises.  The callback itself cannot raise: numba writes an exception inside a
  \<open>void\<close> \<open>cfunc\<close> out as unraisable and returns normally, so the output buffer keeps
  what it held before the call.  The native core \<open>walitool._walitool._DE\<close> is not in the repository;
  its constructor and its evaluation boundary are modelled from the spec (sections 4.2,
  4.5), and its generation loop is the reference loop \<open>NumpyDE_optimize\<close>, which the spec
  requires it to reproduce.  numba's compiler is an external service: a parameter
  \<open>njit\<close> that maps a function object to the batch function it compiles to, or raises.
\<close>

subsection \<open>Construction\<close>

text \<open>
  The native constructor (spec section 4.5): \<open>ConfigError\<close> for a population below 4,
  no dimension, bounds of the wrong length or crossed, \<open>F \<le> 0\<close> or \<open>CR\<close> outside
  \<open>[0, 1]\<close>.  Missing bounds are rejected as well (the spec requires bounds) and missing
  option keys take the reference defaults of \<open>NumpyDE\<close>.
\<close>

definition native_DE_new :: "nat \<Rightarrow> nat \<Rightarrow> (string \<rightharpoonup> real) \<Rightarrow> (vec \<times> vec) option \<Rightarrow> py_error + numpy_de" where
  "native_DE_new popn dimensions options bounds =
     (case bounds of
        None \<Rightarrow> Inl ConfigError
      | Some (lo, hi) \<Rightarrow>
          let f = dict_get options ''F'' 0.5; cr = dict_get options ''CR'' 0.7 in
          if popn < 4 \<or> dimensions < 1 \<or> length lo \<noteq> dimensions \<or> length hi \<noteq> dimensions
             \<or> \<not> list_all (\<lambda>d. lo ! d \<le> hi ! d) [0..<dimensions] \<or> f \<le> 0 \<or> cr < 0 \<or> 1 < cr
          then Inl ConfigError
          else Inr \<lparr>pop_size = popn, dim = dimensions, lb = lo, ub = hi, F = f, CR = cr\<rparr>)"

text \<open>
  Lines 13-26, the construction \<open>DE(...)\<close>: \<open>DE.__new__\<close> (lines 14-23) fills in the default
  options, converts the bounds to float64 arrays and calls the native \<open>_DE.__new__\<close>;
  \<open>DE.__init__\<close> (lines 25-26) does nothing afterwards.
\<close>

definition DE_new :: "nat \<Rightarrow> nat \<Rightarrow> (string \<rightharpoonup> real) option \<Rightarrow> (vec \<times> vec) option \<Rightarrow> py_error + numpy_de" where
  "DE_new popn dimensions options bounds =
     (let options' = (case options of None \<Rightarrow> [''F'' \<mapsto> 0.5, ''CR'' \<mapsto> 0.7] | Some opts \<Rightarrow> opts);
          bounds' = map_option (\<lambda>(lb, ub). (lb, ub)) bounds
      in native_DE_new popn dimensions options' bounds')"

text \<open>The constructor called with the signature's defaults \<open>pop=20, dimensions=2\<close>.\<close>

definition DE_default :: "(vec \<times> vec) option \<Rightarrow> py_error + numpy_de" where
  "DE_default bounds = DE_new 20 2 None bounds"

subsection \<open>The native calling convention\<close>

text \<open>
  A C-contiguous float64 matrix is the row-major concatenation of its rows
  (\<open>carray(in_ptr, (n, d))\<close> reads it back).
\<close>

definition flatten :: "matrix \<Rightarrow> vec" where
  "flatten M = concat M"

definition unflatten :: "nat \<Rightarrow> nat \<Rightarrow> vec \<Rightarrow> matrix" where
  "unflatten n d buf = map (\<lambda>i. take d (drop (i * d) buf)) [0..<n]"

text \<open>
  A native callback of signature \<open>void(uint64, uint64, double *, double *)\<close>:
  \<open>(n, d, input buffer, output buffer before the call)\<close> to the output buffer after it.
  It has no return value and no way to signal an error.
\<close>

type_synonym native_fn = "nat \<Rightarrow> nat \<Rightarrow> vec \<Rightarrow> vec \<Rightarrow> vec"

text \<open>
  Lines 49-54, the \<open>cfunc\<close> \<open>wrapper\<close>: view the input buffer as an \<open>n \<times> d\<close> array, call
  the jitted function, and assign its result to the \<open>n\<close> output slots
  (\<open>output_arr[:] = ...\<close> broadcasts a one-element result and raises \<open>ValueError\<close>
  otherwise).  An exception raised by the jitted function or by the assignment is
  written out as unraisable by numba's \<open>cfunc\<close> wrapper, which then returns: the output
  buffer is left as it was.
\<close>

definition cfunc_wrapper :: "batch_fn \<Rightarrow> native_fn" where
  "cfunc_wrapper jitted_func n d in_buf out_buf =
     (let input_arr = unflatten n d in_buf in
      case jitted_func input_arr of
        Inl e \<Rightarrow> out_buf
      | Inr r \<Rightarrow>
          if length r = n then r
          else if length r = 1 then replicate n (hd r)
          else out_buf)"

subsection \<open>The evaluation boundary of the core\<close>

datatype 'f fitness_source = Interpreted 'f | NativeAddr nat

text \<open>
  Spec section 4.2.  The interpreted evaluator calls the Python function on the trial
  matrix; an exception is \<open>EvaluationError\<close> and a result of the wrong length
  \<open>ShapeError\<close>.  The native evaluator passes \<open>(n, d, in, out)\<close> to the function at the
  address, with a caller-owned output buffer of \<open>n\<close> slots, and reads the buffer back
  after the call; an address with no function behind it is \<open>EvaluationError\<close>.  The spec
  does not say what the buffer holds before the call: the model zero-fills it.
\<close>

definition eval_source :: "('f \<Rightarrow> batch_fn) \<Rightarrow> (nat \<rightharpoonup> native_fn) \<Rightarrow> nat \<Rightarrow> 'f fitness_source \<Rightarrow> batch_fn" where
  "eval_source pyfun native_tbl d src M =
     (case src of
        Interpreted f \<Rightarrow>
          (case pyfun f M of
             Inl e \<Rightarrow> Inl EvaluationError
           | Inr v \<Rightarrow> if length v = length M then Inr v else Inl ShapeError)
      | NativeAddr a \<Rightarrow>
          (case native_tbl a of
             None \<Rightarrow> Inl EvaluationError
           | Some fn \<Rightarrow> Inr (fn (length M) d (flatten M) (replicate (length M) 0))))"

text \<open>\<open>_DE.optimize(source, iters)\<close>: the reference loop over the chosen evaluator.\<close>

definition core_optimize ::
  "numpy_de \<Rightarrow> ('f \<Rightarrow> batch_fn) \<Rightarrow> (nat \<rightharpoonup> native_fn) \<Rightarrow> 'f fitness_source \<Rightarrow> de_rng \<Rightarrow> nat \<Rightarrow> py_error + real \<times> vec" where
  "core_optimize c pyfun native_tbl src rng iters =
     NumpyDE_optimize c (eval_source pyfun native_tbl (dim c) src) rng iters"

subsection \<open>The wrapper's state and \<open>optimize\<close>\<close>

text \<open>
  Module state: \<open>HAS_NUMBA\<close> (lines 5-9), \<open>_NUMBA_CACHE\<close> (line 11), and the native
  callbacks numba has created, by address, with the next free address.
\<close>

record 'f wrapper_env =
  has_numba :: bool
  numba_cache :: "'f \<rightharpoonup> nat"
  natives :: "nat \<rightharpoonup> native_fn"
  next_addr :: nat

text \<open>Lines 39-58, \<open>_compile_to_native\<close>.\<close>

definition compile_to_native ::
  "('f \<Rightarrow> py_error + batch_fn) \<Rightarrow> 'f wrapper_env \<Rightarrow> 'f \<Rightarrow> 'f wrapper_env \<times> (py_error + nat)" where
  "compile_to_native njit env py_func =
     (case numba_cache env py_func of
        Some addr \<Rightarrow> (env, Inr addr)
      | None \<Rightarrow>
          (case njit py_func of
             Inl e \<Rightarrow> (env, Inl e)
           | Inr jitted_func \<Rightarrow>
               let addr = next_addr env in
               (env\<lparr>natives := (natives env)(addr \<mapsto> cfunc_wrapper jitted_func),
                    next_addr := Suc addr,
                    numba_cache := (numba_cache env)(py_func \<mapsto> addr)\<rparr>, Inr addr)))"

text \<open>
  Lines 28-37, \<open>DE.optimize\<close>.  \<open>rng\<close> is the random stream at the call; \<open>rng'\<close> is the
  stream after a failed native run, which the retry consumes.
\<close>

definition DE_optimize ::
  "('f \<Rightarrow> batch_fn) \<Rightarrow> ('f \<Rightarrow> py_error + batch_fn) \<Rightarrow> 'f wrapper_env \<Rightarrow> numpy_de \<Rightarrow> 'f \<Rightarrow>
   de_rng \<Rightarrow> de_rng \<Rightarrow> nat \<Rightarrow> 'f wrapper_env \<times> (py_error + real \<times> vec)" where
  "DE_optimize pyfun njit env c fitness_function rng rng' iters =
     (if \<not> has_numba env
      then (env, core_optimize c pyfun (natives env) (Interpreted fitness_function) rng iters)
      else
        (case compile_to_native njit env fitness_function of
           (env', Inl e) \<Rightarrow> (env', core_optimize c pyfun (natives env') (Interpreted fitness_function) rng iters)
         | (env', Inr native_addr) \<Rightarrow>
             (case core_optimize c pyfun (natives env') (NativeAddr native_addr) rng iters of
                Inr res \<Rightarrow> (env', Inr res)
              | Inl e \<Rightarrow> (env', core_optimize c pyfun (natives env') (Interpreted fitness_function) rng' iters))))"

text \<open>
  The cache invariant: every cached function object maps to an address holding the
  \<open>cfunc\<close> wrapper of what numba compiled it to, and every address in use lies below the
  next free one.
\<close>

definition env_inv :: "('f \<Rightarrow> py_error + batch_fn) \<Rightarrow> 'f wrapper_env \<Rightarrow> bool" where
  "env_inv njit env \<longleftrightarrow>
     (\<forall>f a. numba_cache env f = Some a \<longrightarrow> (\<exists>j. njit f = Inr j \<and> natives env a = Some (cfunc_wrapper j))) \<and>
     (\<forall>a \<in> dom (natives env). a < next_addr env)"

subsection \<open>Facts: the buffer layout\<close>

lemma take_drop_concat:
  assumes "\<forall>r \<in> set M. length r = d" and "i < length M"
  shows "take d (drop (i * d) (concat M)) = M ! i"
  using assms
proof (induction M arbitrary: i)
  case (Cons r M)
  then show ?case by (cases i) (simp_all add: add.commute[of d])
qed simp

lemma length_flatten: "\<forall>r \<in> set M. length r = d \<Longrightarrow> length (flatten M) = length M * d"
  by (induction M) (simp_all add: flatten_def)

lemma unflatten_flatten:
  assumes "\<forall>r \<in> set M. length r = d"
  shows "unflatten (length M) d (flatten M) = M"
proof (rule nth_equalityI)
  show "length (unflatten (length M) d (flatten M)) = length M" by (simp add: unflatten_def)
  fix i assume "i < length (unflatten (length M) d (flatten M))"
  then show "unflatten (length M) d (flatten M) ! i = M ! i"
    using take_drop_concat[OF assms] by (simp add: unflatten_def flatten_def)
qed

lemma unflatten_Suc: "unflatten (Suc n) d buf = take d buf # unflatten n d (drop d buf)"
proof -
  have "[0..<Suc n] = 0 # map Suc [0..<n]" by (simp add: map_Suc_upt upt_conv_Cons del: upt_Suc)
  then show ?thesis by (simp add: unflatten_def drop_drop add.commute del: upt_Suc)
qed

lemma flatten_unflatten: "length buf = n * d \<Longrightarrow> flatten (unflatten n d buf) = buf"
proof (induction n arbitrary: buf)
  case 0
  then show ?case by (simp add: unflatten_def flatten_def)
next
  case (Suc n)
  then have "flatten (unflatten n d (drop d buf)) = drop d buf" by simp
  then show ?case by (simp add: unflatten_Suc flatten_def)
qed

subsection \<open>Facts: the two evaluators\<close>

lemma cfunc_wrapper_flatten:
  assumes "\<forall>r \<in> set M. length r = d"
  shows "cfunc_wrapper j (length M) d (flatten M) out =
           (case j M of
              Inl e \<Rightarrow> out
            | Inr r \<Rightarrow> if length r = length M then r
                       else if length r = 1 then replicate (length M) (hd r) else out)"
  using unflatten_flatten[OF assms] by (simp add: cfunc_wrapper_def)

lemma eval_native_box:
  assumes "native_tbl a = Some (cfunc_wrapper j)" and "\<forall>r \<in> set M. length r = d"
    and "j M = vectorised g M"
  shows "eval_source pyfun native_tbl d (NativeAddr a) M = vectorised g M"
  using assms cfunc_wrapper_flatten[OF assms(2)] by (simp add: eval_source_def vectorised_def)

lemma eval_native_raising:
  assumes "native_tbl a = Some (cfunc_wrapper (\<lambda>_. Inl e))"
  shows "eval_source pyfun native_tbl d (NativeAddr a) M = vectorised (\<lambda>_. 0) M"
  using assms by (simp add: eval_source_def cfunc_wrapper_def vectorised_def map_replicate_const)

lemma box_rows_length:
  assumes "wf_cfg c" and "pop_in_box c M"
  shows "\<forall>r \<in> set M. length r = dim c"
  using assms in_box_length by (auto simp: pop_in_box_def wf_cfg_def)

lemma core_optimize_box:
  assumes c: "wf_cfg c" and r: "wf_rng c rng iters"
    and ev: "\<And>M. pop_in_box c M \<Longrightarrow> eval_source pyfun native_tbl (dim c) src M = vectorised g M"
  shows "core_optimize c pyfun native_tbl src rng iters = NumpyDE_optimize c (vectorised g) rng iters"
proof -
  have "numpy_de_run c (eval_source pyfun native_tbl (dim c) src) rng iters =
        numpy_de_run c (vectorised g) rng iters"
    using ev by (rule numpy_de_run_cong[OF c r])
  then show ?thesis unfolding core_optimize_def NumpyDE_optimize_def by simp
qed

lemma core_optimize_native_box:
  assumes c: "wf_cfg c" and r: "wf_rng c rng iters"
    and a: "native_tbl a = Some (cfunc_wrapper j)"
    and j: "\<And>M. pop_in_box c M \<Longrightarrow> j M = vectorised g M"
  shows "core_optimize c pyfun native_tbl (NativeAddr a) rng iters = NumpyDE_optimize c (vectorised g) rng iters"
proof -
  have "eval_source pyfun native_tbl (dim c) (NativeAddr a) M = vectorised g M" if "pop_in_box c M" for M
    using eval_native_box[where native_tbl = native_tbl and a = a and j = j and g = g and pyfun = pyfun,
        OF a box_rows_length[OF c that] j[OF that]] .
  then show ?thesis by (rule core_optimize_box[OF c r])
qed

lemma core_optimize_interpreted_box:
  assumes c: "wf_cfg c" and r: "wf_rng c rng iters"
    and py: "\<And>M. pop_in_box c M \<Longrightarrow> pyfun f M = vectorised g M"
  shows "core_optimize c pyfun native_tbl (Interpreted f) rng iters = NumpyDE_optimize c (vectorised g) rng iters"
  using py by (intro core_optimize_box[OF c r]) (simp add: eval_source_def vectorised_def)

lemma NumpyDE_optimize_init_error:
  assumes "func (init_population (lb c) (ub c) (init_rand rng)) = Inl e"
  shows "NumpyDE_optimize c func rng iters = Inl e"
  using assms by (simp add: NumpyDE_optimize_def numpy_de_run_def de_init_def)

lemma eval_interpreted_raising:
  "pyfun f = (\<lambda>_. Inl e) \<Longrightarrow> eval_source pyfun native_tbl d (Interpreted f) M = Inl EvaluationError"
  by (simp add: eval_source_def)

subsection \<open>Facts: the cache\<close>

lemma compile_to_native_cases:
  assumes "compile_to_native njit env f = (env', r)"
  shows "(numba_cache env f \<noteq> None \<and> env' = env \<and> r = Inr (the (numba_cache env f))) \<or>
         (numba_cache env f = None \<and> (\<exists>e. njit f = Inl e \<and> env' = env \<and> r = Inl e)) \<or>
         (numba_cache env f = None \<and> (\<exists>j. njit f = Inr j \<and> r = Inr (next_addr env) \<and>
            env' = env\<lparr>natives := (natives env)(next_addr env \<mapsto> cfunc_wrapper j),
                       next_addr := Suc (next_addr env),
                       numba_cache := (numba_cache env)(f \<mapsto> next_addr env)\<rparr>))"
  using assms by (auto simp: compile_to_native_def Let_def split: option.splits sum.splits)

lemma compile_to_native_inv:
  assumes "compile_to_native njit env f = (env', r)" and "env_inv njit env"
  shows "env_inv njit env' \<and> has_numba env' = has_numba env \<and>
         (\<forall>a. r = Inr a \<longrightarrow> numba_cache env' f = Some a \<and> (\<exists>j. njit f = Inr j \<and> natives env' a = Some (cfunc_wrapper j)))"
  using compile_to_native_cases[OF assms(1)]
proof (elim disjE conjE exE)
  assume "numba_cache env f \<noteq> None" "env' = env" "r = Inr (the (numba_cache env f))"
  then show ?thesis using assms(2) by (auto simp: env_inv_def)
next
  fix e assume "njit f = Inl e" "env' = env" "r = Inl e"
  then show ?thesis using assms(2) by simp
next
  fix j
  assume n: "numba_cache env f = None" and j: "njit f = Inr j" and r: "r = Inr (next_addr env)"
    and e: "env' = env\<lparr>natives := (natives env)(next_addr env \<mapsto> cfunc_wrapper j),
                       next_addr := Suc (next_addr env),
                       numba_cache := (numba_cache env)(f \<mapsto> next_addr env)\<rparr>"
  have I: "\<forall>g b. numba_cache env g = Some b \<longrightarrow> (\<exists>j. njit g = Inr j \<and> natives env b = Some (cfunc_wrapper j))"
    and D: "\<forall>b \<in> dom (natives env). b < next_addr env" using assms(2) by (simp_all add: env_inv_def)
  have ne: "b \<noteq> next_addr env" if "numba_cache env g = Some b" for g b
  proof
    assume "b = next_addr env"
    then have "next_addr env \<in> dom (natives env)" using I that by blast
    then show False using D by blast
  qed
  have "\<exists>j'. njit g = Inr j' \<and> natives env' b = Some (cfunc_wrapper j')"
    if "numba_cache env' g = Some b" for g b
  proof (cases "g = f")
    case True
    then show ?thesis using that j e by simp
  next
    case False
    then have "numba_cache env g = Some b" using that e by simp
    then show ?thesis using I ne e by fastforce
  qed
  moreover have "b < next_addr env'" if b: "b \<in> dom (natives env')" for b
  proof (cases "b = next_addr env")
    case False
    then have "b \<in> dom (natives env)" using b e by (simp add: domIff)
    then have "b < next_addr env" using D by blast
    then show ?thesis using e by simp
  qed (simp add: e)
  ultimately have "env_inv njit env'" unfolding env_inv_def by blast
  moreover have "numba_cache env' f = Some (next_addr env)" "natives env' (next_addr env) = Some (cfunc_wrapper j)"
    using e by simp_all
  ultimately show ?thesis using j r e by auto
qed

lemma core_optimize_raising:
  assumes "\<And>M. eval_source pyfun native_tbl (dim c) src M = Inl EvaluationError"
  shows "core_optimize c pyfun native_tbl src rng iters = Inl EvaluationError"
  using assms by (simp add: core_optimize_def NumpyDE_optimize_init_error)

lemma DE_optimize_compiled:
  assumes "has_numba env" and "compile_to_native njit env f = (env', Inr a)"
  shows "DE_optimize pyfun njit env c f rng rng' iters =
           (case core_optimize c pyfun (natives env') (NativeAddr a) rng iters of
              Inr res \<Rightarrow> (env', Inr res)
            | Inl e \<Rightarrow> (env', core_optimize c pyfun (natives env') (Interpreted f) rng' iters))"
  using assms by (simp add: DE_optimize_def)

lemma DE_optimize_no_numba:
  "\<not> has_numba env \<Longrightarrow>
   DE_optimize pyfun njit env c f rng rng' iters = (env, core_optimize c pyfun (natives env) (Interpreted f) rng iters)"
  by (simp add: DE_optimize_def)

lemma DE_optimize_compile_failed:
  "has_numba env \<Longrightarrow> compile_to_native njit env f = (env', Inl e) \<Longrightarrow>
   DE_optimize pyfun njit env c f rng rng' iters = (env', core_optimize c pyfun (natives env') (Interpreted f) rng iters)"
  by (simp add: DE_optimize_def)

lemma DE_optimize_box:
  assumes c: "wf_cfg c" and r: "wf_rng c rng iters" and inv: "env_inv njit env"
    and py: "\<And>M. pop_in_box c M \<Longrightarrow> pyfun f M = vectorised g M"
    and jit: "\<And>j M. njit f = Inr j \<Longrightarrow> pop_in_box c M \<Longrightarrow> j M = vectorised g M"
  shows "snd (DE_optimize pyfun njit env c f rng rng' iters) = NumpyDE_optimize c (vectorised g) rng iters"
proof (cases "has_numba env")
  case False
  then show ?thesis
    using DE_optimize_no_numba[OF False, of pyfun njit c f rng rng' iters] core_optimize_interpreted_box[where pyfun = pyfun and f = f and g = g, OF c r py] by simp
next
  case True
  obtain env' r0 where comp: "compile_to_native njit env f = (env', r0)" by fastforce
  show ?thesis
  proof (cases r0)
    case (Inl e)
    then show ?thesis
      using DE_optimize_compile_failed[OF True comp[unfolded Inl]] core_optimize_interpreted_box[where pyfun = pyfun and f = f and g = g, OF c r py] by simp
  next
    case (Inr a)
    then obtain j where nj: "njit f = Inr j" and tbl: "natives env' a = Some (cfunc_wrapper j)"
      using compile_to_native_inv[OF comp inv] by blast
    obtain res where "NumpyDE_optimize c (vectorised g) rng iters = Inr res"
      using vectorised_optimize_total[OF c r] by blast
    then show ?thesis
      using DE_optimize_compiled[OF True comp[unfolded Inr]]
        core_optimize_native_box[where pyfun = pyfun and native_tbl = "natives env'" and a = a and j = j and g = g, OF c r tbl jit[OF nj]] by simp
  qed
qed

lemma DE_optimize_env_inv:
  assumes "env_inv njit env"
  shows "env_inv njit (fst (DE_optimize pyfun njit env c f rng rng' iters))"
proof (cases "has_numba env")
  case True
  obtain env' r0 where comp: "compile_to_native njit env f = (env', r0)" by fastforce
  then have "env_inv njit env'" using compile_to_native_inv[OF comp assms] by blast
  then show ?thesis using True comp
    by (cases r0) (auto simp: DE_optimize_def split: sum.splits)
qed (simp add: DE_optimize_def assms)

subsection \<open>Properties of the wrapper\<close>

text \<open>
  C24 (spec section 4.2, transparent fallback).  For a vectorised fitness function and a
  compiler that either fails or compiles it faithfully, \<open>DE.optimize\<close> returns exactly
  what the reference loop returns on the Python function with the same random stream,
  whether numba is installed or not, whatever the cache holds and whether compilation
  succeeds: the native path, through the row-major buffer, computes the same fitness
  vectors, and the fallback is never needed.
\<close>

theorem DE_optimize_transparent:
  assumes c: "wf_cfg c" and r: "wf_rng c rng iters" and inv: "env_inv njit env"
    and py: "pyfun f = vectorised g" and jit: "\<forall>j. njit f = Inr j \<longrightarrow> j = vectorised g"
  shows "snd (DE_optimize pyfun njit env c f rng rng' iters) = NumpyDE_optimize c (vectorised g) rng iters"
  by (rule DE_optimize_box[OF c r inv]) (use py jit in auto)

text \<open>
  C25 (spec sections 4.2 and 7: "if both variants fail, raise \<open>EvaluationError\<close>").
  Take a fitness function that always raises.  Without numba, or when numba fails to
  compile it, \<open>DE.optimize\<close> runs the interpreted path and raises \<open>EvaluationError\<close>.
  When numba compiles it faithfully, the exception raised inside the \<open>cfunc\<close> callback
  never reaches the core (numba writes it out as unraisable and the callback returns), so
  the native run succeeds on whatever the output buffer held, the fallback is never taken,
  and \<open>DE.optimize\<close> returns a result: the failure is silent.
\<close>

theorem DE_optimize_raising_fitness:
  assumes c: "wf_cfg c" and r: "wf_rng c rng iters" and inv: "env_inv njit env"
    and py: "pyfun f = (\<lambda>_. Inl e)" and jit: "\<forall>j. njit f = Inr j \<longrightarrow> j = pyfun f"
  shows "(\<not> has_numba env \<or> (\<exists>e'. njit f = Inl e') \<longrightarrow>
            snd (DE_optimize pyfun njit env c f rng rng' iters) = Inl EvaluationError) \<and>
         (has_numba env \<and> (\<exists>j. njit f = Inr j) \<longrightarrow>
            (\<exists>res. snd (DE_optimize pyfun njit env c f rng rng' iters) = Inr res))"
proof -
  have I: "core_optimize c pyfun tbl (Interpreted f) r iters = Inl EvaluationError" for tbl r
    using eval_interpreted_raising[where pyfun = pyfun and f = f, OF py] by (rule core_optimize_raising)
  obtain env' r0 where comp: "compile_to_native njit env f = (env', r0)" by fastforce
  note ci = compile_to_native_inv[OF comp inv]
  have fail: "snd (DE_optimize pyfun njit env c f rng rng' iters) = Inl EvaluationError"
    if H: "\<not> has_numba env \<or> (\<exists>e'. njit f = Inl e')"
  proof (cases "has_numba env")
    case False
    then show ?thesis using DE_optimize_no_numba[OF False, of pyfun njit c f rng rng' iters] I by simp
  next
    case True
    obtain e' where e': "njit f = Inl e'" using H True by blast
    then obtain e'' where "r0 = Inl e''" using ci by (cases r0) auto
    then show ?thesis using DE_optimize_compile_failed[OF True, of njit f env' e''] comp I by simp
  qed
  have silent: "\<exists>res. snd (DE_optimize pyfun njit env c f rng rng' iters) = Inr res"
    if T: "has_numba env" and J: "\<exists>j. njit f = Inr j"
  proof -
    obtain a where a: "r0 = Inr a"
      using compile_to_native_cases[OF comp] J by (cases r0) auto
    then obtain j where "njit f = Inr j" "natives env' a = Some (cfunc_wrapper j)" using ci by blast
    then have tbl: "natives env' a = Some (cfunc_wrapper (\<lambda>_. Inl e))" using jit py by simp
    obtain res where res: "NumpyDE_optimize c (vectorised (\<lambda>_. 0)) rng iters = Inr res"
      using vectorised_optimize_total[OF c r] by blast
    have "core_optimize c pyfun (natives env') (NativeAddr a) rng iters = Inr res"
      using core_optimize_box[OF c r, of pyfun "natives env'" "NativeAddr a" "\<lambda>_. 0"]
        eval_native_raising[where native_tbl = "natives env'" and a = a and e = e and pyfun = pyfun, OF tbl] res
      by simp
    then show ?thesis using DE_optimize_compiled[OF T, of njit f env' a] comp a by simp
  qed
  show ?thesis using fail silent by blast
qed

text \<open>
  C26 (the \<open>cfunc\<close> callback of \<open>_compile_to_native\<close>, lines 49-54, under the
  row-major calling convention).  Called on the buffer of a matrix of \<open>d\<close>-entry rows, the
  callback applies the jitted function to exactly that matrix: a result with one entry
  per row is written out as is, a one-element result is broadcast to every row (where the
  interpreted evaluator reports \<open>ShapeError\<close>), and after an exception, or a result of
  any other length, the output buffer is left as it was.
\<close>

theorem cfunc_wrapper_behaviour:
  assumes rect: "\<forall>r \<in> set M. length r = d"
  shows "(j M = Inr v \<and> length v = length M \<longrightarrow> cfunc_wrapper j (length M) d (flatten M) out = v) \<and>
         (j M = Inr [x] \<longrightarrow> cfunc_wrapper j (length M) d (flatten M) out = replicate (length M) x) \<and>
         (j M = Inr v \<and> length v \<noteq> 1 \<and> length v \<noteq> length M \<longrightarrow> cfunc_wrapper j (length M) d (flatten M) out = out) \<and>
         (j M = Inl e \<longrightarrow> cfunc_wrapper j (length M) d (flatten M) out = out)"
  using cfunc_wrapper_flatten[OF rect, of j out] by (auto simp: numeral_eq_Suc) (metis replicate_Suc replicate_0)

text \<open>
  C27 (the compile-once cache).  Compiling a function keeps the cache invariant, records
  the address under the function object, and a second compilation of the same function
  is a cache hit: same address, no new native function, no call to numba.
\<close>

theorem compile_to_native_cached:
  assumes "compile_to_native njit env f = (env', Inr a)" and "env_inv njit env"
  shows "env_inv njit env' \<and> compile_to_native njit env' f = (env', Inr a) \<and>
         (\<exists>j. njit f = Inr j \<and> natives env' a = Some (cfunc_wrapper j))"
proof -
  note i = compile_to_native_inv[OF assms]
  then have "numba_cache env' f = Some a" by blast
  then show ?thesis using i by (simp add: compile_to_native_def)
qed

text \<open>
  \<open>DE(bounds=(lb, ub))\<close> with the other arguments at their defaults builds a
  population of 20 in 2 dimensions with \<open>F = 0.5\<close>, \<open>CR = 0.7\<close>; without bounds it raises.
\<close>

lemma DE_default_config:
  assumes "wf_bounds lo hi 2"
  shows "DE_default (Some (lo, hi)) = Inr \<lparr>pop_size = 20, dim = 2, lb = lo, ub = hi, F = 1/2, CR = 7/10\<rparr> \<and>
         DE_default None = Inl ConfigError"
  using assms by (simp add: DE_default_def DE_new_def native_DE_new_def wf_bounds_def list_all_iff)

theorem DE_optimize_transparent_witness:
  "env_inv (\<lambda>_::nat. Inr (vectorised (\<lambda>x. sum_list (map (\<lambda>y. y * y) x)))) \<lparr>has_numba = True, numba_cache = Map.empty, natives = Map.empty, next_addr = 0\<rparr> \<and>
   snd (DE_optimize (\<lambda>_. vectorised (\<lambda>x. sum_list (map (\<lambda>y. y * y) x))) (\<lambda>_. Inr (vectorised (\<lambda>x. sum_list (map (\<lambda>y. y * y) x)))) \<lparr>has_numba = True, numba_cache = Map.empty, natives = Map.empty, next_addr = 0\<rparr> \<lparr>pop_size = 2, dim = 1, lb = [-1], ub = [1], F = 1/2, CR = 7/10\<rparr> (0::nat) \<lparr>init_rand = [[1/4], [3/4]], gen_rand = (\<lambda>_. \<lparr>idxs = [(0, 0, 1), (1, 0, 1)], cross_rand = [[1/2], [1/2]]\<rparr>)\<rparr> \<lparr>init_rand = [[1/4], [3/4]], gen_rand = (\<lambda>_. \<lparr>idxs = [(0, 0, 1), (1, 0, 1)], cross_rand = [[1/2], [1/2]]\<rparr>)\<rparr> 1) = Inr (0, [0])"
proof -
  have inv: "env_inv (\<lambda>_::nat. Inr (vectorised (\<lambda>x. sum_list (map (\<lambda>y. y * y) x)))) \<lparr>has_numba = True, numba_cache = Map.empty, natives = Map.empty, next_addr = 0\<rparr>" by (simp add: env_inv_def)
  have opt: "NumpyDE_optimize \<lparr>pop_size = 2, dim = 1, lb = [-1], ub = [1], F = 1/2, CR = 7/10\<rparr> (vectorised (\<lambda>x. sum_list (map (\<lambda>y. y * y) x))) \<lparr>init_rand = [[1/4], [3/4]], gen_rand = (\<lambda>_. \<lparr>idxs = [(0, 0, 1), (1, 0, 1)], cross_rand = [[1/2], [1/2]]\<rparr>)\<rparr> 1 = Inr (0, [0])"
    unfolding NumpyDE_optimize_def de_example_run(2) by simp
  show ?thesis
    using DE_optimize_transparent[OF conjunct1[OF de_example_wf] conjunct2[OF de_example_wf] inv,
        of "\<lambda>_. vectorised (\<lambda>x. sum_list (map (\<lambda>y. y * y) x))" 0 "(\<lambda>x. sum_list (map (\<lambda>y. y * y) x))" "\<lparr>init_rand = [[1/4], [3/4]], gen_rand = (\<lambda>_. \<lparr>idxs = [(0, 0, 1), (1, 0, 1)], cross_rand = [[1/2], [1/2]]\<rparr>)\<rparr>"] inv opt by simp
qed

theorem DE_optimize_raising_fitness_witness:
  "snd (DE_optimize (\<lambda>_. \<lambda>M. Inl ValueError) (\<lambda>_. Inr (\<lambda>M. Inl ValueError)) (\<lparr>has_numba = False, numba_cache = Map.empty, natives = Map.empty, next_addr = 0\<rparr>) \<lparr>pop_size = 2, dim = 1, lb = [-1], ub = [1], F = 1/2, CR = 7/10\<rparr> (0::nat) \<lparr>init_rand = [[1/4], [3/4]], gen_rand = (\<lambda>_. \<lparr>idxs = [(0, 0, 1), (1, 0, 1)], cross_rand = [[1/2], [1/2]]\<rparr>)\<rparr> \<lparr>init_rand = [[1/4], [3/4]], gen_rand = (\<lambda>_. \<lparr>idxs = [(0, 0, 1), (1, 0, 1)], cross_rand = [[1/2], [1/2]]\<rparr>)\<rparr> 1) = Inl EvaluationError \<and>
   (\<exists>res. snd (DE_optimize (\<lambda>_. \<lambda>M. Inl ValueError) (\<lambda>_. Inr (\<lambda>M. Inl ValueError)) \<lparr>has_numba = True, numba_cache = Map.empty, natives = Map.empty, next_addr = 0\<rparr> \<lparr>pop_size = 2, dim = 1, lb = [-1], ub = [1], F = 1/2, CR = 7/10\<rparr> (0::nat) \<lparr>init_rand = [[1/4], [3/4]], gen_rand = (\<lambda>_. \<lparr>idxs = [(0, 0, 1), (1, 0, 1)], cross_rand = [[1/2], [1/2]]\<rparr>)\<rparr> \<lparr>init_rand = [[1/4], [3/4]], gen_rand = (\<lambda>_. \<lparr>idxs = [(0, 0, 1), (1, 0, 1)], cross_rand = [[1/2], [1/2]]\<rparr>)\<rparr> 1) = Inr res)"
proof -
  have inv1: "env_inv (\<lambda>_::nat. Inr (\<lambda>M. Inl ValueError)) \<lparr>has_numba = False, numba_cache = Map.empty, natives = Map.empty, next_addr = 0\<rparr>"
    and inv2: "env_inv (\<lambda>_::nat. Inr (\<lambda>M. Inl ValueError)) \<lparr>has_numba = True, numba_cache = Map.empty, natives = Map.empty, next_addr = 0\<rparr>" by (simp_all add: env_inv_def)
  note w = conjunct1[OF de_example_wf] conjunct2[OF de_example_wf]
  have "snd (DE_optimize (\<lambda>_. \<lambda>M. Inl ValueError) (\<lambda>_. Inr (\<lambda>M. Inl ValueError)) (\<lparr>has_numba = False, numba_cache = Map.empty, natives = Map.empty, next_addr = 0\<rparr>) \<lparr>pop_size = 2, dim = 1, lb = [-1], ub = [1], F = 1/2, CR = 7/10\<rparr> (0::nat) \<lparr>init_rand = [[1/4], [3/4]], gen_rand = (\<lambda>_. \<lparr>idxs = [(0, 0, 1), (1, 0, 1)], cross_rand = [[1/2], [1/2]]\<rparr>)\<rparr> \<lparr>init_rand = [[1/4], [3/4]], gen_rand = (\<lambda>_. \<lparr>idxs = [(0, 0, 1), (1, 0, 1)], cross_rand = [[1/2], [1/2]]\<rparr>)\<rparr> 1) = Inl EvaluationError"
    using DE_optimize_raising_fitness[OF w inv1, of "\<lambda>_. \<lambda>M. Inl ValueError" 0 ValueError "\<lparr>init_rand = [[1/4], [3/4]], gen_rand = (\<lambda>_. \<lparr>idxs = [(0, 0, 1), (1, 0, 1)], cross_rand = [[1/2], [1/2]]\<rparr>)\<rparr>"] by simp
  moreover have "\<exists>res. snd (DE_optimize (\<lambda>_. \<lambda>M. Inl ValueError) (\<lambda>_. Inr (\<lambda>M. Inl ValueError)) \<lparr>has_numba = True, numba_cache = Map.empty, natives = Map.empty, next_addr = 0\<rparr> \<lparr>pop_size = 2, dim = 1, lb = [-1], ub = [1], F = 1/2, CR = 7/10\<rparr> (0::nat) \<lparr>init_rand = [[1/4], [3/4]], gen_rand = (\<lambda>_. \<lparr>idxs = [(0, 0, 1), (1, 0, 1)], cross_rand = [[1/2], [1/2]]\<rparr>)\<rparr> \<lparr>init_rand = [[1/4], [3/4]], gen_rand = (\<lambda>_. \<lparr>idxs = [(0, 0, 1), (1, 0, 1)], cross_rand = [[1/2], [1/2]]\<rparr>)\<rparr> 1) = Inr res"
    using DE_optimize_raising_fitness[OF w inv2, of "\<lambda>_. \<lambda>M. Inl ValueError" 0 ValueError "\<lparr>init_rand = [[1/4], [3/4]], gen_rand = (\<lambda>_. \<lparr>idxs = [(0, 0, 1), (1, 0, 1)], cross_rand = [[1/2], [1/2]]\<rparr>)\<rparr>"] by simp
  ultimately show ?thesis by blast
qed

theorem cfunc_wrapper_behaviour_witness:
  "cfunc_wrapper (\<lambda>M. Inr [7]) 2 1 (flatten [[1], [2]]) [0, 0] = [7, 7] \<and>
   cfunc_wrapper (\<lambda>M. Inl ValueError) 2 1 (flatten [[1], [2]]) [3, 4] = [3, 4]"
proof -
  have r: "\<forall>r \<in> set [[1], [2::real]]. length r = 1" by simp
  show ?thesis
    using cfunc_wrapper_behaviour[OF r, where j = "\<lambda>M. Inr [7]" and x = 7 and out = "[0, 0]"]
          cfunc_wrapper_behaviour[OF r, where j = "\<lambda>M. Inl ValueError" and e = ValueError and out = "[3, 4]"]
    by (simp add: numeral_2_eq_2)
qed

theorem compile_to_native_cached_witness:
  "compile_to_native (\<lambda>_::nat. Inr (vectorised (\<lambda>x. sum_list (map (\<lambda>y. y * y) x)))) \<lparr>has_numba = True, numba_cache = Map.empty, natives = Map.empty, next_addr = 0\<rparr> 0 = (\<lparr>has_numba = True, numba_cache = [0 \<mapsto> 0], natives = [0 \<mapsto> cfunc_wrapper (vectorised (\<lambda>x. sum_list (map (\<lambda>y. y * y) x)))], next_addr = 1\<rparr>, Inr 0) \<and>
   compile_to_native (\<lambda>_::nat. Inr (vectorised (\<lambda>x. sum_list (map (\<lambda>y. y * y) x)))) \<lparr>has_numba = True, numba_cache = [0 \<mapsto> 0], natives = [0 \<mapsto> cfunc_wrapper (vectorised (\<lambda>x. sum_list (map (\<lambda>y. y * y) x)))], next_addr = 1\<rparr> 0 = (\<lparr>has_numba = True, numba_cache = [0 \<mapsto> 0], natives = [0 \<mapsto> cfunc_wrapper (vectorised (\<lambda>x. sum_list (map (\<lambda>y. y * y) x)))], next_addr = 1\<rparr>, Inr 0)"
proof -
  have c: "compile_to_native (\<lambda>_::nat. Inr (vectorised (\<lambda>x. sum_list (map (\<lambda>y. y * y) x)))) \<lparr>has_numba = True, numba_cache = Map.empty, natives = Map.empty, next_addr = 0\<rparr> 0 = (\<lparr>has_numba = True, numba_cache = [0 \<mapsto> 0], natives = [0 \<mapsto> cfunc_wrapper (vectorised (\<lambda>x. sum_list (map (\<lambda>y. y * y) x)))], next_addr = 1\<rparr>, Inr 0)"
    by (simp add: compile_to_native_def)
  have inv: "env_inv (\<lambda>_::nat. Inr (vectorised (\<lambda>x. sum_list (map (\<lambda>y. y * y) x)))) \<lparr>has_numba = True, numba_cache = Map.empty, natives = Map.empty, next_addr = 0\<rparr>" by (simp add: env_inv_def)
  show ?thesis using compile_to_native_cached[OF c inv] c by simp
qed


end
