(* ===== verification/Entropy_Loops.thy ===== *)
theory Entropy_Loops
  imports Entropy "HOL-Library.While_Combinator"
begin

text \<open>
  \<open>numpy_ewm\<close> of src/performance/benchmark.py (Mode A) as the code writes it: two
  \<open>for j in range(cols)\<close> loops that write into preallocated arrays.  The first (lines
  8-22) fills \<open>normalized_data = np.zeros_like(data)\<close> column by column; the second
  (lines 24-35) fills \<open>entropies = np.zeros(cols)\<close>.  Both loops are kept as loops
  (\<open>while_option\<close> over the loop variable and the array), so their termination is a
  theorem; the column-wise definition \<open>numpy_ewm_A\<close> of theory \<open>Entropy\<close> is the
  reference they are proved equal to.
\<close>

text \<open>\<open>normalized_data[:, j] = c\<close>: write a column into a row-major matrix.\<close>

definition set_col :: "matrix \<Rightarrow> nat \<Rightarrow> vec \<Rightarrow> matrix" where
  "set_col M j c = map2 (\<lambda>r x. r[j := x]) M c"

text \<open>Lines 8-22.  The loop state is the loop variable and the array, or the exception raised.\<close>

definition ewm_normalize_loop :: "mat \<Rightarrow> int list \<Rightarrow> (py_error + nat \<times> matrix) option" where
  "ewm_normalize_loop data indicator_types =
     while_option (\<lambda>s. case s of Inl e \<Rightarrow> False | Inr (j, M) \<Rightarrow> j < ncols data)
       (\<lambda>s. case s of
              Inl e \<Rightarrow> Inl e
            | Inr (j, M) \<Rightarrow>
                (case ewm_normalize_col indicator_types j (column data j) of
                   Inl e \<Rightarrow> Inl e
                 | Inr c \<Rightarrow> Inr (Suc j, set_col M j c)))
       (Inr (0, map (\<lambda>r. replicate (length r) 0) (rows data)))"

text \<open>Lines 24-35: \<open>s = col_sums[j]\<close> and the entropy of column \<open>j\<close>, which \<open>col_entropy\<close> computes.\<close>

definition ewm_entropy_loop :: "real \<Rightarrow> matrix \<Rightarrow> nat \<Rightarrow> (nat \<times> vec) option" where
  "ewm_entropy_loop k normalized_data cols =
     while_option (\<lambda>(j, E). j < cols)
       (\<lambda>(j, E). (Suc j, E[j := col_entropy k (map (\<lambda>r. r ! j) normalized_data)]))
       (0, replicate cols 0)"

text \<open>Lines 6-42: the two loops, then the divergence and its normalisation (lines 37-42).\<close>

definition numpy_ewm_A_loop :: "mat \<Rightarrow> int list \<Rightarrow> (py_error + vec) option" where
  "numpy_ewm_A_loop data indicator_types =
     Option.bind (ewm_normalize_loop data indicator_types) (\<lambda>s.
       case s of
         Inl e \<Rightarrow> Some (Inl e)
       | Inr (_, normalized_data) \<Rightarrow>
           let k = 1 / ln (real (length (rows data))) in
           map_option (\<lambda>(_, entropies).
               let divergence = map (\<lambda>e. 1 - e) entropies;
                   div_sum = sum_list divergence
               in if div_sum = 0 then Inr (replicate (ncols data) (1 / real (ncols data)))
                  else Inr (map (\<lambda>d. d / div_sum) divergence))
             (ewm_entropy_loop k normalized_data (ncols data)))"

subsection \<open>Facts\<close>

lemma ewm_normalize_loop_Some: "\<exists>s. ewm_normalize_loop data t = Some s"
  unfolding ewm_normalize_loop_def
  by (rule measure_while_option_Some[where P = "\<lambda>_. True"
        and f = "\<lambda>s. case s of Inl e \<Rightarrow> 0 | Inr (j, M) \<Rightarrow> ncols data - j"])
     (auto split: sum.splits)

lemma ewm_entropy_loop_Some: "\<exists>s. ewm_entropy_loop k N cols = Some s"
  unfolding ewm_entropy_loop_def
  by (rule measure_while_option_Some[where P = "\<lambda>_. True" and f = "\<lambda>(j, E). cols - j"]) auto

lemma column_set_col:
  assumes "length c = length M" and "\<forall>r \<in> set M. j < length r"
  shows "map (\<lambda>r. r ! k) (set_col M j c) = (if k = j then c else map (\<lambda>r. r ! k) M)"
  using assms
proof (induction M arbitrary: c)
  case (Cons r M)
  then obtain x c' where "c = x # c'" by (cases c) auto
  with Cons show ?case by (simp add: set_col_def)
qed (simp add: set_col_def)

lemma ewm_normalize_loop_from:
  assumes "j \<le> ncols data" and "length M = length (rows data)" and "\<forall>r \<in> set M. length r = ncols data"
  shows "\<exists>s. while_option (\<lambda>s. case s of Inl e \<Rightarrow> False | Inr (j, M) \<Rightarrow> j < ncols data)
                (\<lambda>s. case s of Inl e \<Rightarrow> Inl e
                     | Inr (j, M) \<Rightarrow> (case ewm_normalize_col t j (column data j) of
                                        Inl e \<Rightarrow> Inl e | Inr c \<Rightarrow> Inr (Suc j, set_col M j c)))
                (Inr (j, M)) = Some s \<and>
             (case mapM (\<lambda>k. ewm_normalize_col t k (column data k)) [j..<ncols data] of
                Inl e \<Rightarrow> s = Inl e
              | Inr cs \<Rightarrow> (\<exists>M'. s = Inr (ncols data, M') \<and>
                   (\<forall>k < j. map (\<lambda>r. r ! k) M' = map (\<lambda>r. r ! k) M) \<and>
                   (\<forall>i < length cs. map (\<lambda>r. r ! (j + i)) M' = cs ! i)))"
  using assms
proof (induction "ncols data - j" arbitrary: j M)
  case 0
  then have "j = ncols data" by simp
  then show ?case by (subst while_option_unfold) simp
next
  case (Suc d)
  then have j: "j < ncols data" by simp
  have up: "[j..<ncols data] = j # [Suc j..<ncols data]" using j by (simp add: upt_conv_Cons)
  show ?case
  proof (cases "ewm_normalize_col t j (column data j)")
    case (Inl e)
    then show ?thesis using j by (subst while_option_unfold) (simp add: up while_option_unfold[of _ _ "Inl e"])
  next
    case (Inr c)
    note ec = this
    have lc: "length c = length M" using ewm_normalize_col_Inr[OF Inr] Suc.prems(2) by simp
    let ?M2 = "set_col M j c"
    have l2: "length ?M2 = length (rows data)" using lc Suc.prems by (simp add: set_col_def)
    have r2: "\<forall>r \<in> set ?M2. length r = ncols data"
      using Suc.prems(3) lc by (auto simp: set_col_def set_zip)
    obtain s where W: "while_option (\<lambda>s. case s of Inl e \<Rightarrow> False | Inr (j, M) \<Rightarrow> j < ncols data)
                (\<lambda>s. case s of Inl e \<Rightarrow> Inl e
                     | Inr (j, M) \<Rightarrow> (case ewm_normalize_col t j (column data j) of
                                        Inl e \<Rightarrow> Inl e | Inr c \<Rightarrow> Inr (Suc j, set_col M j c)))
                (Inr (Suc j, ?M2)) = Some s"
      and P: "case mapM (\<lambda>k. ewm_normalize_col t k (column data k)) [Suc j..<ncols data] of
                Inl e \<Rightarrow> s = Inl e
              | Inr cs \<Rightarrow> (\<exists>M'. s = Inr (ncols data, M') \<and>
                   (\<forall>k < Suc j. map (\<lambda>r. r ! k) M' = map (\<lambda>r. r ! k) ?M2) \<and>
                   (\<forall>i < length cs. map (\<lambda>r. r ! (Suc j + i)) M' = cs ! i))"
    proof -
      have d: "d = ncols data - Suc j" using Suc.hyps(2) by arith
      have "Suc j \<le> ncols data" using j by simp
      from Suc.hyps(1)[OF d this l2 r2] show ?thesis using that by blast
    qed
    have col_j: "map (\<lambda>r. r ! j) ?M2 = c"
      using column_set_col[OF lc] Suc.prems(3) j by simp
    show ?thesis
    proof (cases "mapM (\<lambda>k. ewm_normalize_col t k (column data k)) [Suc j..<ncols data]")
      case (Inl e)
      then show ?thesis using W P j ec by (subst while_option_unfold) (simp add: up)
    next
      case (Inr cs)
      then obtain M' where s: "s = Inr (ncols data, M')"
        and pre: "\<forall>k < Suc j. map (\<lambda>r. r ! k) M' = map (\<lambda>r. r ! k) ?M2"
        and cols: "\<forall>i < length cs. map (\<lambda>r. r ! (Suc j + i)) M' = cs ! i" using P by auto
      have "\<forall>k < j. map (\<lambda>r. r ! k) M' = map (\<lambda>r. r ! k) M"
        using pre column_set_col[OF lc] Suc.prems(3) j by auto
      moreover have "\<forall>i < length (c # cs). map (\<lambda>r. r ! (j + i)) M' = (c # cs) ! i"
      proof (intro allI impI)
        fix i assume "i < length (c # cs)"
        then show "map (\<lambda>r. r ! (j + i)) M' = (c # cs) ! i"
          using pre col_j cols by (cases i) auto
      qed
      moreover have "mapM (\<lambda>k. ewm_normalize_col t k (column data k)) [j..<ncols data] = Inr (c # cs)"
        using ec Inr by (simp add: up)
      ultimately show ?thesis using W s j ec by (subst while_option_unfold) simp
    qed
  qed
qed

lemma ewm_entropy_loop_from:
  assumes "j \<le> cols" and "length E = cols"
  shows "while_option (\<lambda>(j, E). j < cols) (\<lambda>(j, E). (Suc j, E[j := col_entropy k (map (\<lambda>r. r ! j) N)])) (j, E) =
           Some (cols, take j E @ map (\<lambda>i. col_entropy k (map (\<lambda>r. r ! i) N)) [j..<cols])"
  using assms
proof (induction "cols - j" arbitrary: j E)
  case 0
  then show ?case by (subst while_option_unfold) simp
next
  case (Suc d)
  then have j: "j < cols" by simp
  have "take (Suc j) (E[j := col_entropy k (map (\<lambda>r. r ! j) N)]) = take j E @ [col_entropy k (map (\<lambda>r. r ! j) N)]"
    using j Suc.prems(2) by (simp add: take_Suc_conv_app_nth)
  moreover have "[j..<cols] = j # [Suc j..<cols]" using j by (simp add: upt_conv_Cons)
  moreover have "d = cols - Suc j" using Suc.hyps(2) by arith
  ultimately show ?case using Suc.hyps(1)[of "Suc j"] Suc.prems(2) j by (subst while_option_unfold) simp
qed

lemma ewm_normalize_loop_result:
  assumes wf: "wf_mat data"
  shows "\<exists>s. ewm_normalize_loop data t = Some s \<and>
           (case mapM (\<lambda>k. ewm_normalize_col t k (column data k)) [0..<ncols data] of
              Inl e \<Rightarrow> s = Inl e
            | Inr cs \<Rightarrow> (\<exists>M'. s = Inr (ncols data, M') \<and> (\<forall>i < length cs. map (\<lambda>r. r ! i) M' = cs ! i)))"
proof -
  have "\<forall>r \<in> set (map (\<lambda>r. replicate (length r) 0) (rows data)). length r = ncols data"
    using wf by (auto simp: wf_mat_def)
  then show ?thesis
    using ewm_normalize_loop_from[of 0 data "map (\<lambda>r. replicate (length r) 0) (rows data)" t]
    unfolding ewm_normalize_loop_def by (auto split: sum.splits)
qed

lemma entropies_of_columns:
  assumes "length cs = n" and "\<forall>i < length cs. map (\<lambda>r. r ! i) M = cs ! i"
  shows "map (\<lambda>i. col_entropy k (map (\<lambda>r. r ! i) M)) [0..<n] = map (col_entropy k) cs"
proof -
  have "map (\<lambda>i. col_entropy k (map (\<lambda>r. r ! i) M)) [0..<n] = map (\<lambda>i. col_entropy k (cs ! i)) [0..<length cs]"
    using assms by simp
  also have "\<dots> = map (col_entropy k) (map (\<lambda>i. cs ! i) [0..<length cs])" by (simp only: map_map comp_def)
  also have "\<dots> = map (col_entropy k) cs" by (simp only: map_nth)
  finally show ?thesis .
qed

text \<open>
  C30.  The loops of \<open>numpy_ewm\<close> (Mode A) compute the column-wise reference
  \<open>numpy_ewm_A\<close>: on a rectangular matrix they return, and return the same weights or
  raise the same exception.
\<close>

theorem numpy_ewm_A_loop_eq:
  assumes wf: "wf_mat data"
  shows "numpy_ewm_A_loop data t = Some (numpy_ewm_A data t)"
proof -
  obtain s where L: "ewm_normalize_loop data t = Some s"
    and P: "case mapM (\<lambda>k. ewm_normalize_col t k (column data k)) [0..<ncols data] of
              Inl e \<Rightarrow> s = Inl e
            | Inr cs \<Rightarrow> (\<exists>M'. s = Inr (ncols data, M') \<and> (\<forall>i < length cs. map (\<lambda>r. r ! i) M' = cs ! i))"
    using ewm_normalize_loop_result[OF wf] by blast
  show ?thesis
  proof (cases "mapM (\<lambda>k. ewm_normalize_col t k (column data k)) [0..<ncols data]")
    case (Inl e)
    then show ?thesis using L P by (simp add: numpy_ewm_A_loop_def numpy_ewm_A_def)
  next
    case (Inr cs)
    then obtain M' where s: "s = Inr (ncols data, M')" and c: "\<forall>i < length cs. map (\<lambda>r. r ! i) M' = cs ! i"
      using P by auto
    have lc: "length cs = ncols data" using mapM_Inr_nth[OF Inr] by simp
    let ?k = "1 / ln (real (length (rows data)))"
    have "ewm_entropy_loop ?k M' (ncols data) = Some (ncols data, map (col_entropy ?k) cs)"
      using ewm_entropy_loop_from[of 0 "ncols data" "replicate (ncols data) 0" ?k M'] entropies_of_columns[OF lc c]
      by (simp add: ewm_entropy_loop_def)
    then show ?thesis using L s numpy_ewm_A_Inr[OF Inr] by (simp add: numpy_ewm_A_loop_def Let_def)
  qed
qed

text \<open>Both loops of \<open>numpy_ewm\<close> (Mode A) end, on every input: the call returns a value or raises.\<close>

lemma numpy_ewm_A_loop_terminates: "\<exists>r. numpy_ewm_A_loop data t = Some r"
proof -
  obtain s where L: "ewm_normalize_loop data t = Some s" using ewm_normalize_loop_Some by blast
  show ?thesis
  proof (cases s)
    case (Inr p)
    obtain j M where p: "p = (j, M)" by fastforce
    obtain q where "ewm_entropy_loop (1 / ln (real (length (rows data)))) M (ncols data) = Some q"
      using ewm_entropy_loop_Some by blast
    then show ?thesis using L Inr p by (simp add: numpy_ewm_A_loop_def Let_def)
  qed (simp add: numpy_ewm_A_loop_def L)
qed

theorem numpy_ewm_A_loop_eq_witness:
  "wf_mat \<lparr>ncols = 3, rows = [[10, 20, 30], [15, 25, 35], [12, 18, 28], [9, 21, 31]]\<rparr> \<and> numpy_ewm_A_loop \<lparr>ncols = 3, rows = [[10, 20, 30], [15, 25, 35], [12, 18, 28], [9, 21, 31]]\<rparr> [1, 0, 1] = Some (numpy_ewm_A \<lparr>ncols = 3, rows = [[10, 20, 30], [15, 25, 35], [12, 18, 28], [9, 21, 31]]\<rparr> [1, 0, 1])"
proof -
  have wf: "wf_mat \<lparr>ncols = 3, rows = [[10, 20, 30], [15, 25, 35], [12, 18, 28], [9, 21, 31]]\<rparr>" by (simp add: wf_mat_def)
  show ?thesis using numpy_ewm_A_loop_eq[OF wf, of "[1, 0, 1]"] wf by simp
qed

end
