(* ===== verification/Benchmarks.thy ===== *)
theory Benchmarks
  imports Wrapper Rastrigin
begin

text \<open>
  The cost side of \<open>run_benchmark\<close> of src/performance/de_benchmark.py (lines 42-63),
  which the script runs once with \<open>NumpyDE\<close> and once with \<open>walitool.DE\<close>: an optional
  warm-up call (Rust only), then \<open>runs\<close> optimizations, each with a fresh optimizer, and
  the mean of their final costs (\<open>statistics.mean\<close>).  The timing and the printing are not
  modelled.  The engine is given by the \<open>name\<close> argument; the script always passes the
  class that goes with the name, so one datatype stands for both.  The random streams of
  the runs are parameters (\<open>rngs k\<close> for run \<open>k\<close>: the stream at the call and the one a
  native failure would fall back on).
\<close>

datatype engine = PythonNumPy | RustWalitool

text \<open>\<open>**kwargs\<close>: \<open>pop\<close>, \<open>dimensions\<close>, \<open>bounds\<close>, \<open>options\<close>.\<close>

record bench_args =
  b_pop :: nat
  b_dims :: nat
  b_bounds :: "vec \<times> vec"
  b_options :: "string \<rightharpoonup> real"

text \<open>Line 46: the warm-up optimizer, 10 \<times> 2 on \<open>[-5, 5]\<^sup>2\<close>, with the caller's options.\<close>

definition warmup_args :: "bench_args \<Rightarrow> bench_args" where
  "warmup_args kw = kw\<lparr>b_pop := 10, b_dims := 2, b_bounds := ([-5, -5], [5, 5])\<rparr>"

text \<open>\<open>statistics.mean\<close>; its \<open>StatisticsError\<close> on an empty list is a \<open>ValueError\<close>.\<close>

definition py_mean :: "real list \<Rightarrow> py_error + real" where
  "py_mean xs = (if xs = [] then Inl ValueError else Inr (sum_list xs / real (length xs)))"

text \<open>Lines 53-56 for \<open>NumpyDE\<close>: construct, optimize, keep the cost.\<close>

definition numpy_run :: "('f \<Rightarrow> batch_fn) \<Rightarrow> bench_args \<Rightarrow> 'f \<Rightarrow> nat \<Rightarrow> de_rng \<Rightarrow> py_error + real" where
  "numpy_run pyfun kw func iters rng =
     sbind (NumpyDE_optimize (NumpyDE_init (b_pop kw) (b_dims kw) (b_bounds kw) (b_options kw)) (pyfun func) rng iters)
       (\<lambda>(cost, _). Inr cost)"

text \<open>Lines 51-56 for \<open>walitool.DE\<close>: construct (which may raise), optimize, keep the cost.\<close>

definition rust_run ::
  "('f \<Rightarrow> batch_fn) \<Rightarrow> ('f \<Rightarrow> py_error + batch_fn) \<Rightarrow> 'f wrapper_env \<Rightarrow> bench_args \<Rightarrow> 'f \<Rightarrow> nat \<Rightarrow>
   de_rng \<times> de_rng \<Rightarrow> 'f wrapper_env \<times> (py_error + real)" where
  "rust_run pyfun njit env kw func iters rr =
     (case DE_new (b_pop kw) (b_dims kw) (Some (b_options kw)) (Some (b_bounds kw)) of
        Inl e \<Rightarrow> (env, Inl e)
      | Inr opt \<Rightarrow>
          (case DE_optimize pyfun njit env opt func (fst rr) (snd rr) iters of
             (env', r) \<Rightarrow> (env', sbind r (\<lambda>(cost, _). Inr cost))))"

text \<open>Lines 50-59 for \<open>walitool.DE\<close>: the runs in order, the module state threaded through.\<close>

fun rust_runs ::
  "('f \<Rightarrow> batch_fn) \<Rightarrow> ('f \<Rightarrow> py_error + batch_fn) \<Rightarrow> bench_args \<Rightarrow> 'f \<Rightarrow> nat \<Rightarrow>
   (nat \<Rightarrow> de_rng \<times> de_rng) \<Rightarrow> nat list \<Rightarrow> 'f wrapper_env \<Rightarrow> 'f wrapper_env \<times> (py_error + real list)" where
  "rust_runs pyfun njit kw func iters rngs [] env = (env, Inr [])"
| "rust_runs pyfun njit kw func iters rngs (k # ks) env =
     (case rust_run pyfun njit env kw func iters (rngs k) of
        (env', Inl e) \<Rightarrow> (env', Inl e)
      | (env', Inr cost) \<Rightarrow>
          (case rust_runs pyfun njit kw func iters rngs ks env' of
             (env'', r) \<Rightarrow> (env'', sbind r (\<lambda>costs. Inr (cost # costs)))))"

text \<open>
  Lines 42-63.  The Rust engine first builds a 10 \<times> 2 optimizer on \<open>[-5, 5]\<^sup>2\<close> and runs
  one generation (lines 45-47), which compiles the function into the cache.
\<close>

definition run_benchmark ::
  "engine \<Rightarrow> ('f \<Rightarrow> batch_fn) \<Rightarrow> ('f \<Rightarrow> py_error + batch_fn) \<Rightarrow> 'f wrapper_env \<Rightarrow> 'f \<Rightarrow> nat \<Rightarrow> nat \<Rightarrow>
   bench_args \<Rightarrow> de_rng \<times> de_rng \<Rightarrow> (nat \<Rightarrow> de_rng \<times> de_rng) \<Rightarrow> 'f wrapper_env \<times> (py_error + real)" where
  "run_benchmark name pyfun njit env func iters runs kw warm rngs =
     (case name of
        PythonNumPy \<Rightarrow>
          (env, sbind (mapM (\<lambda>k. numpy_run pyfun kw func iters (fst (rngs k))) [0..<runs]) py_mean)
      | RustWalitool \<Rightarrow>
          (case rust_run pyfun njit env
                  (warmup_args kw) func 1 warm of
             (env1, Inl e) \<Rightarrow> (env1, Inl e)
           | (env1, Inr _) \<Rightarrow>
               (case rust_runs pyfun njit kw func iters rngs [0..<runs] env1 of
                  (env2, r) \<Rightarrow> (env2, sbind r py_mean))))"

text \<open>
  src/performance/test.py, the usage example of the README: the objective of lines 5-8
  (Rastrigin written with \<open>x.shape[1]\<close>) and the script of lines 11-17, which builds a
  100 \<times> 50 optimizer on \<open>[-5.12, 5.12]\<^sup>5\<^sup>0\<close> with \<open>F = 0.5\<close>, \<open>CR = 0.9\<close> and runs
  50000 generations.  The printing of line 19 is not modelled.
\<close>

definition objective_function :: batch_fn where
  "objective_function x =
     (let A = 10 in Inr (map (\<lambda>r. A * real (length (hd x)) + sum_list (map (\<lambda>xi. xi\<^sup>2 - A * cos (2 * pi * xi)) r)) x))"

definition demo_script ::
  "('f \<Rightarrow> batch_fn) \<Rightarrow> ('f \<Rightarrow> py_error + batch_fn) \<Rightarrow> 'f wrapper_env \<Rightarrow> 'f \<Rightarrow> de_rng \<Rightarrow> de_rng \<Rightarrow>
   'f wrapper_env \<times> (py_error + real \<times> vec)" where
  "demo_script pyfun njit env objective rng rng' =
     (let dim = 50; bounds = (replicate dim (- 5.12), replicate dim 5.12);
          options = [''F'' \<mapsto> 0.5, ''CR'' \<mapsto> 0.9]
      in case DE_new 100 dim (Some options) (Some bounds) of
           Inl e \<Rightarrow> (env, Inl e)
         | Inr optimizer \<Rightarrow> DE_optimize pyfun njit env optimizer objective rng rng' 50000)"

subsection \<open>Facts\<close>

lemma DE_new_as_NumpyDE:
  assumes "DE_new p d (Some opts) (Some b) = Inr c"
  shows "c = NumpyDE_init p d b opts \<and> wf_cfg c"
  using assms
  by (cases b) (auto simp: DE_new_def native_DE_new_def NumpyDE_init_def wf_cfg_def wf_bounds_def
                           list_all_iff Let_def split: if_splits)

lemma rust_run_rastrigin:
  assumes py: "pyfun f = rastrigin" and jit: "\<forall>j. njit f = Inr j \<longrightarrow> j = rastrigin"
    and inv: "env_inv njit env"
    and new: "DE_new (b_pop kw) (b_dims kw) (Some (b_options kw)) (Some (b_bounds kw)) = Inr c"
    and r: "wf_rng c (fst rr) iters"
  shows "snd (rust_run pyfun njit env kw f iters rr) = numpy_run pyfun kw f iters (fst rr) \<and>
         env_inv njit (fst (rust_run pyfun njit env kw f iters rr)) \<and>
         (\<exists>cost. numpy_run pyfun kw f iters (fst rr) = Inr cost \<and> 0 \<le> cost)"
proof -
  note cfg = DE_new_as_NumpyDE[OF new]
  have c: "wf_cfg c" using cfg by blast
  note ro = rastrigin_optimize[OF c r]
  have "snd (DE_optimize pyfun njit env c f (fst rr) (snd rr) iters) =
        NumpyDE_optimize c (vectorised (rastrigin_row 10 (dim c))) (fst rr) iters"
    by (rule DE_optimize_box[OF c r inv]) (use py jit rastrigin_box[OF c] in auto)
  then have d: "snd (DE_optimize pyfun njit env c f (fst rr) (snd rr) iters) = NumpyDE_optimize c rastrigin (fst rr) iters"
    using ro by simp
  have e: "env_inv njit (fst (DE_optimize pyfun njit env c f (fst rr) (snd rr) iters))"
    by (rule DE_optimize_env_inv[OF inv])
  have n: "numpy_run pyfun kw f iters (fst rr) = sbind (NumpyDE_optimize c rastrigin (fst rr) iters) (\<lambda>(cost, _). Inr cost)"
    using cfg py by (simp add: numpy_run_def)
  obtain cost x where "NumpyDE_optimize c rastrigin (fst rr) iters = Inr (cost, x)" "0 \<le> cost" using ro by blast
  then show ?thesis using d e n new
    by (auto simp: rust_run_def split: prod.splits)
qed

lemma rust_runs_rastrigin:
  assumes py: "pyfun f = rastrigin" and jit: "\<forall>j. njit f = Inr j \<longrightarrow> j = rastrigin"
    and new: "DE_new (b_pop kw) (b_dims kw) (Some (b_options kw)) (Some (b_bounds kw)) = Inr c"
    and r: "\<forall>k \<in> set ks. wf_rng c (fst (rngs k)) iters"
    and inv: "env_inv njit env"
  shows "snd (rust_runs pyfun njit kw f iters rngs ks env) = mapM (\<lambda>k. numpy_run pyfun kw f iters (fst (rngs k))) ks \<and>
         env_inv njit (fst (rust_runs pyfun njit kw f iters rngs ks env))"
  using r inv
proof (induction ks arbitrary: env)
  case Nil
  then show ?case by simp
next
  case (Cons k ks)
  note one = rust_run_rastrigin[where pyfun = pyfun and f = f and njit = njit, OF py jit Cons.prems(2) new, of "rngs k" iters]
  obtain env' r1 where rr: "rust_run pyfun njit env kw f iters (rngs k) = (env', r1)" by fastforce
  obtain cost where cost: "numpy_run pyfun kw f iters (fst (rngs k)) = Inr cost"
    using one Cons.prems(1) by auto
  have "r1 = Inr cost" "env_inv njit env'" using one Cons.prems(1) rr cost by auto
  moreover have "snd (rust_runs pyfun njit kw f iters rngs ks env') = mapM (\<lambda>k. numpy_run pyfun kw f iters (fst (rngs k))) ks \<and>
                 env_inv njit (fst (rust_runs pyfun njit kw f iters rngs ks env'))"
    using Cons.IH Cons.prems(1) calculation(2) by simp
  ultimately show ?case using rr cost by (auto split: prod.splits)
qed

lemma py_mean_nonneg:
  assumes "xs \<noteq> []" and "\<forall>x \<in> set xs. 0 \<le> x"
  shows "\<exists>a. py_mean xs = Inr a \<and> 0 \<le> a"
  using assms sum_list_nonneg[of xs] by (simp add: py_mean_def)

lemma objective_function_rastrigin: "objective_function = rastrigin"
  by (rule ext) (simp add: objective_function_def rastrigin_def rastrigin_row_def)

lemma demo_script_result:
  assumes py: "pyfun f = objective_function" and jit: "\<forall>j. njit f = Inr j \<longrightarrow> j = objective_function"
    and inv: "env_inv njit env"
    and r: "wf_rng \<lparr>pop_size = 100, dim = 50, lb = replicate 50 (- 5.12), ub = replicate 50 5.12, F = 0.5, CR = 0.9\<rparr> rng 50000"
  shows "\<exists>cost x. snd (demo_script pyfun njit env f rng rng') = Inr (cost, x) \<and> 0 \<le> cost \<and>
           cost = rastrigin_row 10 50 x \<and> in_box (replicate 50 (- 5.12)) (replicate 50 5.12) x \<and>
           env_inv njit (fst (demo_script pyfun njit env f rng rng'))"
proof -
  define c where "c = \<lparr>pop_size = 100, dim = 50, lb = replicate 50 (- 5.12::real), ub = replicate 50 5.12, F = 0.5, CR = 0.9\<rparr>"
  have new: "DE_new 100 50 (Some [''F'' \<mapsto> 0.5, ''CR'' \<mapsto> 0.9]) (Some (replicate 50 (- 5.12), replicate 50 5.12)) = Inr c"
    by (simp add: DE_new_def native_DE_new_def list_all_iff c_def)
  have cfg: "wf_cfg c" using DE_new_as_NumpyDE[OF new] by blast
  have rc: "wf_rng c rng 50000" using r by (simp add: c_def)
  note ro = rastrigin_optimize[OF cfg rc]
  have "snd (DE_optimize pyfun njit env c f rng rng' 50000) =
        NumpyDE_optimize c (vectorised (rastrigin_row 10 (dim c))) rng 50000"
    by (rule DE_optimize_box[OF cfg rc inv]) (use py jit rastrigin_box[OF cfg] in \<open>auto simp: objective_function_rastrigin\<close>)
  then have d: "snd (DE_optimize pyfun njit env c f rng rng' 50000) = NumpyDE_optimize c rastrigin rng 50000"
    using ro by simp
  have e: "env_inv njit (fst (DE_optimize pyfun njit env c f rng rng' 50000))"
    by (rule DE_optimize_env_inv[OF inv])
  have s: "demo_script pyfun njit env f rng rng' = DE_optimize pyfun njit env c f rng rng' 50000"
    using new by (simp add: demo_script_def)
  obtain cost x where o: "NumpyDE_optimize c rastrigin rng 50000 = Inr (cost, x)" "cost = rastrigin_row 10 (dim c) x"
    "0 \<le> cost" "in_box (lb c) (ub c) x" using ro by blast
  have "snd (demo_script pyfun njit env f rng rng') = Inr (cost, x)" using d o s by simp
  then show ?thesis using o e s by (auto simp: c_def)
qed

lemma run_benchmark_rastrigin:
  assumes py: "pyfun f = rastrigin" and jit: "\<forall>j. njit f = Inr j \<longrightarrow> j = rastrigin"
    and inv: "env_inv njit env"
    and new: "DE_new (b_pop kw) (b_dims kw) (Some (b_options kw)) (Some (b_bounds kw)) = Inr c"
    and neww: "DE_new 10 2 (Some (b_options kw)) (Some ([-5, -5], [5, 5])) = Inr cw"
    and rw: "wf_rng cw (fst warm) 1" and r: "\<forall>k < runs. wf_rng c (fst (rngs k)) iters"
    and same_rngs: "\<forall>k < runs. fst (rngs' k) = fst (rngs k)"
  shows "snd (run_benchmark RustWalitool pyfun njit env f iters runs kw warm rngs) =
           snd (run_benchmark PythonNumPy pyfun njit env f iters runs kw warm' rngs') \<and>
         env_inv njit (fst (run_benchmark RustWalitool pyfun njit env f iters runs kw warm rngs)) \<and>
         fst (run_benchmark PythonNumPy pyfun njit env f iters runs kw warm' rngs') = env \<and>
         (0 < runs \<longrightarrow> (\<exists>a. snd (run_benchmark PythonNumPy pyfun njit env f iters runs kw warm' rngs') = Inr a \<and> 0 \<le> a))"
proof -
  have neww': "DE_new (b_pop (warmup_args kw)) (b_dims (warmup_args kw)) (Some (b_options (warmup_args kw)))
                 (Some (b_bounds (warmup_args kw))) = Inr cw"
    using neww by (simp add: warmup_args_def)
  note w = rust_run_rastrigin[where pyfun = pyfun and f = f and njit = njit, OF py jit inv neww' rw]
  obtain env1 r1 where wr: "rust_run pyfun njit env (warmup_args kw) f 1 warm = (env1, r1)" by fastforce
  obtain cw0 where "r1 = Inr cw0" and inv1: "env_inv njit env1" using w wr by auto
  then have rb: "run_benchmark RustWalitool pyfun njit env f iters runs kw warm rngs =
                 (fst (rust_runs pyfun njit kw f iters rngs [0..<runs] env1),
                  sbind (snd (rust_runs pyfun njit kw f iters rngs [0..<runs] env1)) py_mean)"
    using wr by (simp add: run_benchmark_def split: prod.splits)
  note rr = rust_runs_rastrigin[where pyfun = pyfun and f = f and njit = njit, OF py jit new _ inv1, of "[0..<runs]" rngs iters]
  have same: "mapM (\<lambda>k. numpy_run pyfun kw f iters (fst (rngs' k))) [0..<runs] =
              mapM (\<lambda>k. numpy_run pyfun kw f iters (fst (rngs k))) [0..<runs]"
    by (rule mapM_cong) (use same_rngs in simp)
  have agree: "snd (run_benchmark RustWalitool pyfun njit env f iters runs kw warm rngs) =
               snd (run_benchmark PythonNumPy pyfun njit env f iters runs kw warm' rngs')"
    using rb rr r same by (simp add: run_benchmark_def)
  have "\<exists>costs. mapM (\<lambda>k. numpy_run pyfun kw f iters (fst (rngs k))) [0..<runs] = Inr costs \<and>
          length costs = length [0..<runs] \<and> (\<forall>x \<in> set costs. 0 \<le> x)"
  proof (rule mapM_total)
    fix k assume "k \<in> set [0..<runs]"
    then show "\<exists>y. numpy_run pyfun kw f iters (fst (rngs k)) = Inr y \<and> 0 \<le> y"
      using rust_run_rastrigin[where pyfun = pyfun and f = f and njit = njit, OF py jit inv new, of "rngs k" iters] r by auto
  qed
  then have "0 < runs \<longrightarrow> (\<exists>a. snd (run_benchmark PythonNumPy pyfun njit env f iters runs kw warm' rngs') = Inr a \<and> 0 \<le> a)"
    using py_mean_nonneg same by (force simp: run_benchmark_def)
  with agree show ?thesis using rb rr r by (simp add: run_benchmark_def)
qed

text \<open>
  C32 (the benchmark's comparison, de_benchmark.py lines 42-63 and 80-81).  On the
  Rastrigin objective, with the script's arguments accepted by \<open>walitool.DE\<close>, a compiler
  that compiles faithfully or fails, and well-formed random streams, the Rust engine
  reports exactly the mean final cost of the NumPy engine on the same streams: the
  warm-up, the compile cache and the fallback change nothing.  With at least one run that
  mean exists and is non-negative.
\<close>

theorem run_benchmark_engines_agree:
  assumes py: "pyfun f = rastrigin" and jit: "\<forall>j. njit f = Inr j \<longrightarrow> j = rastrigin"
    and inv: "env_inv njit env"
    and new: "DE_new (b_pop kw) (b_dims kw) (Some (b_options kw)) (Some (b_bounds kw)) = Inr c"
    and neww: "DE_new 10 2 (Some (b_options kw)) (Some ([-5, -5], [5, 5])) = Inr cw"
    and rw: "wf_rng cw (fst warm) 1" and r: "\<forall>k < runs. wf_rng c (fst (rngs k)) iters"
  shows "snd (run_benchmark RustWalitool pyfun njit env f iters runs kw warm rngs) =
           snd (run_benchmark PythonNumPy pyfun njit env f iters runs kw warm rngs) \<and>
         (0 < runs \<longrightarrow> (\<exists>a. snd (run_benchmark PythonNumPy pyfun njit env f iters runs kw warm rngs) = Inr a \<and> 0 \<le> a))"
  using run_benchmark_rastrigin[where pyfun = pyfun and f = f and njit = njit and rngs' = rngs and warm' = warm,
      OF py jit inv new neww rw r] by simp

theorem run_benchmark_engines_agree_witness:
  "snd (run_benchmark RustWalitool (\<lambda>_. rastrigin) (\<lambda>_. Inr rastrigin) \<lparr>has_numba = True, numba_cache = Map.empty, natives = Map.empty, next_addr = 0\<rparr> (0::nat) 2 3 \<lparr>b_pop = 4, b_dims = 1, b_bounds = ([-1], [1]), b_options = [''F'' \<mapsto> 1/2, ''CR'' \<mapsto> 7/10]\<rparr> (\<lparr>init_rand = replicate 10 [1/2, 1/2], gen_rand = (\<lambda>_. \<lparr>idxs = replicate 10 (0, 0, 0), cross_rand = replicate 10 [1/2, 1/2]\<rparr>)\<rparr>, \<lparr>init_rand = replicate 10 [1/2, 1/2], gen_rand = (\<lambda>_. \<lparr>idxs = replicate 10 (0, 0, 0), cross_rand = replicate 10 [1/2, 1/2]\<rparr>)\<rparr>) (\<lambda>_. (\<lparr>init_rand = replicate 4 [1/2], gen_rand = (\<lambda>_. \<lparr>idxs = replicate 4 (0, 1, 2), cross_rand = replicate 4 [1/2]\<rparr>)\<rparr>, \<lparr>init_rand = replicate 4 [1/2], gen_rand = (\<lambda>_. \<lparr>idxs = replicate 4 (0, 1, 2), cross_rand = replicate 4 [1/2]\<rparr>)\<rparr>))) =
     snd (run_benchmark PythonNumPy (\<lambda>_. rastrigin) (\<lambda>_. Inr rastrigin) \<lparr>has_numba = True, numba_cache = Map.empty, natives = Map.empty, next_addr = 0\<rparr> (0::nat) 2 3 \<lparr>b_pop = 4, b_dims = 1, b_bounds = ([-1], [1]), b_options = [''F'' \<mapsto> 1/2, ''CR'' \<mapsto> 7/10]\<rparr> (\<lparr>init_rand = replicate 10 [1/2, 1/2], gen_rand = (\<lambda>_. \<lparr>idxs = replicate 10 (0, 0, 0), cross_rand = replicate 10 [1/2, 1/2]\<rparr>)\<rparr>, \<lparr>init_rand = replicate 10 [1/2, 1/2], gen_rand = (\<lambda>_. \<lparr>idxs = replicate 10 (0, 0, 0), cross_rand = replicate 10 [1/2, 1/2]\<rparr>)\<rparr>) (\<lambda>_. (\<lparr>init_rand = replicate 4 [1/2], gen_rand = (\<lambda>_. \<lparr>idxs = replicate 4 (0, 1, 2), cross_rand = replicate 4 [1/2]\<rparr>)\<rparr>, \<lparr>init_rand = replicate 4 [1/2], gen_rand = (\<lambda>_. \<lparr>idxs = replicate 4 (0, 1, 2), cross_rand = replicate 4 [1/2]\<rparr>)\<rparr>))) \<and>
   (\<exists>a. snd (run_benchmark PythonNumPy (\<lambda>_. rastrigin) (\<lambda>_. Inr rastrigin) \<lparr>has_numba = True, numba_cache = Map.empty, natives = Map.empty, next_addr = 0\<rparr> (0::nat) 2 3 \<lparr>b_pop = 4, b_dims = 1, b_bounds = ([-1], [1]), b_options = [''F'' \<mapsto> 1/2, ''CR'' \<mapsto> 7/10]\<rparr> (\<lparr>init_rand = replicate 10 [1/2, 1/2], gen_rand = (\<lambda>_. \<lparr>idxs = replicate 10 (0, 0, 0), cross_rand = replicate 10 [1/2, 1/2]\<rparr>)\<rparr>, \<lparr>init_rand = replicate 10 [1/2, 1/2], gen_rand = (\<lambda>_. \<lparr>idxs = replicate 10 (0, 0, 0), cross_rand = replicate 10 [1/2, 1/2]\<rparr>)\<rparr>) (\<lambda>_. (\<lparr>init_rand = replicate 4 [1/2], gen_rand = (\<lambda>_. \<lparr>idxs = replicate 4 (0, 1, 2), cross_rand = replicate 4 [1/2]\<rparr>)\<rparr>, \<lparr>init_rand = replicate 4 [1/2], gen_rand = (\<lambda>_. \<lparr>idxs = replicate 4 (0, 1, 2), cross_rand = replicate 4 [1/2]\<rparr>)\<rparr>))) = Inr a \<and> 0 \<le> a)"
proof -
  have inv: "env_inv (\<lambda>_::nat. Inr rastrigin) \<lparr>has_numba = True, numba_cache = Map.empty, natives = Map.empty, next_addr = 0\<rparr>" by (simp add: env_inv_def)
  have new: "DE_new (b_pop \<lparr>b_pop = 4, b_dims = 1, b_bounds = ([-1], [1]), b_options = [''F'' \<mapsto> 1/2, ''CR'' \<mapsto> 7/10]\<rparr>) (b_dims \<lparr>b_pop = 4, b_dims = 1, b_bounds = ([-1], [1]), b_options = [''F'' \<mapsto> 1/2, ''CR'' \<mapsto> 7/10]\<rparr>) (Some (b_options \<lparr>b_pop = 4, b_dims = 1, b_bounds = ([-1], [1]), b_options = [''F'' \<mapsto> 1/2, ''CR'' \<mapsto> 7/10]\<rparr>)) (Some (b_bounds \<lparr>b_pop = 4, b_dims = 1, b_bounds = ([-1], [1]), b_options = [''F'' \<mapsto> 1/2, ''CR'' \<mapsto> 7/10]\<rparr>)) = Inr \<lparr>pop_size = 4, dim = 1, lb = [-1], ub = [1], F = 1/2, CR = 7/10\<rparr>"
    by (simp add: DE_new_def native_DE_new_def)
  have neww: "DE_new 10 2 (Some (b_options \<lparr>b_pop = 4, b_dims = 1, b_bounds = ([-1], [1]), b_options = [''F'' \<mapsto> 1/2, ''CR'' \<mapsto> 7/10]\<rparr>)) (Some ([-5, -5], [5, 5])) = Inr \<lparr>pop_size = 10, dim = 2, lb = [-5, -5], ub = [5, 5], F = 1/2, CR = 7/10\<rparr>"
    by (simp add: DE_new_def native_DE_new_def upt_rec)
  have rw: "wf_rng \<lparr>pop_size = 10, dim = 2, lb = [-5, -5], ub = [5, 5], F = 1/2, CR = 7/10\<rparr> (fst (\<lparr>init_rand = replicate 10 [1/2, 1/2], gen_rand = (\<lambda>_. \<lparr>idxs = replicate 10 (0, 0, 0), cross_rand = replicate 10 [1/2, 1/2]\<rparr>)\<rparr>, \<lparr>init_rand = replicate 10 [1/2, 1/2], gen_rand = (\<lambda>_. \<lparr>idxs = replicate 10 (0, 0, 0), cross_rand = replicate 10 [1/2, 1/2]\<rparr>)\<rparr>)) 1" by (simp add: de_wf_eval list_all_iff)
  have r: "\<forall>k < 3. wf_rng \<lparr>pop_size = 4, dim = 1, lb = [-1], ub = [1], F = 1/2, CR = 7/10\<rparr> (fst ((\<lambda>_. (\<lparr>init_rand = replicate 4 [1/2], gen_rand = (\<lambda>_. \<lparr>idxs = replicate 4 (0, 1, 2), cross_rand = replicate 4 [1/2]\<rparr>)\<rparr>, \<lparr>init_rand = replicate 4 [1/2], gen_rand = (\<lambda>_. \<lparr>idxs = replicate 4 (0, 1, 2), cross_rand = replicate 4 [1/2]\<rparr>)\<rparr>)) k)) 2" by (simp add: de_wf_eval numeral_eq_Suc)
  show ?thesis
    using run_benchmark_engines_agree[where pyfun = "\<lambda>_. rastrigin" and f = 0 and njit = "\<lambda>_. Inr rastrigin",
        OF refl _ inv new neww rw r] by simp
qed

end
