(* ===== verification/EWM_Benchmark.thy ===== *)
theory EWM_Benchmark
  imports Entropy Topsis Bounds
begin

text \<open>
  The decision-pipeline driver of src/performance/benchmark.py: the pipeline of lines
  77-78 (\<open>ewm_topsis_pipeline\<close>), \<open>benchmark(rows, cols, iterations)\<close> (lines 69-94) and
  \<open>main()\<close> (lines 96-109).  \<open>benchmark\<close> draws a random matrix and random indicator
  types, times \<open>iterations\<close> passes of the NumPy pipeline and of the native one
  (\<open>walitool.entropy_weight\<close>, \<open>walitool.topsis\<close>), and prints the two mean times and
  their ratio.  The environment's inputs are explicit: the draws of \<open>np.random.rand\<close> and
  \<open>np.random.randint\<close> with their contracts \<open>unit_draws\<close> and \<open>randint_draws\<close>, and the
  elapsed times measured by \<open>time.perf_counter\<close>.  The native functions, whose source is
  not in the repository, are parameters; the printed report is the value returned.
\<close>

text \<open>Lines 77-78: \<open>w_py = numpy_ewm(data, types); numpy_topsis(data, w_py, types)\<close>.\<close>

definition ewm_topsis_pipeline :: "mat \<Rightarrow> int list \<Rightarrow> py_error + vec" where
  "ewm_topsis_pipeline data types = sbind (numpy_ewm_A data types) (\<lambda>w_py. numpy_topsis data w_py types)"

text \<open>The native functions: \<open>entropy_weight\<close> returns a pair whose first part is the weights.\<close>

type_synonym native_ewm = "mat \<Rightarrow> int list \<Rightarrow> py_error + vec \<times> vec"
type_synonym native_topsis = "mat \<Rightarrow> vec \<Rightarrow> int list \<Rightarrow> py_error + vec"

text \<open>One pass of each timed loop body (lines 77-78 and 83-84); the results are discarded.\<close>

definition py_pass :: "mat \<Rightarrow> int list \<Rightarrow> py_error + unit" where
  "py_pass data types = sbind (ewm_topsis_pipeline data types) (\<lambda>_. Inr ())"

definition rs_pass :: "native_ewm \<Rightarrow> native_topsis \<Rightarrow> mat \<Rightarrow> int list \<Rightarrow> py_error + unit" where
  "rs_pass entropy_weight topsis data types =
     sbind (entropy_weight data types) (\<lambda>(w_rs, _). sbind (topsis data w_rs types) (\<lambda>_. Inr ()))"

text \<open>\<open>for _ in range(iterations): body\<close> (lines 76 and 82).\<close>

definition repeat_loop :: "nat \<Rightarrow> py_error + unit \<Rightarrow> py_error + unit" where
  "repeat_loop iterations body = foldM (\<lambda>_ _. body) [0..<iterations] ()"

text \<open>Line 72: \<open>data = np.random.rand(rows, cols) * 100\<close>, from the draws \<open>rand\<close>.\<close>

definition bench_data :: "nat \<Rightarrow> matrix \<Rightarrow> mat" where
  "bench_data n_cols rand = \<lparr>ncols = n_cols, rows = map (map (\<lambda>x. x * 100)) rand\<rparr>"

text \<open>Line 73: the contract of \<open>np.random.randint(lo, hi, n)\<close>: \<open>n\<close> integers in \<open>[lo, hi)\<close>.\<close>

definition randint_draws :: "int \<Rightarrow> int \<Rightarrow> nat \<Rightarrow> int list \<Rightarrow> bool" where
  "randint_draws lo hi n T \<longleftrightarrow> length T = n \<and> list_all (\<lambda>t. lo \<le> t \<and> t < hi) T"

text \<open>Lines 87-94: the printed report, the speedup only when the Rust time is positive.\<close>

datatype speedup_line = Speedup real | Infinite

definition timing_report :: "real \<Rightarrow> real \<Rightarrow> real \<times> real \<times> speedup_line" where
  "timing_report py_time rs_time = (py_time, rs_time, if 0 < rs_time then Speedup (py_time / rs_time) else Infinite)"

text \<open>
  Lines 69-94, \<open>benchmark(rows, cols, iterations)\<close>; \<open>elapsed_py\<close> and \<open>elapsed_rs\<close> are
  the differences of \<open>time.perf_counter()\<close> around the two loops.  \<open>n_rows\<close> is the shape
  of the draw \<open>rand\<close> (its contract is \<open>unit_draws n_rows n_cols rand\<close>).
\<close>

definition benchmark ::
  "native_ewm \<Rightarrow> native_topsis \<Rightarrow> nat \<Rightarrow> nat \<Rightarrow> nat \<Rightarrow> matrix \<Rightarrow> int list \<Rightarrow> real \<Rightarrow> real \<Rightarrow>
   py_error + real \<times> real \<times> speedup_line" where
  "benchmark entropy_weight topsis n_rows n_cols iterations rand types elapsed_py elapsed_rs =
     (let data = bench_data n_cols rand in
      sbind (repeat_loop iterations (py_pass data types)) (\<lambda>_.
      sbind (py_div elapsed_py (real iterations)) (\<lambda>py_time.
      sbind (repeat_loop iterations (rs_pass entropy_weight topsis data types)) (\<lambda>_.
      sbind (py_div elapsed_rs (real iterations)) (\<lambda>rs_time.
      Inr (timing_report py_time rs_time))))))"

text \<open>Lines 101-109, \<open>main()\<close>: the four sizes, each run with the default \<open>iterations=10\<close>.\<close>

definition test_cases :: "(nat \<times> nat) list" where
  "test_cases = [(1000, 50), (10000, 100), (50000, 200), (100000, 500)]"

record bench_draws =
  rand_data :: matrix
  rand_types :: "int list"
  py_elapsed :: real
  rs_elapsed :: real

definition bench_main :: "native_ewm \<Rightarrow> native_topsis \<Rightarrow> (nat \<Rightarrow> bench_draws) \<Rightarrow> py_error + (real \<times> real \<times> speedup_line) list" where
  "bench_main entropy_weight topsis draws =
     mapM (\<lambda>k. case test_cases ! k of (r, c) \<Rightarrow>
                 benchmark entropy_weight topsis r c 10 (rand_data (draws k)) (rand_types (draws k))
                   (py_elapsed (draws k)) (rs_elapsed (draws k)))
       [0..<length test_cases]"

subsection \<open>Facts\<close>

lemma repeat_loop_eq: "repeat_loop n body = (if n = 0 then Inr () else body)"
proof -
  have "foldM (\<lambda>_ _. body) xs () = (if xs = [] then Inr () else body)" for xs :: "nat list"
    by (induction xs) (auto simp: sbind_def split: sum.splits)
  then show ?thesis by (simp add: repeat_loop_def)
qed

lemma bench_data_wf:
  assumes "unit_draws n_rows n_cols rand"
  shows "wf_mat (bench_data n_cols rand) \<and> length (rows (bench_data n_cols rand)) = n_rows \<and>
         ncols (bench_data n_cols rand) = n_cols"
  using assms by (auto simp: bench_data_def wf_mat_def unit_draws_def)

lemma ewm_topsis_pipeline_total:
  assumes wf: "wf_mat data" and n: "2 \<le> length (rows data)" and m: "0 < ncols data"
    and ts: "ncols data \<le> length types"
  shows "\<exists>s. ewm_topsis_pipeline data types = Inr s \<and> length s = length (rows data)"
proof -
  obtain w where w: "numpy_ewm_A data types = Inr w" "length w = ncols data"
    using numpy_ewm_A_total[OF n m ts] by blast
  have "rows data \<noteq> []" using n by auto
  then obtain s where "numpy_topsis data w types = Inr s" "length s = length (rows data)"
    using numpy_topsis_total[OF wf w(2) _ ts] by blast
  then show ?thesis using w by (simp add: ewm_topsis_pipeline_def)
qed

lemma benchmark_ok:
  assumes it: "0 < iterations" and R: "unit_draws n_rows n_cols rand" and n: "2 \<le> n_rows"
    and m: "0 < n_cols" and T: "randint_draws 0 2 n_cols types"
    and rs: "rs_pass entropy_weight topsis (bench_data n_cols rand) types = Inr ()"
  shows "benchmark entropy_weight topsis n_rows n_cols iterations rand types ep er =
         Inr (timing_report (ep / real iterations) (er / real iterations))"
proof -
  note d = bench_data_wf[OF R]
  have "ncols (bench_data n_cols rand) \<le> length types" using d T by (simp add: randint_draws_def)
  then obtain s where "ewm_topsis_pipeline (bench_data n_cols rand) types = Inr s"
    using ewm_topsis_pipeline_total[of "bench_data n_cols rand" types] d n m by auto
  then have "py_pass (bench_data n_cols rand) types = Inr ()" by (simp add: py_pass_def)
  then show ?thesis using it rs by (simp add: benchmark_def repeat_loop_eq py_div_def)
qed

lemma test_cases_shape: "k < length test_cases \<Longrightarrow> 2 \<le> fst (test_cases ! k) \<and> 0 < snd (test_cases ! k)"
  by (auto simp: test_cases_def nth_Cons split: nat.splits)

text \<open>
  C7 (benchmark.py line 79).  \<open>benchmark(rows, cols, iterations=0)\<close> raises
  \<open>ZeroDivisionError\<close> whatever the draws, the native functions and the clock: the NumPy
  loop runs no pass and \<open>py_time\<close> divides by \<open>iterations = 0\<close>, before the guard of
  line 90, which protects only the speedup, is reached.
\<close>

theorem benchmark_zero_iterations:
  "benchmark entropy_weight topsis n_rows n_cols 0 rand types elapsed_py elapsed_rs = Inl ZeroDivisionError"
  by (simp add: benchmark_def repeat_loop_eq py_div_def)

lemma bench_main_ok:
  assumes native: "\<forall>data types. wf_mat data \<longrightarrow> 2 \<le> length (rows data) \<longrightarrow> 0 < ncols data \<longrightarrow>
                      randint_draws 0 2 (ncols data) types \<longrightarrow> rs_pass entropy_weight topsis data types = Inr ()"
    and draws: "\<forall>k < length test_cases. unit_draws (fst (test_cases ! k)) (snd (test_cases ! k)) (rand_data (draws k)) \<and>
                   randint_draws 0 2 (snd (test_cases ! k)) (rand_types (draws k))"
  shows "bench_main entropy_weight topsis draws =
         Inr (map (\<lambda>k. timing_report (py_elapsed (draws k) / 10) (rs_elapsed (draws k) / 10)) [0..<length test_cases])"
  unfolding bench_main_def
proof (rule mapM_Inr_map)
  fix k assume "k \<in> set [0..<length test_cases]"
  then have k: "k < length test_cases" by simp
  obtain r c where rc: "test_cases ! k = (r, c)" by fastforce
  have R: "unit_draws r c (rand_data (draws k))" and T: "randint_draws 0 2 c (rand_types (draws k))"
    using draws k rc by auto
  have shape: "2 \<le> r" "0 < c" using test_cases_shape[OF k] rc by simp_all
  note d = bench_data_wf[OF R]
  have "rs_pass entropy_weight topsis (bench_data c (rand_data (draws k))) (rand_types (draws k)) = Inr ()"
    using native d shape T by simp
  then show "(case test_cases ! k of (r, c) \<Rightarrow>
               benchmark entropy_weight topsis r c 10 (rand_data (draws k)) (rand_types (draws k))
                 (py_elapsed (draws k)) (rs_elapsed (draws k))) =
             Inr (timing_report (py_elapsed (draws k) / 10) (rs_elapsed (draws k) / 10))"
    using benchmark_ok[OF _ R shape(1) shape(2) T] rc by simp
qed

text \<open>
  C19 (benchmark.py lines 69-109, spec section 7).  \<open>main()\<close> runs all four sizes without an
  exception and prints, for each, the mean times over the 10 iterations and their ratio
  (or "Infinite" when the Rust time is 0), provided the draws meet numpy's contracts and
  the native pipeline, like the NumPy one, raises nothing on a matrix with at least two
  rows, one column and a 0/1 type per column.
\<close>

theorem bench_main_reports:
  assumes native: "\<forall>data types. wf_mat data \<longrightarrow> 2 \<le> length (rows data) \<longrightarrow> 0 < ncols data \<longrightarrow>
                      randint_draws 0 2 (ncols data) types \<longrightarrow> rs_pass entropy_weight topsis data types = Inr ()"
    and draws: "\<forall>k < length test_cases. unit_draws (fst (test_cases ! k)) (snd (test_cases ! k)) (rand_data (draws k)) \<and>
                   randint_draws 0 2 (snd (test_cases ! k)) (rand_types (draws k))"
  shows "bench_main entropy_weight topsis draws =
         Inr (map (\<lambda>k. timing_report (py_elapsed (draws k) / 10) (rs_elapsed (draws k) / 10)) [0..<length test_cases])"
  using bench_main_ok[OF assms] .

theorem bench_main_reports_witness:
  "bench_main (\<lambda>_ _. Inr ([], [])) (\<lambda>_ _ _. Inr [])
     (\<lambda>k. \<lparr>rand_data = replicate (fst (test_cases ! k)) (replicate (snd (test_cases ! k)) (1/2)),
           rand_types = replicate (snd (test_cases ! k)) 0, py_elapsed = 2, rs_elapsed = 1\<rparr>) =
   Inr (map (\<lambda>k. timing_report (2 / 10) (1 / 10)) [0..<length test_cases])"
  using bench_main_reports[where entropy_weight = "\<lambda>_ _. Inr ([], [])" and topsis = "\<lambda>_ _ _. Inr []" and
      draws = "\<lambda>k. \<lparr>rand_data = replicate (fst (test_cases ! k)) (replicate (snd (test_cases ! k)) (1/2)),
           rand_types = replicate (snd (test_cases ! k)) 0, py_elapsed = 2, rs_elapsed = 1\<rparr>"]
  by (simp add: rs_pass_def unit_draws_def randint_draws_def list_all_iff)

end
