(* ===== verification/DE_Scenarios.thy ===== *)
theory DE_Scenarios
  imports Benchmarks
begin

text \<open>
  The scenario table of src/performance/de_benchmark.py (lines 65-84, the script's
  \<open>__main__\<close> block): two scenarios, each benchmarked first with \<open>NumpyDE\<close> and then with
  \<open>walitool.DE\<close> on Rastrigin over \<open>[-5.12, 5.12]\<^sup>d\<close> with \<open>F = 0.5\<close>, \<open>CR = 0.9\<close> and
  the default three runs, followed by the ratio of the two mean times.  The module state
  of the wrapper (the numba cache) is threaded from scenario to scenario.  The environment
  is explicit per scenario: the random streams of each engine and the measured run times
  (\<open>scenario_inputs\<close>).  The printing is not modelled; a report row holds the values the
  script prints (lines 82-83).
\<close>

record scenario =
  sc_dim :: nat
  sc_pop :: nat
  sc_iters :: nat

text \<open>Lines 66-69.\<close>

definition scenarios :: "scenario list" where
  "scenarios = [\<lparr>sc_dim = 500, sc_pop = 200, sc_iters = 2000\<rparr>, \<lparr>sc_dim = 100, sc_pop = 100, sc_iters = 20000\<rparr>]"

text \<open>Lines 70 and 77-80: the keyword arguments both calls of \<open>run_benchmark\<close> receive.\<close>

definition scenario_args :: "scenario \<Rightarrow> bench_args" where
  "scenario_args sc =
     \<lparr>b_pop = sc_pop sc, b_dims = sc_dim sc,
      b_bounds = (replicate (sc_dim sc) (- 5.12), replicate (sc_dim sc) 5.12),
      b_options = [''F'' \<mapsto> 0.5, ''CR'' \<mapsto> 0.9]\<rparr>"

text \<open>Line 53: the optimizer configuration built from the keyword arguments.\<close>

definition bench_cfg :: "bench_args \<Rightarrow> numpy_de" where
  "bench_cfg kw = NumpyDE_init (b_pop kw) (b_dims kw) (b_bounds kw) (b_options kw)"

record scenario_inputs =
  py_streams :: "nat \<Rightarrow> de_rng \<times> de_rng"
  rs_warm :: "de_rng \<times> de_rng"
  rs_streams :: "nat \<Rightarrow> de_rng \<times> de_rng"
  py_durations :: "real list"
  rs_durations :: "real list"

record report_row =
  row_py_time :: real
  row_py_cost :: real
  row_rs_time :: real
  row_speedup :: real
  row_rs_cost :: real

text \<open>
  Lines 77-83, one scenario.  \<open>run_benchmark\<close> returns \<open>(avg_time, avg_cost)\<close>; its time
  is the mean of the measured durations (line 60).  Line 81, \<open>speedup = py_time / rs_time\<close>,
  is not guarded.
\<close>

definition scenario_row ::
  "('f \<Rightarrow> batch_fn) \<Rightarrow> ('f \<Rightarrow> py_error + batch_fn) \<Rightarrow> 'f wrapper_env \<Rightarrow> 'f \<Rightarrow> scenario \<Rightarrow>
   scenario_inputs \<Rightarrow> 'f wrapper_env \<times> (py_error + report_row)" where
  "scenario_row pyfun njit env func sc inp =
     (let kw = scenario_args sc in
      case run_benchmark PythonNumPy pyfun njit env func (sc_iters sc) 3 kw (rs_warm inp) (py_streams inp) of
        (env1, py_r) \<Rightarrow>
          (case sbind py_r (\<lambda>py_cost. sbind (py_mean (py_durations inp)) (\<lambda>py_time. Inr (py_time, py_cost))) of
             Inl e \<Rightarrow> (env1, Inl e)
           | Inr (py_time, py_cost) \<Rightarrow>
               (case run_benchmark RustWalitool pyfun njit env1 func (sc_iters sc) 3 kw (rs_warm inp) (rs_streams inp) of
                  (env2, rs_r) \<Rightarrow>
                    (env2, sbind rs_r (\<lambda>rs_cost. sbind (py_mean (rs_durations inp)) (\<lambda>rs_time.
                       sbind (py_div py_time rs_time) (\<lambda>speedup.
                         Inr \<lparr>row_py_time = py_time, row_py_cost = py_cost, row_rs_time = rs_time,
                              row_speedup = speedup, row_rs_cost = rs_cost\<rparr>)))))))"

text \<open>Line 76: the scenarios in order, the wrapper's module state carried along.\<close>

definition de_main ::
  "('f \<Rightarrow> batch_fn) \<Rightarrow> ('f \<Rightarrow> py_error + batch_fn) \<Rightarrow> 'f wrapper_env \<Rightarrow> 'f \<Rightarrow> (nat \<Rightarrow> scenario_inputs) \<Rightarrow>
   py_error + 'f wrapper_env \<times> report_row list" where
  "de_main pyfun njit env func inputs =
     foldM (\<lambda>k (env, out). case scenario_row pyfun njit env func (scenarios ! k) (inputs k) of
                             (env', r) \<Rightarrow> sbind r (\<lambda>row. Inr (env', out @ [row])))
       [0..<length scenarios] (env, [])"

text \<open>
  The contract of one scenario's inputs: well-formed draws for the warm-up and for the
  three Rust runs, and three measured durations per engine.
\<close>

definition scenario_inputs_ok :: "scenario \<Rightarrow> scenario_inputs \<Rightarrow> bool" where
  "scenario_inputs_ok sc inp \<longleftrightarrow>
     wf_rng (bench_cfg (warmup_args (scenario_args sc))) (fst (rs_warm inp)) 1 \<and>
     (\<forall>j < 3. wf_rng (bench_cfg (scenario_args sc)) (fst (rs_streams inp j)) (sc_iters sc)) \<and>
     length (py_durations inp) = 3 \<and> length (rs_durations inp) = 3"

subsection \<open>Facts\<close>

lemma scenario_DE_new:
  assumes "4 \<le> sc_pop sc" and "1 \<le> sc_dim sc"
  shows "DE_new (b_pop (scenario_args sc)) (b_dims (scenario_args sc)) (Some (b_options (scenario_args sc)))
           (Some (b_bounds (scenario_args sc))) = Inr (bench_cfg (scenario_args sc)) \<and>
         DE_new 10 2 (Some (b_options (scenario_args sc))) (Some ([-5, -5], [5, 5])) =
           Inr (bench_cfg (warmup_args (scenario_args sc)))"
proof
  show "DE_new 10 2 (Some (b_options (scenario_args sc))) (Some ([-5, -5], [5, 5])) =
          Inr (bench_cfg (warmup_args (scenario_args sc)))"
    by (simp add: scenario_args_def bench_cfg_def warmup_args_def DE_new_def native_DE_new_def
        NumpyDE_init_def upt_rec)
qed (use assms in \<open>simp add: scenario_args_def bench_cfg_def DE_new_def native_DE_new_def
        NumpyDE_init_def list_all_iff\<close>)

lemma scenarios_shape: "k < length scenarios \<Longrightarrow> 4 \<le> sc_pop (scenarios ! k) \<and> 1 \<le> sc_dim (scenarios ! k)"
  by (auto simp: scenarios_def nth_Cons split: nat.splits)

lemma py_mean_three: "length xs = 3 \<Longrightarrow> py_mean xs = Inr (sum_list xs / 3)"
  by (auto simp: py_mean_def)

lemma scenario_row_rastrigin:
  assumes py: "pyfun func = rastrigin" and jit: "\<forall>j. njit func = Inr j \<longrightarrow> j = rastrigin"
    and inv: "env_inv njit env" and sc: "4 \<le> sc_pop sc" "1 \<le> sc_dim sc"
    and ok: "scenario_inputs_ok sc inp"
    and same: "\<forall>j < 3. fst (py_streams inp j) = fst (rs_streams inp j)"
  shows "env_inv njit (fst (scenario_row pyfun njit env func sc inp)) \<and>
         (\<exists>cost. 0 \<le> cost \<and> snd (scenario_row pyfun njit env func sc inp) =
            (if sum_list (rs_durations inp) = 0 then Inl ZeroDivisionError
             else Inr \<lparr>row_py_time = sum_list (py_durations inp) / 3, row_py_cost = cost,
                       row_rs_time = sum_list (rs_durations inp) / 3,
                       row_speedup = (sum_list (py_durations inp) / 3) / (sum_list (rs_durations inp) / 3),
                       row_rs_cost = cost\<rparr>))"
proof -
  note n = scenario_DE_new[OF sc]
  have rw: "wf_rng (bench_cfg (warmup_args (scenario_args sc))) (fst (rs_warm inp)) 1"
    and r: "\<forall>j < 3. wf_rng (bench_cfg (scenario_args sc)) (fst (rs_streams inp j)) (sc_iters sc)"
    using ok by (simp_all add: scenario_inputs_ok_def)
  have same': "\<forall>j < 3. fst (py_streams inp j) = fst (rs_streams inp j)" using same .
  note rb = run_benchmark_rastrigin[where pyfun = pyfun and f = func and njit = njit and kw = "scenario_args sc"
      and rngs = "rs_streams inp" and rngs' = "py_streams inp" and warm = "rs_warm inp" and warm' = "rs_warm inp"
      and iters = "sc_iters sc" and runs = 3, OF py jit inv conjunct1[OF n] conjunct2[OF n] rw r same']
  obtain cost where cost: "snd (run_benchmark PythonNumPy pyfun njit env func (sc_iters sc) 3 (scenario_args sc) (rs_warm inp) (py_streams inp)) = Inr cost"
    "0 \<le> cost" using rb by auto
  have d: "py_mean (py_durations inp) = Inr (sum_list (py_durations inp) / 3)"
          "py_mean (rs_durations inp) = Inr (sum_list (rs_durations inp) / 3)"
    using ok by (simp_all add: scenario_inputs_ok_def py_mean_three)
  obtain env1 pr where p: "run_benchmark PythonNumPy pyfun njit env func (sc_iters sc) 3 (scenario_args sc)
                             (rs_warm inp) (py_streams inp) = (env1, pr)" by fastforce
  obtain env2 rr where q: "run_benchmark RustWalitool pyfun njit env func (sc_iters sc) 3 (scenario_args sc)
                             (rs_warm inp) (rs_streams inp) = (env2, rr)" by fastforce
  have "env1 = env" "pr = Inr cost" "rr = Inr cost" "env_inv njit env2" using rb cost p q by auto
  then show ?thesis using p q d by (simp add: scenario_row_def py_div_def Let_def) (use cost(2) in blast)
qed

lemma ex_less_two: "(\<exists>k < 2. P k) \<longleftrightarrow> P 0 \<or> P (1::nat)"
  by (auto simp: numeral_2_eq_2 less_Suc_eq)

text \<open>
  C28 (de_benchmark.py lines 65-84).  On the script's two scenarios, with a faithful-or-failing
  compiler and the same draws for both engines, the table's Rust cost equals its NumPy
  cost in every row and is non-negative; the numba cache stays consistent from one
  scenario to the next.  The unguarded ratio of line 81 makes the script raise
  \<open>ZeroDivisionError\<close> exactly when some scenario's mean Rust time is 0, where
  benchmark.py guards the same ratio.
\<close>

theorem de_main_engines_agree:
  assumes py: "pyfun func = rastrigin" and jit: "\<forall>j. njit func = Inr j \<longrightarrow> j = rastrigin"
    and inv: "env_inv njit env"
    and ok: "\<forall>k < length scenarios. scenario_inputs_ok (scenarios ! k) (inputs k)"
    and same: "\<forall>k < length scenarios. \<forall>j < 3. fst (py_streams (inputs k) j) = fst (rs_streams (inputs k) j)"
  shows "(de_main pyfun njit env func inputs = Inl ZeroDivisionError \<longleftrightarrow>
            (\<exists>k < length scenarios. sum_list (rs_durations (inputs k)) = 0)) \<and>
         ((\<forall>k < length scenarios. sum_list (rs_durations (inputs k)) \<noteq> 0) \<longrightarrow>
            (\<exists>env' r0 r1. de_main pyfun njit env func inputs = Inr (env', [r0, r1]) \<and>
               row_rs_cost r0 = row_py_cost r0 \<and> row_rs_cost r1 = row_py_cost r1 \<and>
               0 \<le> row_py_cost r0 \<and> 0 \<le> row_py_cost r1 \<and> env_inv njit env'))"
proof -
  have L: "length scenarios = 2" by (simp add: scenarios_def)
  have s0: "4 \<le> sc_pop (scenarios ! 0)" "1 \<le> sc_dim (scenarios ! 0)"
    and s1: "4 \<le> sc_pop (scenarios ! 1)" "1 \<le> sc_dim (scenarios ! 1)"
    using scenarios_shape[of 0] scenarios_shape[of 1] L by simp_all
  have ok0: "scenario_inputs_ok (scenarios ! 0) (inputs 0)" and ok1: "scenario_inputs_ok (scenarios ! 1) (inputs 1)"
    and same0: "\<forall>j < 3. fst (py_streams (inputs 0) j) = fst (rs_streams (inputs 0) j)"
    and same1: "\<forall>j < 3. fst (py_streams (inputs 1) j) = fst (rs_streams (inputs 1) j)"
    using ok same L by simp_all
  obtain env1 q0 where p0: "scenario_row pyfun njit env func (scenarios ! 0) (inputs 0) = (env1, q0)" by fastforce
  note R0 = scenario_row_rastrigin[where pyfun = pyfun and func = func and njit = njit, OF py jit inv s0 ok0 same0]
  have inv1: "env_inv njit env1" using R0 p0 by simp
  obtain env2 q1 where p1: "scenario_row pyfun njit env1 func (scenarios ! 1) (inputs 1) = (env2, q1)" by fastforce
  note R1 = scenario_row_rastrigin[where pyfun = pyfun and func = func and njit = njit, OF py jit inv1 s1 ok1 same1]
  obtain c0 where c0: "0 \<le> c0" "q0 = (if sum_list (rs_durations (inputs 0)) = 0 then Inl ZeroDivisionError
      else Inr \<lparr>row_py_time = sum_list (py_durations (inputs 0)) / 3, row_py_cost = c0,
                row_rs_time = sum_list (rs_durations (inputs 0)) / 3,
                row_speedup = (sum_list (py_durations (inputs 0)) / 3) / (sum_list (rs_durations (inputs 0)) / 3),
                row_rs_cost = c0\<rparr>)" using R0 p0 by auto
  obtain c1 where c1: "0 \<le> c1" "q1 = (if sum_list (rs_durations (inputs 1)) = 0 then Inl ZeroDivisionError
      else Inr \<lparr>row_py_time = sum_list (py_durations (inputs 1)) / 3, row_py_cost = c1,
                row_rs_time = sum_list (rs_durations (inputs 1)) / 3,
                row_speedup = (sum_list (py_durations (inputs 1)) / 3) / (sum_list (rs_durations (inputs 1)) / 3),
                row_rs_cost = c1\<rparr>)" using R1 p1 by auto
  have inv2: "env_inv njit env2" using R1 p1 by simp
  have m: "de_main pyfun njit env func inputs =
           sbind q0 (\<lambda>row0. sbind q1 (\<lambda>row1. Inr (env2, [row0, row1])))"
    using p0 p1 by (cases q0; cases q1) (simp_all add: de_main_def L upt_rec)
  show ?thesis using m c0 c1 inv2 L by (simp add: ex_less_two)
qed

theorem de_main_engines_agree_witness:
  "\<not> (de_main (\<lambda>_. rastrigin) (\<lambda>_. Inr rastrigin) \<lparr>has_numba = True, numba_cache = Map.empty, natives = Map.empty, next_addr = 0\<rparr> (0::nat) (\<lambda>k. \<lparr>py_streams = (\<lambda>_. (\<lparr>init_rand = replicate (sc_pop (scenarios ! k)) (replicate (sc_dim (scenarios ! k)) (1/2)), gen_rand = (\<lambda>_. \<lparr>idxs = replicate (sc_pop (scenarios ! k)) (0, 1, 2), cross_rand = replicate (sc_pop (scenarios ! k)) (replicate (sc_dim (scenarios ! k)) (1/2))\<rparr>)\<rparr>, \<lparr>init_rand = replicate (sc_pop (scenarios ! k)) (replicate (sc_dim (scenarios ! k)) (1/2)), gen_rand = (\<lambda>_. \<lparr>idxs = replicate (sc_pop (scenarios ! k)) (0, 1, 2), cross_rand = replicate (sc_pop (scenarios ! k)) (replicate (sc_dim (scenarios ! k)) (1/2))\<rparr>)\<rparr>)), rs_warm = (\<lparr>init_rand = replicate 10 [1/2, 1/2], gen_rand = (\<lambda>_. \<lparr>idxs = replicate 10 (0, 0, 0), cross_rand = replicate 10 [1/2, 1/2]\<rparr>)\<rparr>, \<lparr>init_rand = replicate 10 [1/2, 1/2], gen_rand = (\<lambda>_. \<lparr>idxs = replicate 10 (0, 0, 0), cross_rand = replicate 10 [1/2, 1/2]\<rparr>)\<rparr>), rs_streams = (\<lambda>_. (\<lparr>init_rand = replicate (sc_pop (scenarios ! k)) (replicate (sc_dim (scenarios ! k)) (1/2)), gen_rand = (\<lambda>_. \<lparr>idxs = replicate (sc_pop (scenarios ! k)) (0, 1, 2), cross_rand = replicate (sc_pop (scenarios ! k)) (replicate (sc_dim (scenarios ! k)) (1/2))\<rparr>)\<rparr>, \<lparr>init_rand = replicate (sc_pop (scenarios ! k)) (replicate (sc_dim (scenarios ! k)) (1/2)), gen_rand = (\<lambda>_. \<lparr>idxs = replicate (sc_pop (scenarios ! k)) (0, 1, 2), cross_rand = replicate (sc_pop (scenarios ! k)) (replicate (sc_dim (scenarios ! k)) (1/2))\<rparr>)\<rparr>)), py_durations = [2, 2, 2], rs_durations = [1, 1, 1]\<rparr>) = Inl ZeroDivisionError) \<and>
   (\<exists>env' r0 r1. de_main (\<lambda>_. rastrigin) (\<lambda>_. Inr rastrigin) \<lparr>has_numba = True, numba_cache = Map.empty, natives = Map.empty, next_addr = 0\<rparr> (0::nat) (\<lambda>k. \<lparr>py_streams = (\<lambda>_. (\<lparr>init_rand = replicate (sc_pop (scenarios ! k)) (replicate (sc_dim (scenarios ! k)) (1/2)), gen_rand = (\<lambda>_. \<lparr>idxs = replicate (sc_pop (scenarios ! k)) (0, 1, 2), cross_rand = replicate (sc_pop (scenarios ! k)) (replicate (sc_dim (scenarios ! k)) (1/2))\<rparr>)\<rparr>, \<lparr>init_rand = replicate (sc_pop (scenarios ! k)) (replicate (sc_dim (scenarios ! k)) (1/2)), gen_rand = (\<lambda>_. \<lparr>idxs = replicate (sc_pop (scenarios ! k)) (0, 1, 2), cross_rand = replicate (sc_pop (scenarios ! k)) (replicate (sc_dim (scenarios ! k)) (1/2))\<rparr>)\<rparr>)), rs_warm = (\<lparr>init_rand = replicate 10 [1/2, 1/2], gen_rand = (\<lambda>_. \<lparr>idxs = replicate 10 (0, 0, 0), cross_rand = replicate 10 [1/2, 1/2]\<rparr>)\<rparr>, \<lparr>init_rand = replicate 10 [1/2, 1/2], gen_rand = (\<lambda>_. \<lparr>idxs = replicate 10 (0, 0, 0), cross_rand = replicate 10 [1/2, 1/2]\<rparr>)\<rparr>), rs_streams = (\<lambda>_. (\<lparr>init_rand = replicate (sc_pop (scenarios ! k)) (replicate (sc_dim (scenarios ! k)) (1/2)), gen_rand = (\<lambda>_. \<lparr>idxs = replicate (sc_pop (scenarios ! k)) (0, 1, 2), cross_rand = replicate (sc_pop (scenarios ! k)) (replicate (sc_dim (scenarios ! k)) (1/2))\<rparr>)\<rparr>, \<lparr>init_rand = replicate (sc_pop (scenarios ! k)) (replicate (sc_dim (scenarios ! k)) (1/2)), gen_rand = (\<lambda>_. \<lparr>idxs = replicate (sc_pop (scenarios ! k)) (0, 1, 2), cross_rand = replicate (sc_pop (scenarios ! k)) (replicate (sc_dim (scenarios ! k)) (1/2))\<rparr>)\<rparr>)), py_durations = [2, 2, 2], rs_durations = [1, 1, 1]\<rparr>) = Inr (env', [r0, r1]) \<and>
      row_rs_cost r0 = row_py_cost r0 \<and> row_rs_cost r1 = row_py_cost r1 \<and>
      0 \<le> row_py_cost r0 \<and> 0 \<le> row_py_cost r1 \<and> env_inv (\<lambda>_::nat. Inr rastrigin) env')"
proof -
  have inv: "env_inv (\<lambda>_::nat. Inr rastrigin) \<lparr>has_numba = True, numba_cache = Map.empty, natives = Map.empty, next_addr = 0\<rparr>" by (simp add: env_inv_def)
  have ok: "\<forall>k < length scenarios. scenario_inputs_ok (scenarios ! k) ((\<lambda>k. \<lparr>py_streams = (\<lambda>_. (\<lparr>init_rand = replicate (sc_pop (scenarios ! k)) (replicate (sc_dim (scenarios ! k)) (1/2)), gen_rand = (\<lambda>_. \<lparr>idxs = replicate (sc_pop (scenarios ! k)) (0, 1, 2), cross_rand = replicate (sc_pop (scenarios ! k)) (replicate (sc_dim (scenarios ! k)) (1/2))\<rparr>)\<rparr>, \<lparr>init_rand = replicate (sc_pop (scenarios ! k)) (replicate (sc_dim (scenarios ! k)) (1/2)), gen_rand = (\<lambda>_. \<lparr>idxs = replicate (sc_pop (scenarios ! k)) (0, 1, 2), cross_rand = replicate (sc_pop (scenarios ! k)) (replicate (sc_dim (scenarios ! k)) (1/2))\<rparr>)\<rparr>)), rs_warm = (\<lparr>init_rand = replicate 10 [1/2, 1/2], gen_rand = (\<lambda>_. \<lparr>idxs = replicate 10 (0, 0, 0), cross_rand = replicate 10 [1/2, 1/2]\<rparr>)\<rparr>, \<lparr>init_rand = replicate 10 [1/2, 1/2], gen_rand = (\<lambda>_. \<lparr>idxs = replicate 10 (0, 0, 0), cross_rand = replicate 10 [1/2, 1/2]\<rparr>)\<rparr>), rs_streams = (\<lambda>_. (\<lparr>init_rand = replicate (sc_pop (scenarios ! k)) (replicate (sc_dim (scenarios ! k)) (1/2)), gen_rand = (\<lambda>_. \<lparr>idxs = replicate (sc_pop (scenarios ! k)) (0, 1, 2), cross_rand = replicate (sc_pop (scenarios ! k)) (replicate (sc_dim (scenarios ! k)) (1/2))\<rparr>)\<rparr>, \<lparr>init_rand = replicate (sc_pop (scenarios ! k)) (replicate (sc_dim (scenarios ! k)) (1/2)), gen_rand = (\<lambda>_. \<lparr>idxs = replicate (sc_pop (scenarios ! k)) (0, 1, 2), cross_rand = replicate (sc_pop (scenarios ! k)) (replicate (sc_dim (scenarios ! k)) (1/2))\<rparr>)\<rparr>)), py_durations = [2, 2, 2], rs_durations = [1, 1, 1]\<rparr>) k)"
  proof (intro allI impI)
    fix k assume "k < length scenarios"
    then have "4 \<le> sc_pop (scenarios ! k)" "1 \<le> sc_dim (scenarios ! k)" using scenarios_shape[of k] by simp_all
    then show "scenario_inputs_ok (scenarios ! k) ((\<lambda>k. \<lparr>py_streams = (\<lambda>_. (\<lparr>init_rand = replicate (sc_pop (scenarios ! k)) (replicate (sc_dim (scenarios ! k)) (1/2)), gen_rand = (\<lambda>_. \<lparr>idxs = replicate (sc_pop (scenarios ! k)) (0, 1, 2), cross_rand = replicate (sc_pop (scenarios ! k)) (replicate (sc_dim (scenarios ! k)) (1/2))\<rparr>)\<rparr>, \<lparr>init_rand = replicate (sc_pop (scenarios ! k)) (replicate (sc_dim (scenarios ! k)) (1/2)), gen_rand = (\<lambda>_. \<lparr>idxs = replicate (sc_pop (scenarios ! k)) (0, 1, 2), cross_rand = replicate (sc_pop (scenarios ! k)) (replicate (sc_dim (scenarios ! k)) (1/2))\<rparr>)\<rparr>)), rs_warm = (\<lparr>init_rand = replicate 10 [1/2, 1/2], gen_rand = (\<lambda>_. \<lparr>idxs = replicate 10 (0, 0, 0), cross_rand = replicate 10 [1/2, 1/2]\<rparr>)\<rparr>, \<lparr>init_rand = replicate 10 [1/2, 1/2], gen_rand = (\<lambda>_. \<lparr>idxs = replicate 10 (0, 0, 0), cross_rand = replicate 10 [1/2, 1/2]\<rparr>)\<rparr>), rs_streams = (\<lambda>_. (\<lparr>init_rand = replicate (sc_pop (scenarios ! k)) (replicate (sc_dim (scenarios ! k)) (1/2)), gen_rand = (\<lambda>_. \<lparr>idxs = replicate (sc_pop (scenarios ! k)) (0, 1, 2), cross_rand = replicate (sc_pop (scenarios ! k)) (replicate (sc_dim (scenarios ! k)) (1/2))\<rparr>)\<rparr>, \<lparr>init_rand = replicate (sc_pop (scenarios ! k)) (replicate (sc_dim (scenarios ! k)) (1/2)), gen_rand = (\<lambda>_. \<lparr>idxs = replicate (sc_pop (scenarios ! k)) (0, 1, 2), cross_rand = replicate (sc_pop (scenarios ! k)) (replicate (sc_dim (scenarios ! k)) (1/2))\<rparr>)\<rparr>)), py_durations = [2, 2, 2], rs_durations = [1, 1, 1]\<rparr>) k)"
      by (simp add: scenario_inputs_ok_def de_wf_eval bench_cfg_def scenario_args_def warmup_args_def
          NumpyDE_init_def list_all_iff)
  qed
  show ?thesis
    using de_main_engines_agree[where pyfun = "\<lambda>_. rastrigin" and func = 0 and njit = "\<lambda>_. Inr rastrigin",
        OF refl _ inv ok] by (simp add: ex_less_two scenarios_def)
qed

end
