(* ===== verification/Spec_Native.thy ===== *)
theory Spec_Native
  imports EWM_Benchmark
begin

text \<open>
  The native functions \<open>walitool.entropy_weight\<close> and \<open>walitool.topsis\<close> of the
  extension \<open>walitool._walitool\<close>, whose source is not in the repository, modelled from
  the spec: Mode A and Mode B of the entropy weights (section 4.6) and TOPSIS (section
  4.7) with the error taxonomy of section 7 (\<open>ShapeError\<close> for a direction or weight
  vector of the wrong length, \<open>DomainError\<close> for at most one row) and an explicit score
  \<open>fallback\<close> for the degenerate rows that section 9 asks for.  Directions are the spec's
  enumeration; the Python callers pass integer indicator types, 1 for a benefit column.

  The lemmas relate the repository's numpy references to this specification: the
  benchmark's \<open>numpy_ewm\<close> implements Mode A, the test's \<open>numpy_ewm\<close> implements Mode B
  away from all-zero columns, and \<open>numpy_topsis\<close> implements TOPSIS except on degenerate
  rows.
\<close>

datatype direction = Benefit | Cost

text \<open>benchmark.py lines 19 and 56: \<open>indicator_types[j] == 1\<close> selects a benefit column.\<close>

definition direction_of :: "int \<Rightarrow> direction" where
  "direction_of t = (if t = 1 then Benefit else Cost)"

subsection \<open>Entropy weights (spec section 4.6)\<close>

text \<open>Mode A, one column: min-max normalisation by direction, a constant column becomes 1.0.\<close>

definition spec_normalize :: "direction \<Rightarrow> vec \<Rightarrow> vec" where
  "spec_normalize d col =
     (let mn = np_min col; mx = np_max col; range = mx - mn in
      if range = 0 then map (\<lambda>_. 1) col
      else (case d of Benefit \<Rightarrow> map (\<lambda>x. (x - mn) / range) col
                    | Cost \<Rightarrow> map (\<lambda>x. (mx - x) / range) col))"

text \<open>Mode B, one column of a matrix with \<open>n\<close> rows: a zero column sum gives entropy 1.0.\<close>

definition spec_entropy :: "nat \<Rightarrow> vec \<Rightarrow> real" where
  "spec_entropy n col =
     (let colSum = sum_list col in
      if colSum = 0 then 1
      else - (1 / ln (real n)) * sum_list (map (\<lambda>p. p * ln p) (filter (\<lambda>p. 0 < p) (map (\<lambda>x. x / colSum) col))))"

text \<open>Divergences \<open>1 - entropy\<close>, normalised; uniform weights when they sum to 0.\<close>

definition spec_weights :: "real list \<Rightarrow> vec" where
  "spec_weights entropies =
     (let divergence = map (\<lambda>e. 1 - e) entropies; total = sum_list divergence; m = length entropies in
      if total = 0 then replicate m (1 / real m) else map (\<lambda>d. d / total) divergence)"

definition spec_ewm_cols :: "nat \<Rightarrow> vec list \<Rightarrow> py_error + vec" where
  "spec_ewm_cols n cols =
     (if n \<le> 1 then Inl DomainError else Inr (spec_weights (map (spec_entropy n) cols)))"

definition spec_ewm_B :: "mat \<Rightarrow> py_error + vec" where
  "spec_ewm_B m = spec_ewm_cols (length (rows m)) (map (column m) [0..<ncols m])"

definition spec_ewm_A :: "mat \<Rightarrow> direction list \<Rightarrow> py_error + vec" where
  "spec_ewm_A m dirs =
     (if length dirs \<noteq> ncols m then Inl ShapeError
      else spec_ewm_cols (length (rows m)) (map2 spec_normalize dirs (map (column m) [0..<ncols m])))"

subsection \<open>TOPSIS (spec section 4.7)\<close>

definition spec_best :: "direction \<Rightarrow> vec \<Rightarrow> real" where
  "spec_best d col = (case d of Benefit \<Rightarrow> np_max col | Cost \<Rightarrow> np_min col)"

definition spec_worst :: "direction \<Rightarrow> vec \<Rightarrow> real" where
  "spec_worst d col = (case d of Benefit \<Rightarrow> np_min col | Cost \<Rightarrow> np_max col)"

definition spec_dist :: "nat \<Rightarrow> vec \<Rightarrow> vec \<Rightarrow> real" where
  "spec_dist n v ideal = sqrt (sum_list (map (\<lambda>j. (v ! j - ideal ! j)\<^sup>2) [0..<n]))"

definition spec_closeness :: "real \<Rightarrow> real \<Rightarrow> real \<Rightarrow> real" where
  "spec_closeness fallback distBest distWorst =
     (if distBest + distWorst = 0 then fallback else distWorst / (distBest + distWorst))"

definition spec_topsis :: "real \<Rightarrow> mat \<Rightarrow> vec \<Rightarrow> direction list \<Rightarrow> py_error + vec" where
  "spec_topsis fallback m weights dirs =
     (if length weights \<noteq> ncols m \<or> length dirs \<noteq> ncols m then Inl ShapeError
      else
        let n = ncols m;
            norm = map (\<lambda>j. sqrt (sum_list (map (\<lambda>x. x\<^sup>2) (column m j)))) [0..<n];
            V = map (\<lambda>r. map (\<lambda>j. r ! j / norm ! j * weights ! j) [0..<n]) (rows m);
            idealBest = map (\<lambda>j. spec_best (dirs ! j) (map (\<lambda>v. v ! j) V)) [0..<n];
            idealWorst = map (\<lambda>j. spec_worst (dirs ! j) (map (\<lambda>v. v ! j) V)) [0..<n]
        in Inr (map (\<lambda>v. spec_closeness fallback (spec_dist n v idealBest) (spec_dist n v idealWorst)) V))"

subsection \<open>Facts\<close>

lemma map2_upt:
  "length xs = n \<Longrightarrow> length ys = n \<Longrightarrow> map2 f xs ys = map (\<lambda>j. f (xs ! j) (ys ! j)) [0..<n]"
  by (rule nth_equalityI) auto

lemma column_ne: "rows m \<noteq> [] \<Longrightarrow> column m j \<noteq> []"
  by (simp add: column_def)

lemma ewm_normalize_col_spec:
  assumes "col \<noteq> []" and "j < length t"
  shows "ewm_normalize_col t j col = Inr (spec_normalize (direction_of (t ! j)) col)"
  using assms by (simp add: ewm_normalize_col_def spec_normalize_def direction_of_def Let_def map_replicate_const)

lemma col_entropy_spec: "col_entropy (1 / ln (real n)) = spec_entropy n"
  by (rule ext) (simp add: col_entropy_def spec_entropy_def Let_def)

lemma spec_ewm_A_cols:
  assumes "length dirs = ncols m"
  shows "spec_ewm_A m dirs =
         spec_ewm_cols (length (rows m)) (map (\<lambda>j. spec_normalize (dirs ! j) (column m j)) [0..<ncols m])"
proof -
  have "map2 spec_normalize dirs (map (column m) [0..<ncols m]) =
        map (\<lambda>j. spec_normalize (dirs ! j) (column m j)) [0..<ncols m]"
    by (rule nth_equalityI) (simp_all add: assms)
  then show ?thesis using assms by (simp add: spec_ewm_A_def)
qed

lemma spec_entropy_plogp:
  "sum_list col \<noteq> 0 \<Longrightarrow> spec_entropy n col = - (1 / ln (real n)) * plogp_masked (map (\<lambda>x. x / sum_list col) col)"
  by (simp add: spec_entropy_def Let_def plogp_filter)

lemma spec_ewm_A_directions:
  assumes "length t = ncols m"
  shows "spec_ewm_A m (map direction_of t) =
         spec_ewm_cols (length (rows m)) (map (\<lambda>j. spec_normalize (direction_of (t ! j)) (column m j)) [0..<ncols m])"
proof -
  have eq: "map (\<lambda>j. spec_normalize (map direction_of t ! j) (column m j)) [0..<ncols m] =
            map (\<lambda>j. spec_normalize (direction_of (t ! j)) (column m j)) [0..<ncols m]"
    by (rule nth_equalityI) (simp_all add: assms)
  have l: "length (map direction_of t) = ncols m" using assms by simp
  show ?thesis by (simp only: spec_ewm_A_cols[OF l] eq)
qed

lemma map3_upt:
  "length xs = n \<Longrightarrow> length ys = n \<Longrightarrow> length zs = n \<Longrightarrow>
   map3 f xs ys zs = map (\<lambda>j. f (xs ! j) (ys ! j) (zs ! j)) [0..<n]"
  by (rule nth_equalityI) (auto simp: map3_def)

lemma map2_map_same: "map2 f (map g xs) (map h xs) = map (\<lambda>x. f (g x) (h x)) xs"
  by (induction xs) simp_all

lemma weighted_norm_spec:
  assumes "wf_mat data" and "length w = ncols data"
  shows "weighted_norm data w =
         map (\<lambda>r. map (\<lambda>j. r ! j / norm_factors data ! j * w ! j) [0..<ncols data]) (rows data)"
  using assms by (auto simp: weighted_norm_def wf_mat_def map3_upt)

lemma euclid_spec: "length r = n \<Longrightarrow> length ideal = n \<Longrightarrow> euclid r ideal = spec_dist n r ideal"
  by (simp add: euclid_def spec_dist_def map2_upt)

lemma ideal_cols_spec:
  assumes "wn \<noteq> []" and "length t = n"
  shows "mapM (\<lambda>j. ideal_col t j (map (\<lambda>r. r ! j) wn)) [0..<n] =
         Inr (map (\<lambda>j. (spec_best (direction_of (t ! j)) (map (\<lambda>r. r ! j) wn),
                        spec_worst (direction_of (t ! j)) (map (\<lambda>r. r ! j) wn))) [0..<n])"
  using assms by (intro mapM_Inr_map) (simp add: ideal_col_def spec_best_def spec_worst_def direction_of_def)

text \<open>
  C10 (spec section 4.6, Mode A).  The benchmark's \<open>numpy_ewm\<close> implements the spec's
  Mode A on every matrix with at least two rows and an indicator type per column: the
  same min-max normalisation by direction, the same degenerate-column entropy, the same
  uniform fallback, hence exactly the same weights.
\<close>

theorem numpy_ewm_A_refines_spec:
  assumes n: "2 \<le> length (rows data)" and t: "length t = ncols data"
  shows "numpy_ewm_A data t = spec_ewm_A data (map direction_of t)"
proof -
  have ne: "rows data \<noteq> []" using n by auto
  have N: "mapM (\<lambda>j. ewm_normalize_col t j (column data j)) [0..<ncols data] =
           Inr (map (\<lambda>j. spec_normalize (direction_of (t ! j)) (column data j)) [0..<ncols data])"
    by (rule mapM_Inr_map) (simp add: ewm_normalize_col_spec column_ne[OF ne] t)
  show ?thesis
    using n by (simp add: numpy_ewm_A_def N spec_ewm_A_directions[OF t] spec_ewm_cols_def
        spec_weights_def col_entropy_spec Let_def comp_assoc)
qed

text \<open>
  C14 (spec section 4.6, Mode B; test_entropy.py \<open>test_accuracy\<close>).  The test's
  reference \<open>numpy_ewm\<close> computes the spec's Mode B on every matrix with at least two
  rows and no all-zero column sum, so the test compares the native function with the
  specification there; on a zero column sum the two differ (C11).
\<close>

theorem numpy_ewm_B_refines_spec:
  assumes n: "2 \<le> length (rows data)" and s: "\<forall>j < ncols data. sum_list (column data j) \<noteq> 0"
  shows "numpy_ewm_B data = spec_ewm_B data"
proof -
  have E: "map (\<lambda>pc. - (1 / ln (real (length (rows data)))) * plogp_masked pc) (p_matrix data) =
           map (spec_entropy (length (rows data))) (map (column data) [0..<ncols data])"
    using s by (auto simp: p_matrix_def spec_entropy_plogp Let_def)
  show ?thesis
    unfolding numpy_ewm_B_def Let_def E
    using n by (simp add: spec_ewm_B_def spec_ewm_cols_def spec_weights_def Let_def)
qed

text \<open>
  C20 (spec sections 4.7 and 9).  On a rectangular matrix with rows, a weight and an
  indicator type per column, \<open>numpy_topsis\<close> computes the spec's TOPSIS: both compute
  the same distance vectors, and the scores coincide on every row where
  \<open>distBest + distWorst \<noteq> 0\<close>; on the degenerate rows the spec returns the chosen
  fallback where the code divides 0 by 0.
\<close>

theorem numpy_topsis_refines_spec:
  assumes wf: "wf_mat data" and ne: "rows data \<noteq> []"
    and w: "length weights = ncols data" and t: "length t = ncols data"
  shows "\<exists>db dw. topsis_distances data weights t = Inr (db, dw) \<and>
           numpy_topsis data weights t = Inr (map2 (\<lambda>b d. d / (b + d)) db dw) \<and>
           spec_topsis fallback data weights (map direction_of t) = Inr (map2 (spec_closeness fallback) db dw)"
proof -
  let ?n = "ncols data"
  let ?wn = "weighted_norm data weights"
  let ?best = "map (\<lambda>j. spec_best (direction_of (t ! j)) (map (\<lambda>r. r ! j) ?wn)) [0..<?n]"
  let ?worst = "map (\<lambda>j. spec_worst (direction_of (t ! j)) (map (\<lambda>r. r ! j) ?wn)) [0..<?n]"
  have wn_ne: "?wn \<noteq> []" using ne by (simp add: weighted_norm_def)
  note L = weighted_norm_rows[OF wf w]
  have I: "mapM (\<lambda>j. ideal_col t j (map (\<lambda>r. r ! j) ?wn)) [0..<?n] =
           Inr (map (\<lambda>j. (spec_best (direction_of (t ! j)) (map (\<lambda>r. r ! j) ?wn),
                          spec_worst (direction_of (t ! j)) (map (\<lambda>r. r ! j) ?wn))) [0..<?n])"
    using ideal_cols_spec[OF wn_ne t] .
  have td: "topsis_distances data weights t = Inr (map (\<lambda>r. euclid r ?best) ?wn, map (\<lambda>r. euclid r ?worst) ?wn)"
    using w I by (simp add: topsis_distances_def np_bcast_Inr Let_def comp_def)
  have sp: "spec_topsis fallback data weights (map direction_of t) =
            Inr (map (\<lambda>v. spec_closeness fallback (spec_dist ?n v ?best) (spec_dist ?n v ?worst)) ?wn)"
  proof -
    have eqs: "map (\<lambda>j. spec_best (map direction_of t ! j) (map (\<lambda>v. v ! j) ?wn)) [0..<?n] = ?best"
              "map (\<lambda>j. spec_worst (map direction_of t ! j) (map (\<lambda>v. v ! j) ?wn)) [0..<?n] = ?worst"
      by (rule nth_equalityI; simp add: t)+
    show ?thesis
      unfolding spec_topsis_def Let_def norm_factors_def[symmetric] weighted_norm_spec[OF wf w, symmetric]
      by (simp only: eqs) (simp add: w t)
  qed
  have "map (\<lambda>v. spec_closeness fallback (spec_dist ?n v ?best) (spec_dist ?n v ?worst)) ?wn =
        map2 (spec_closeness fallback) (map (\<lambda>r. euclid r ?best) ?wn) (map (\<lambda>r. euclid r ?worst) ?wn)"
    unfolding map2_map_same using L(2) by (auto simp: euclid_spec)
  then show ?thesis using td sp by (simp add: numpy_topsis_def)
qed

theorem numpy_ewm_A_refines_spec_witness:
  "numpy_ewm_A \<lparr>ncols = 3, rows = [[10, 20, 30], [15, 25, 35], [12, 18, 28], [9, 21, 31]]\<rparr> [1, 0, 1] =
   spec_ewm_A \<lparr>ncols = 3, rows = [[10, 20, 30], [15, 25, 35], [12, 18, 28], [9, 21, 31]]\<rparr> [Benefit, Cost, Benefit]"
  using numpy_ewm_A_refines_spec[of "\<lparr>ncols = 3, rows = [[10, 20, 30], [15, 25, 35], [12, 18, 28], [9, 21, 31]]\<rparr>" "[1, 0, 1]"]
  by (simp add: direction_of_def)

theorem numpy_ewm_B_refines_spec_witness:
  "numpy_ewm_B \<lparr>ncols = 3, rows = [[10, 20, 30], [15, 25, 35], [12, 18, 28], [9, 21, 31]]\<rparr> =
   spec_ewm_B \<lparr>ncols = 3, rows = [[10, 20, 30], [15, 25, 35], [12, 18, 28], [9, 21, 31]]\<rparr>"
  using numpy_ewm_B_refines_spec[of "\<lparr>ncols = 3, rows = [[10, 20, 30], [15, 25, 35], [12, 18, 28], [9, 21, 31]]\<rparr>"]
  by (simp add: column_def less_Suc_eq numeral_eq_Suc)

theorem numpy_topsis_refines_spec_witness:
  "\<exists>db dw. topsis_distances \<lparr>ncols = 3, rows = [[10, 20, 30], [15, 25, 35], [12, 18, 28], [9, 21, 31]]\<rparr> [1/3, 1/3, 1/3] [1, 0, 1] = Inr (db, dw) \<and>
     numpy_topsis \<lparr>ncols = 3, rows = [[10, 20, 30], [15, 25, 35], [12, 18, 28], [9, 21, 31]]\<rparr> [1/3, 1/3, 1/3] [1, 0, 1] = Inr (map2 (\<lambda>b d. d / (b + d)) db dw) \<and>
     spec_topsis (1/2) \<lparr>ncols = 3, rows = [[10, 20, 30], [15, 25, 35], [12, 18, 28], [9, 21, 31]]\<rparr> [1/3, 1/3, 1/3] [Benefit, Cost, Benefit] = Inr (map2 (spec_closeness (1/2)) db dw)"
  using numpy_topsis_refines_spec[of "\<lparr>ncols = 3, rows = [[10, 20, 30], [15, 25, 35], [12, 18, 28], [9, 21, 31]]\<rparr>" "[1/3, 1/3, 1/3]" "[1, 0, 1]" "1/2"]
  by (simp add: wf_mat_def direction_of_def)


end
