(* ===== verification/Spec2Isabelle.thy ===== *)
theory Spec2Isabelle
  imports Rastrigin Entropy Topsis Wrapper Entropy_Loops Benchmarks EWM_Benchmark DE_Scenarios Spec_Native
begin

text \<open>
  \<^bold>\<open>A verification development for walitool.\<close>

  walitool offers two numerical kernels: a differential-evolution optimizer (DE) and
  an entropy-weight (EWM) plus TOPSIS decision pipeline.  Their fast core is a native
  extension (\<open>walitool._walitool\<close>: \<open>_DE\<close>, \<open>entropy_weight\<close>, \<open>topsis\<close>) whose source is
  not in the repository.  The repository holds the Python around it:
  \<^item> src/python/walitool/__init__.py: the \<open>DE\<close> wrapper (defaults, numba compilation
    with a cache keyed by the Python function, and the fallback to the Python callback);
  \<^item> src/performance/de_benchmark.py: \<open>NumpyDE\<close>, the numpy reference implementation of
    the DE generation loop, the Rastrigin objective, and the driver that benchmarks it
    against \<open>walitool.DE\<close> (\<open>run_benchmark\<close> and the scenario table);
  \<^item> src/performance/benchmark.py: \<open>numpy_ewm\<close> (direction-aware entropy weights, spec
    Mode A), \<open>numpy_topsis\<close>, and the driver that times the pipeline chaining them
    against the native one (\<open>benchmark\<close>, \<open>main\<close>);
  \<^item> src/performance/test.py: the README example of \<open>walitool.DE\<close>;
  \<^item> src/tests/test_entropy.py: \<open>numpy_ewm\<close> (raw-proportion entropy weights, spec
    Mode B), the reference the native \<open>entropy_weight_method\<close> is tested against.
  The optimizer and the pipeline share no state.  Inside the optimizer, the wrapper's
  \<open>optimize\<close> chooses an evaluator (Python callback or native function pointer) and hands
  it to the core, whose generation loop calls it once per generation on the whole trial
  matrix.

  \<^bold>\<open>Modelling conventions\<close> (theory \<open>Prelude\<close>).  float64 is idealised as \<open>real\<close>:
  rounding is not modelled, and a division whose divisor is zero, which IEEE turns
  into \<open>inf\<close> or \<open>NaN\<close>, is \<open>x / 0 = 0\<close> in HOL; every theorem below either keeps
  divisors non-zero by hypothesis, states when they vanish, or concerns a case where
  IEEE's result and HOL's agree (the entropy's \<open>p > 0\<close> mask drops a \<open>NaN\<close> proportion
  as it drops a 0).  Exceptions are values of \<open>py_error\<close>; a computation that
  may raise returns \<open>py_error + 'a\<close>, sequenced by \<open>sbind\<close>, \<open>mapM\<close> and \<open>foldM\<close>.
  numpy's \<open>min\<close>, \<open>max\<close>, \<open>argmin\<close> (first index of the minimum) and \<open>clip\<close> are
  \<open>np_min\<close>, \<open>np_max\<close>, \<open>np_argmin\<close>, \<open>np_clip\<close>; a 2-D array is a \<open>mat\<close> (column count
  and rows) or a \<open>matrix\<close> (list of rows).  Randomness is explicit: \<open>np.random.rand\<close> and
  \<open>np.random.randint\<close> are replaced by the draws they return, held in \<open>de_rng\<close>
  (initial population) and \<open>gen_draw\<close> (one generation), with their contract
  (\<open>unit_draws\<close>, \<open>wf_draw\<close>) as hypotheses; so are the readings of
  \<open>time.perf_counter\<close> in the drivers.  Python's float division raises on a zero divisor:
  where the drivers divide times, \<open>py_div\<close> returns \<open>ZeroDivisionError\<close>.  No loop needs fuel: the DE loop is a
  \<open>foldM\<close> over \<open>[0..<iters]\<close> (exactly \<open>iters\<close> generations or the first exception),
  and the column loops of benchmark.py are modelled twice: as a \<open>map\<close> over the columns
  (the reference) and as written, an index loop writing into a preallocated array, either
  a \<open>function\<close> with the measure \<open>cols - j\<close> or a \<open>while_option\<close>, whose result is
  \<open>None\<close> exactly when the loop does not end; both loops are proved to end.

  \<^bold>\<open>Theories and what they model.\<close>
  \<^item> \<open>Bounds\<close> (spec 4.1): \<open>clip_vec\<close> (\<open>np.clip\<close> on a row), \<open>uniform_row\<close> and
    \<open>init_population\<close> (\<open>lb + (ub - lb) * rand\<close>), the box predicate \<open>in_box\<close>.
  \<^item> \<open>DE_Engine\<close> (spec 4.3, 4.4; de_benchmark.py lines 11-39): the configuration record
    \<open>numpy_de\<close> and \<open>NumpyDE_init\<close>, mutation \<open>mutant_row\<close>/\<open>mutants\<close>, crossover
    \<open>crossover\<close>, greedy selection with best tracking \<open>de_select\<close>; the state invariant
    \<open>de_inv\<close> and its preservation by selection.
  \<^item> \<open>DE_Optimizer\<close> (spec 4.5): \<open>de_init\<close>, \<open>de_generation\<close>, \<open>de_loop\<close>,
    \<open>numpy_de_run\<close> (the state after \<open>n\<close> generations) and \<open>NumpyDE_optimize\<close>
    (\<open>NumpyDE.optimize\<close>, lines 20-40); the run's dependence on the fitness callable only
    through its values on in-box matrices (\<open>numpy_de_run_cong\<close>).
  \<^item> \<open>Rastrigin\<close>: the benchmark objective \<open>rastrigin\<close> (de_benchmark.py lines 6-9).
  \<^item> \<open>Entropy\<close> (spec 4.6): Mode B \<open>numpy_ewm_B\<close> (test_entropy.py) with \<open>p_matrix\<close>
    and \<open>plogp_masked\<close>; Mode A \<open>numpy_ewm_A\<close> (benchmark.py lines 6-42) with
    \<open>ewm_normalize_col\<close> and \<open>col_entropy\<close>.  Column-major inside, as numpy's
    \<open>axis=0\<close> reductions.
  \<^item> \<open>Entropy_Loops\<close>: Mode A as the code writes it, \<open>numpy_ewm_A_loop\<close>: the
    normalisation loop \<open>ewm_normalize_loop\<close> (lines 8-22, columns written by \<open>set_col\<close>
    into \<open>np.zeros_like(data)\<close>) and the entropy loop \<open>ewm_entropy_loop\<close> (lines 24-35)
    as \<open>while_option\<close>s.
  \<^item> \<open>Topsis\<close> (spec 4.7): \<open>numpy_topsis\<close> (benchmark.py lines 44-67) split into
    \<open>norm_factors\<close>, \<open>np_bcast\<close>, \<open>weighted_norm\<close>, \<open>ideal_col\<close>, \<open>euclid\<close> and
    \<open>topsis_distances\<close>; the code as written, \<open>numpy_topsis_loop\<close>, fills the ideal
    vectors in place with \<open>topsis_ideal_loop\<close> (lines 51-61).
  \<^item> \<open>Wrapper\<close> (spec 4.2, 4.5, 6; __init__.py): \<open>DE_new\<close> (\<open>DE.__new__\<close>),
    \<open>compile_to_native\<close> over the module state \<open>wrapper_env\<close> (\<open>HAS_NUMBA\<close>,
    \<open>_NUMBA_CACHE\<close>), the \<open>cfunc\<close> wrapper \<open>cfunc_wrapper\<close> with its row-major buffer
    \<open>unflatten\<close>, and \<open>DE_optimize\<close>.  A native callback has numba's \<open>void\<close> signature:
    it maps the input buffer and the output buffer's prior contents to the output buffer,
    and an exception inside it is written out as unraisable, leaving the buffer as it was.
    The native core is modelled from the spec: \<open>native_DE_new\<close> (validation),
    \<open>eval_source\<close> (the two evaluators, \<open>flatten\<close> for the input buffer, a
    zero-filled output buffer read back after the call) and \<open>core_optimize\<close>, the
    reference loop over that evaluator.
  \<^item> \<open>Benchmarks\<close> (de_benchmark.py lines 42-63): \<open>run_benchmark\<close> for the two
    \<open>engine\<close>s, the NumPy runs \<open>numpy_run\<close>, the Rust warm-up and runs \<open>rust_run\<close>,
    \<open>rust_runs\<close> (the wrapper's module state threaded through), and
    \<open>statistics.mean\<close> as \<open>py_mean\<close>; timing and printing are left out.  The same
    theory holds the README example test.py (\<open>objective_function\<close>, \<open>demo_script\<close>),
    shown to return a non-negative in-box cost (lemma \<open>demo_script_result\<close>).
  \<^item> \<open>DE_Scenarios\<close> (de_benchmark.py lines 65-84): the scenario table \<open>scenarios\<close>,
    one row \<open>scenario_row\<close> (both engines, mean times, the unguarded ratio of line 81)
    and \<open>de_main\<close>, which threads the wrapper's module state through the scenarios.
  \<^item> \<open>EWM_Benchmark\<close> (benchmark.py lines 69-112): the pipeline \<open>ewm_topsis_pipeline\<close>
    (lines 77-78), the timed loops \<open>repeat_loop\<close> of \<open>py_pass\<close> and \<open>rs_pass\<close>, the
    report \<open>timing_report\<close>, \<open>benchmark\<close> and \<open>bench_main\<close>.  The native
    \<open>entropy_weight\<close> and \<open>topsis\<close> are parameters: their source is not in the
    repository.
  \<^item> \<open>Spec_Native\<close> (spec 4.6, 4.7, 7, 9): the native \<open>entropy_weight\<close> and \<open>topsis\<close>
    modelled from the spec, since their source is not in the repository: Mode A
    \<open>spec_ewm_A\<close>, Mode B \<open>spec_ewm_B\<close> (with \<open>spec_normalize\<close>, \<open>spec_entropy\<close>,
    \<open>spec_weights\<close>), and \<open>spec_topsis\<close> with an explicit \<open>fallback\<close> score for
    degenerate rows; \<open>direction_of\<close> is the code's encoding of directions (1 = benefit).
  \<^item> This theory: the properties that span components.

  \<^bold>\<open>What is proved\<close> (claims C1-C32).
  \<^item> Optimizer (C1-C6, C29): the bounds invariant in every generation, whatever the fitness
    callable returns (C1); for a vectorised objective the returned cost is the objective at
    the returned position and no worse than any initial row (C2), the call always returns
    (C4), and \<open>iters = 0\<close> gives the best initial row (C5); the best cost never increases
    (C3); ties keep the incumbent (C6); for a vectorised objective the fitness vector is
    never stale and the best cost is its minimum, carried by a population row (C29).
    Lemmas: an exception aborts with no partial result (\<open>NumpyDE_error_aborts\<close>);
    degenerate mutation draws reproduce the base row (\<open>mutant_row_degenerate\<close>).
  \<^item> EWM benchmark driver (C7, C19): \<open>benchmark\<close> with \<open>iterations = 0\<close> raises
    \<open>ZeroDivisionError\<close> (C7); \<open>main()\<close> runs its four sizes without an exception and
    reports the mean times and their ratio when the draws meet their contracts and the
    native pipeline is total on valid input (C19).
  \<^item> Entropy weights (C8-C14): Mode B weights form a probability vector (Shannon's bound
    \<open>0 \<le> entropy \<le> 1\<close>) (C8), the row-count error (C9), an all-zero column gets the
    largest weight (divergence 1) in the test reference (C11), which otherwise computes
    the spec's Mode B (C14); the benchmark's Mode A refines the spec's Mode A (C10), its
    weights form a probability vector (C12), and it is Mode B on the normalised matrix
    (C13).  Lemmas: uniform weights for constant data (\<open>numpy_ewm_B_constant\<close>), an
    empty column raises (\<open>numpy_ewm_A_empty_error\<close>).
  \<^item> TOPSIS (C15-C18, C20): all assume that no column of the data is all zero, so that no
    column norm is 0 and \<open>weighted_norm\<close> never divides by zero.  Scores in \<open>[0, 1]\<close>
    with a non-zero divisor as soon as two weighted rows differ (C15); an ideal-best row
    scores 1 and an ideal-worst row 0 (C16, C17); when all weighted rows are equal both
    distances vanish in every row, so every score is \<open>0 / 0\<close> (C18), and two distinct
    input rows are not enough (lemma \<open>numpy_topsis_distinct_rows_nan\<close>);
    \<open>numpy_topsis\<close> refines the spec's TOPSIS except on degenerate rows, where the spec
    returns its fallback (C20); invariance under a change of unit of one column (lemma
    \<open>numpy_topsis_scale_invariant\<close>).
  \<^item> Objective and cross-component (C21-C23): Rastrigin is non-negative with its zero
    exactly at the origin (lemma \<open>rastrigin_values\<close>); DE on Rastrigin returns a
    non-negative cost equal to Rastrigin at the returned position (C21); the
    EWM-then-TOPSIS pipeline never raises on a rectangular matrix with two rows and a type
    per column (C22) and is invariant under a change of unit of one column (C23).
  \<^item> Wrapper (C24-C27): the fallback is transparent, so \<open>DE.optimize\<close> returns the
    reference result on every path when compilation is faithful or fails (C24); a fitness
    function that always raises gives \<open>EvaluationError\<close> without numba or when
    compilation fails, but a faithful compilation hides the exception inside the
    \<open>cfunc\<close> and \<open>DE.optimize\<close> returns a result (C25); the callback applies the
    jitted function to exactly the matrix behind its row-major buffer, broadcasts a
    one-value result and leaves the buffer untouched after an exception (C26); the compile
    cache keeps its invariant and a second compilation is a cache hit (C27).  Lemma:
    the documented construction defaults (\<open>DE_default_config\<close>).
  \<^item> DE scenario table (C28): both rows report equal non-negative costs for the two
    engines, and the script raises \<open>ZeroDivisionError\<close> exactly when a mean Rust time is 0.
  \<^item> Loops and drivers (C30-C32): both loops of Mode A compute the column-wise reference
    on a rectangular matrix (C30), and they end on every input (lemma
    \<open>numpy_ewm_A_loop_terminates\<close>); the in-place TOPSIS loop equals the reference on
    every input (C31); on Rastrigin the benchmark reports the same mean final cost for
    walitool's \<open>DE\<close> as for \<open>NumpyDE\<close>, warm-up and compile cache included, and that
    mean is non-negative (C32).

  \<^bold>\<open>Not modelled.\<close>  The clock itself (its readings are inputs) and the printing of the
  drivers, with \<open>platform\<close> introspection (output only, no effect on any value); the
  imports; numpy dtypes (\<open>np.zeros_like\<close> keeps an integer dtype, see the findings); numba's compiler itself (an external service, the
  parameter \<open>njit\<close>, taken to be faithful or failing in C24, C25); warnings; the code of
  the native core (no source: it is modelled from the spec, and no lemma about the
  repository's code depends on it); floating-point
  rounding; the statistical regression test of spec 8 (a bound on the best cost after 500
  random generations), which is a property of the random stream, not of the code.
\<close>

subsection \<open>Cross-component properties\<close>

lemma ewm_normalize_col_scale:
  assumes "0 < c"
  shows "ewm_normalize_col t j (map ((*) c) col) = ewm_normalize_col t j col"
proof (cases "col = []")
  case False
  have r: "c * np_max col - c * np_min col = c * (np_max col - np_min col)" by (simp add: algebra_simps)
  have "(c * x - c * np_min col) / (c * (np_max col - np_min col)) = (x - np_min col) / (np_max col - np_min col)"
       "(c * np_max col - c * x) / (c * (np_max col - np_min col)) = (np_max col - x) / (np_max col - np_min col)" for x
    using assms by (simp_all add: right_diff_distrib[symmetric])
  then show ?thesis
    using False assms by (simp add: ewm_normalize_col_def np_min_scale np_max_scale Let_def r)
qed (simp add: ewm_normalize_col_def)

lemma numpy_ewm_A_scale_column:
  assumes "wf_mat data" and "j < ncols data" and "0 < c"
  shows "numpy_ewm_A (scale_column j c data) t = numpy_ewm_A data t"
proof -
  have "mapM (\<lambda>k. ewm_normalize_col t k (column (scale_column j c data) k)) [0..<ncols data] =
        mapM (\<lambda>k. ewm_normalize_col t k (column data k)) [0..<ncols data]"
    by (rule mapM_cong) (simp add: column_scale_column[OF assms(1,2)] ewm_normalize_col_scale[OF assms(3)])
  moreover have "length (rows (scale_column j c data)) = length (rows data)" by (simp add: scale_column_def)
  ultimately show ?thesis unfolding numpy_ewm_A_def ncols_scale_column by simp
qed

text \<open>
  C23.  The whole EWM-then-TOPSIS pipeline is invariant under a change of unit of one
  indicator: scaling a column by a positive factor changes neither the Mode A weights
  (min-max normalisation absorbs it) nor the TOPSIS scores (the column norm absorbs it).
\<close>

theorem ewm_topsis_scale_invariant:
  assumes "wf_mat data" and "j < ncols data" and "0 < c"
  shows "ewm_topsis_pipeline (scale_column j c data) t = ewm_topsis_pipeline data t"
  by (simp add: ewm_topsis_pipeline_def numpy_ewm_A_scale_column[OF assms] numpy_topsis_def
      topsis_distances_scale_column[OF assms])

text \<open>
  C22 (spec section 7: the EWM/TOPSIS pipelines are total).  The benchmark pipeline
  (benchmark.py lines 77-78: Mode A weights, then TOPSIS with those weights) raises no
  exception on a rectangular matrix with at least two rows, at least one column and an
  indicator type for every column: the weights sum to 1 and there is one score per row.
\<close>

theorem ewm_topsis_total:
  assumes wf: "wf_mat data" and n: "2 \<le> length (rows data)" and m: "0 < ncols data"
    and ts: "ncols data \<le> length types"
  shows "\<exists>w s. numpy_ewm_A data types = Inr w \<and> sum_list w = 1 \<and> numpy_topsis data w types = Inr s \<and>
           ewm_topsis_pipeline data types = Inr s \<and> length s = length (rows data)"
proof -
  obtain w where w: "numpy_ewm_A data types = Inr w" "length w = ncols data" "sum_list w = 1"
    using numpy_ewm_A_total[OF n m ts] by blast
  have "rows data \<noteq> []" using n by auto
  then obtain s where "numpy_topsis data w types = Inr s" "length s = length (rows data)"
    using numpy_topsis_total[OF wf w(2) _ ts] by blast
  then show ?thesis using w by (simp add: ewm_topsis_pipeline_def)
qed

text \<open>
  C21 (spec section 8, the Rastrigin regression scenario).  \<open>NumpyDE.optimize\<close> on the
  benchmark's \<open>rastrigin\<close> always returns, with a configuration and random draws that
  meet their contracts; the returned cost is Rastrigin's value at the returned position,
  hence non-negative, the position lies within the bounds, and the cost is no worse than
  that of any initial row.
\<close>

theorem NumpyDE_rastrigin:
  assumes c: "wf_cfg c" and r: "wf_rng c rng iters"
  shows "\<exists>cost x. NumpyDE_optimize c rastrigin rng iters = Inr (cost, x) \<and> cost = rastrigin_row 10 (dim c) x \<and>
           0 \<le> cost \<and> in_box (lb c) (ub c) x \<and>
           (\<forall>p \<in> set (init_population (lb c) (ub c) (init_rand rng)). cost \<le> rastrigin_row 10 (dim c) p)"
  using rastrigin_optimize[OF c r] by blast

theorem NumpyDE_rastrigin_witness:
  "\<exists>cost x. NumpyDE_optimize \<lparr>pop_size = 2, dim = 1, lb = [-1], ub = [1], F = 1/2, CR = 7/10\<rparr> rastrigin
     \<lparr>init_rand = [[1/4], [3/4]], gen_rand = (\<lambda>_. \<lparr>idxs = [(0, 0, 1), (1, 0, 1)], cross_rand = [[1/2], [1/2]]\<rparr>)\<rparr> 1
     = Inr (cost, x) \<and> 0 \<le> cost \<and> in_box [-1] [1] x"
  using NumpyDE_rastrigin[OF conjunct1[OF de_example_wf] conjunct2[OF de_example_wf]] by auto

theorem ewm_topsis_total_witness:
  "\<exists>w s. numpy_ewm_A \<lparr>ncols = 3, rows = [[10, 20, 30], [15, 25, 35], [12, 18, 28], [9, 21, 31]]\<rparr> [1, 0, 1] = Inr w \<and>
     sum_list w = 1 \<and>
     ewm_topsis_pipeline \<lparr>ncols = 3, rows = [[10, 20, 30], [15, 25, 35], [12, 18, 28], [9, 21, 31]]\<rparr> [1, 0, 1] = Inr s \<and>
     length s = 4"
  using ewm_topsis_total[of "\<lparr>ncols = 3, rows = [[10, 20, 30], [15, 25, 35], [12, 18, 28], [9, 21, 31]]\<rparr>" "[1, 0, 1]"]
  by (auto simp: wf_mat_def)

theorem ewm_topsis_scale_invariant_witness:
  "ewm_topsis_pipeline (scale_column 1 2 \<lparr>ncols = 3, rows = [[10, 20, 30], [15, 25, 35], [12, 18, 28], [9, 21, 31]]\<rparr>) [1, 0, 1] =
   ewm_topsis_pipeline \<lparr>ncols = 3, rows = [[10, 20, 30], [15, 25, 35], [12, 18, 28], [9, 21, 31]]\<rparr> [1, 0, 1]"
  using ewm_topsis_scale_invariant[of "\<lparr>ncols = 3, rows = [[10, 20, 30], [15, 25, 35], [12, 18, 28], [9, 21, 31]]\<rparr>" 1 2]
  by (simp add: wf_mat_def)

end
